theory Spec2Isabelle
  imports Complex_Main "HOL-Library.Word" "HOL-Library.Signed_Division"
begin

section \<open>gst-variable-rtsp-server: data model\<close>

text \<open>
  The source file holds two versions of the program one after the other: version 1.4
  (lines 1 to 1251, snake\_case names) and version 1.5 (lines 1252 to 2826, camelCase
  names).  Both are embedded.  One record serves both versions and keeps the field names
  of version 1.4; version 1.5 calls the same fields \<open>numConnectedClients\<close> (\<open>num_cli\<close>),
  \<open>enableVariableMode\<close>, \<open>configInterval\<close>, \<open>minQuantLevel\<close>, \<open>maxQuantLevel\<close>,
  \<open>currentQuantLevel\<close>, \<open>minBitrate\<close>, \<open>maxBitrate\<close>, \<open>currentBitrate\<close>,
  \<open>periodicStatusMessageRate\<close> (\<open>msg_rate\<close>), \<open>statusPipe\<close>, \<open>statusPipeFd\<close>,
  \<open>statusPipeStream\<close> and \<open>videoInDevice\<close> (\<open>video_in\<close>), and adds \<open>capBitrate\<close>,
  \<open>rtspPortMin\<close> and \<open>rtspPortMax\<close>.
  A function whose body differs between the versions is embedded twice, under its two
  names; a function whose two bodies differ only in the names they use is embedded once
  and takes the version as an argument.
\<close>

subsection \<open>Machine integers\<close>

text \<open>
  \<open>gint\<close> is C's \<open>int\<close>, 32 bits on the target (ARM, i.MX6).  Addition, subtraction and
  multiplication are those of \<open>32 word\<close>, that is two's complement with wrap-around, which
  is what the target's instructions compute; comparisons read the word as signed
  (\<open>sint\<close>).  C's \<open>/\<close> truncates towards zero (\<open>sdiv\<close> on \<open>int\<close>) and traps on a zero
  divisor and on \<open>INT_MIN / -1\<close>: \<open>c_div\<close> returns \<open>None\<close> there.
\<close>

type_synonym gint = "32 word"

definition c_div :: "gint \<Rightarrow> gint \<Rightarrow> gint option" where
  "c_div a b =
     (if b = 0 \<or> (sint a = - (2 ^ 31) \<and> sint b = - 1) then None
      else Some (word_of_int (sint a sdiv sint b)))"

subsection \<open>The media pipeline, as far as the program looks at it\<close>

text \<open>
  An element has a name, static pads and a text that stands for the dump of its readable
  properties; a bin is the list of its elements.  \<open>gst_bin_get_by_name\<close> and
  \<open>gst_element_get_static_pad\<close> return \<open>NULL\<close> (\<open>None\<close>) when nothing has the name; called
  on a \<open>NULL\<close> element, GStreamer's argument check returns \<open>NULL\<close>.
\<close>

record gst_element =
  el_name :: string
  el_pads :: "string list"
  el_props :: string

type_synonym gst_bin = "gst_element list"

datatype gobject = Element gst_element | Pad gst_element string

definition gst_bin_get_by_name :: "gst_bin \<Rightarrow> string \<Rightarrow> gst_element option" where
  "gst_bin_get_by_name bin n = find (\<lambda>e. el_name e = n) bin"

definition gst_element_get_static_pad :: "gst_element option \<Rightarrow> string \<Rightarrow> gobject option" where
  "gst_element_get_static_pad el n =
     (case el of None \<Rightarrow> None
      | Some e \<Rightarrow> if n \<in> set (el_pads e) then Some (Pad e n) else None)"

text \<open>
  \<open>si->stream\<close> points to a \<open>malloc\<close>ed array indexed by
  \<open>enum {pipeline=0, source, encoder, protocol, sink}\<close>; only the first four slots are used.
\<close>

record stream_array =
  pipeline :: "gst_bin option"
  source :: "gst_element option"
  encoder :: "gst_element option"
  protocol :: "gst_element option"

subsection \<open>What the program prints, writes and sets\<close>

text \<open>
  Formatted output is kept as its pieces, in order: literal text and \<open>%s\<close> arguments as
  \<open>S\<close>, \<open>%d\<close> arguments as \<open>I\<close> (the number, not its decimal digits).
\<close>

datatype piece = S string | I gint

datatype gvalue = G_double real | G_int gint | G_string string

datatype event =
    Dbg nat string "piece list"
      \<comment> \<open>a line printed by \<open>_dbg\<close>: level, \<open>__func__\<close>, text\<close>
  | Print "piece list"
      \<comment> \<open>\<open>printf\<close>, \<open>g_print\<close>, \<open>g_printerr\<close>\<close>
  | Open_status_pipe string gint
      \<comment> \<open>a call of \<open>open(path, O_WRONLY)\<close> and the descriptor it returned\<close>
  | Pipe_msg string "piece list"
      \<comment> \<open>a message written to the status pipe stream inside the frame
          \<open>msg{\n type:<type>,\n data:{\n <payload> \n}}\n\<close>: type, payload\<close>
  | Set_property gobject string gvalue
      \<comment> \<open>\<open>g_object_set\<close> / \<open>g_object_set_property\<close> on a live object\<close>
  | Glib_critical string
      \<comment> \<open>GLib's \<open>g_return_if_fail\<close> warning of the named function, called on \<open>NULL\<close>\<close>
  | Set_state_null
      \<comment> \<open>\<open>gst_element_set_state(pipeline, GST_STATE_NULL)\<close>\<close>
  | Signal_connect string
      \<comment> \<open>\<open>g_signal_connect\<close> of the handler for the named signal\<close>
  | Timeout_add gint
      \<comment> \<open>\<open>g_timeout_add\<close> of the periodic message handler, with its interval\<close>

datatype fault =
    Division_trap
      \<comment> \<open>integer division by zero or \<open>INT_MIN / -1\<close>\<close>
  | Stream_unallocated
      \<comment> \<open>\<open>si->stream[...]\<close> while \<open>si->stream\<close> is \<open>NULL\<close> or freed\<close>
  | Buffer_overrun
      \<comment> \<open>a write past the end of \<open>ch_buffer[256]\<close> or of \<open>params[5][256]\<close>\<close>

datatype version = V1_4 | V1_5

subsection \<open>The program state\<close>

text \<open>
  \<open>struct stream_info\<close> (\<open>struct StreamInfo\<close> in 1.5), without the handles of the RTSP
  library that none of the embedded functions reads (\<open>main_loop\<close>, \<open>server\<close>, \<open>client\<close>,
  \<open>mounts\<close>, \<open>factory\<close>, \<open>media\<close>, \<open>userpipeline\<close>, \<open>command_pipe\<close>, the address pool
  and the two pipeline flags of 1.5).  After the fields of the struct come the two variables that
  live outside it (\<open>g_dbg\<close>, called \<open>debugLevel\<close> in 1.5, and the function-static
  \<open>first_run\<close>), then the environment the functions consult, then the output so far.
\<close>

record stream_info =
  num_cli :: gint
  stream :: "stream_array option"
  connected :: bool
  enable_variable_mode :: bool
  video_in :: string
  config_interval :: gint
  idr :: gint
  steps :: gint
  min_quant_lvl :: gint
  max_quant_lvl :: gint
  curr_quant_lvl :: gint
  min_bitrate :: gint
  max_bitrate :: gint
  cap_bitrate :: gint
  curr_bitrate :: gint
  msg_rate :: gint
  status_pipe :: "string option"
  status_pipe_fd :: gint
  status_pipe_stream :: "gint option"
  rtsp_port_min :: gint
  rtsp_port_max :: gint
  g_dbg :: nat
  first_run :: bool
  env_open :: "(gint \<times> bool) list"
    \<comment> \<open>what the coming calls of \<open>open\<close> on the status pipe return, and whether
        \<open>fdopen\<close> on that descriptor then succeeds; \<open>open\<close> fails once the list is used up\<close>
  env_atof :: "string \<Rightarrow> real"
    \<comment> \<open>the C library's \<open>atof\<close>\<close>
  env_strtod :: "string \<Rightarrow> real \<times> gint"
    \<comment> \<open>the C library's \<open>strtod\<close>: the value returned and the value \<open>errno\<close> has after
        the call (it is set to 0 just before)\<close>
  env_malloc :: stream_array
    \<comment> \<open>the indeterminate contents of the block \<open>malloc\<close> returns\<close>
  out :: "event list"

section \<open>Output primitives\<close>

text \<open>The newline, the double quote and the apostrophe, for use in texts.\<close>

definition nl :: string where
  "nl = [CHR 0x0A]"

definition dq :: string where
  "dq = [CHR 0x22]"

definition sq :: string where
  "sq = [CHR 0x27]"

definition emit :: "event \<Rightarrow> stream_info \<Rightarrow> stream_info" where
  "emit e si = si\<lparr>out := out si @ [e]\<rparr>"

text \<open>\<open>_dbg\<close> prints only if the debug level is at least the level of the message.\<close>

definition dbg :: "nat \<Rightarrow> string \<Rightarrow> piece list \<Rightarrow> stream_info \<Rightarrow> stream_info" where
  "dbg lvl func msg si = (if lvl \<le> g_dbg si then emit (Dbg lvl func msg) si else si)"

definition g_print :: "piece list \<Rightarrow> stream_info \<Rightarrow> stream_info" where
  "g_print msg si = emit (Print msg) si"

text \<open>
  \<open>g_object_set\<close>, \<open>g_object_set_property\<close> and \<open>gst_object_unref\<close> check their object
  argument: on \<open>NULL\<close> they log a critical warning and return.
\<close>

definition g_object_set_property ::
    "gobject option \<Rightarrow> string \<Rightarrow> gvalue \<Rightarrow> stream_info \<Rightarrow> stream_info" where
  "g_object_set_property obj name v si =
     (case obj of
        None \<Rightarrow> emit (Glib_critical ''g_object_set_property'') si
      | Some ob \<Rightarrow> emit (Set_property ob name v) si)"

definition gst_object_unref :: "'a option \<Rightarrow> stream_info \<Rightarrow> stream_info" where
  "gst_object_unref obj si =
     (case obj of None \<Rightarrow> emit (Glib_critical ''gst_object_unref'') si | Some _ \<Rightarrow> si)"

section \<open>QualityModel: \<open>change_quant\<close> and \<open>change_bitrate\<close>\<close>

text \<open>
  Version 1.4, lines 718 to 741.  \<open>scaled\<close> is the value first assigned to
  \<open>si->curr_quant_lvl\<close>, \<open>capped\<close> the value it holds after the cap.
\<close>

definition change_quant :: "stream_info \<Rightarrow> fault + stream_info" where
  "change_quant si0 =
     (let si = dbg 4 ''change_quant'' [S ''called''] si0 in
      case stream si of
        None \<Rightarrow> Inl Stream_unallocated
      | Some arr \<Rightarrow>
         (case encoder arr of
            None \<Rightarrow> Inr si
          | Some enc \<Rightarrow>
             (case c_div (max_quant_lvl si - min_quant_lvl si) (steps si) of
                None \<Rightarrow> Inl Division_trap
              | Some step \<Rightarrow>
                 (let c = curr_quant_lvl si;
                      scaled = ((num_cli si - 1) * step) + min_quant_lvl si;
                      capped = (if sint scaled > sint (max_quant_lvl si)
                                then max_quant_lvl si else scaled);
                      si1 = si\<lparr>curr_quant_lvl := capped\<rparr>
                  in Inr (if capped \<noteq> c
                          then g_object_set_property (Some (Element enc)) ''quant-param''
                                 (G_int capped)
                                 (g_print [S ''['', I (num_cli si), S '']Changing quant-lvl from '',
                                           I c, S '' to '', I capped, S nl] si1)
                          else si1)))))"

text \<open>Version 1.5, lines 2095 to 2119: the same, behind the extra test \<open>maxQuantLevel > 0\<close>.\<close>

definition changeQuant :: "stream_info \<Rightarrow> fault + stream_info" where
  "changeQuant si0 =
     (let si = dbg 4 ''changeQuant'' [S ''called''] si0 in
      case stream si of
        None \<Rightarrow> Inl Stream_unallocated
      | Some arr \<Rightarrow>
         (case encoder arr of
            None \<Rightarrow> Inr si
          | Some enc \<Rightarrow>
             if \<not> sint (max_quant_lvl si) > 0 then Inr si
             else
             (case c_div (max_quant_lvl si - min_quant_lvl si) (steps si) of
                None \<Rightarrow> Inl Division_trap
              | Some step \<Rightarrow>
                 (let c = curr_quant_lvl si;
                      scaled = ((num_cli si - 1) * step) + min_quant_lvl si;
                      capped = (if sint scaled > sint (max_quant_lvl si)
                                then max_quant_lvl si else scaled);
                      si1 = si\<lparr>curr_quant_lvl := capped\<rparr>
                  in Inr (if capped \<noteq> c
                          then g_object_set_property (Some (Element enc)) ''quant-param''
                                 (G_int capped)
                                 (g_print [S ''['', I (num_cli si), S '']Changing quant-lvl from '',
                                           I c, S '' to '', I capped, S nl] si1)
                          else si1)))))"

text \<open>
  Version 1.4, lines 747 to 771, and version 1.5, lines 2125 to 2151; the two bodies differ
  only in the name printed by \<open>dbg\<close>.  \<open>scaled\<close> is the value first assigned to
  \<open>si->curr_bitrate\<close>, \<open>snapped\<close> the value it holds after the cap to the minimum.
\<close>

definition change_bitrate :: "version \<Rightarrow> stream_info \<Rightarrow> fault + stream_info" where
  "change_bitrate v si0 =
     (let fn = (case v of V1_4 \<Rightarrow> ''change_bitrate'' | V1_5 \<Rightarrow> ''changeBitrate'');
          si = dbg 4 fn [S ''called''] si0 in
      case stream si of
        None \<Rightarrow> Inl Stream_unallocated
      | Some arr \<Rightarrow>
         (case encoder arr of
            None \<Rightarrow> Inr si
          | Some enc \<Rightarrow>
             (case c_div (max_bitrate si - min_bitrate si) (steps si) of
                None \<Rightarrow> Inl Division_trap
              | Some step \<Rightarrow>
                 (let c = curr_bitrate si;
                      scaled = max_bitrate si - ((num_cli si - 1) * step);
                      snapped = (if sint scaled < sint (min_bitrate si)
                                 then min_bitrate si else scaled);
                      si1 = (if sint scaled < sint (min_bitrate si)
                             then dbg 3 fn [S ''Snapping bitrate to '', I (min_bitrate si)] si
                             else si)\<lparr>curr_bitrate := snapped\<rparr>
                  in Inr (if snapped \<noteq> c
                          then g_object_set_property (Some (Element enc)) ''bitrate''
                                 (G_int snapped)
                                 (g_print [S ''['', I (num_cli si), S '']Changing bitrate from '',
                                           I c, S '' to '', I snapped, S nl] si1)
                          else si1)))))"

section \<open>IpcChannel: the status pipe\<close>

text \<open>
  \<open>open\<close> on the status pipe takes its result from the environment; \<open>fdopen\<close> fails on an
  invalid (negative) descriptor and otherwise as the environment says.
\<close>

definition next_open :: "stream_info \<Rightarrow> gint \<times> bool" where
  "next_open si = (case env_open si of [] \<Rightarrow> (- 1, False) | r # _ \<Rightarrow> r)"

definition fdopen :: "gint \<Rightarrow> bool \<Rightarrow> gint option" where
  "fdopen fd ok = (if 0 \<le> sint fd \<and> ok then Some fd else None)"

text \<open>Version 1.4, lines 154 to 174.  The descriptor starts as 0 (line 906).\<close>

definition setup_status_pipe_if_needed :: "stream_info \<Rightarrow> stream_info" where
  "setup_status_pipe_if_needed si =
     (case status_pipe si of
        None \<Rightarrow> si
      | Some path \<Rightarrow>
         if status_pipe_fd si \<noteq> 0 then si
         else
          (let fn = ''setup_status_pipe_if_needed'';
               si1 = dbg 4 fn [S ''opening status pipe ''] si;
               fd = fst (next_open si1);
               ok = snd (next_open si1);
               si2 = emit (Open_status_pipe path fd)
                       (si1\<lparr>status_pipe_fd := fd, env_open := tl (env_open si1)\<rparr>);
               si3 = (if sint fd \<le> 0
                      then dbg 4 fn [S ''Failed to open status pipe file descriptor ''] si2
                      else emit (Print [S ''status pipe fd = '', I fd, S nl]) si2);
               si4 = dbg 4 fn [S ''Creating status pipe stream ''] si3;
               si5 = si4\<lparr>status_pipe_stream := fdopen fd ok\<rparr>;
               si6 = (if status_pipe_stream si5 = None
                      then dbg 4 fn [S ''Failed to open status pipe stream ''] si5 else si5)
           in dbg 4 fn [S ''status pipe ready ''] si6))"

text \<open>Version 1.5, lines 1464 to 1490.  \<open>NO_FILE\<close> is \<open>-1\<close>; the descriptor starts as \<open>NO_FILE\<close>.\<close>

definition NO_FILE :: gint where
  "NO_FILE = - 1"

definition setupStatusPipeIfNeeded :: "stream_info \<Rightarrow> stream_info" where
  "setupStatusPipeIfNeeded si =
     (case status_pipe si of
        None \<Rightarrow> si
      | Some path \<Rightarrow>
         if status_pipe_fd si \<noteq> NO_FILE then si
         else
          (let fn = ''setupStatusPipeIfNeeded'';
               si1 = dbg 4 fn [S ''opening status pipe ''] si;
               fd = fst (next_open si1);
               ok = snd (next_open si1);
               si2 = emit (Open_status_pipe path fd)
                       (si1\<lparr>status_pipe_fd := fd, env_open := tl (env_open si1)\<rparr>)
           in if sint fd \<le> 0
              then dbg 4 fn [S ''Failed to open status pipe file descriptor ''] si2
              else
               (let si3 = emit (Print [S ''status pipe fd = '', I fd, S nl]) si2;
                    si4 = dbg 4 fn [S ''Creating status pipe stream ''] si3;
                    si5 = si4\<lparr>status_pipe_stream := fdopen fd ok\<rparr>
                in if status_pipe_stream si5 = None
                   then dbg 4 fn [S ''Failed to open status pipe stream ''] si5
                   else dbg 4 fn [S ''status pipe ready ''] si5)))"

text \<open>Version 1.4, lines 176 to 197.\<close>

definition send_status_pipe_msg :: "string \<Rightarrow> piece list \<Rightarrow> stream_info \<Rightarrow> stream_info" where
  "send_status_pipe_msg msg_type body si0 =
     (let si = setup_status_pipe_if_needed si0 in
      case status_pipe_stream si of
        Some _ \<Rightarrow> emit (Pipe_msg msg_type body) si
      | None \<Rightarrow> emit (Print (S ''status-reply: {'' # body @ [S ''}''])) si)"

text \<open>Version 1.5, lines 1492 to 1517.\<close>

definition sendStatusPipeMessage :: "string \<Rightarrow> piece list \<Rightarrow> stream_info \<Rightarrow> stream_info" where
  "sendStatusPipeMessage messageType body si0 =
     (let si = setupStatusPipeIfNeeded si0 in
      case status_pipe_stream si of
        Some _ \<Rightarrow> emit (Pipe_msg messageType body) si
      | None \<Rightarrow>
          emit (Print ([S (''status-reply: {'' @ nl), S (''msg{'' @ nl @ ''type:''), S messageType,
                        S ('','' @ nl @ ''data:{'' @ nl)]
                       @ body @ [S (nl @ ''}}'' @ nl), S (nl @ ''}'' @ nl)])) si)"

definition send_status :: "version \<Rightarrow> string \<Rightarrow> piece list \<Rightarrow> stream_info \<Rightarrow> stream_info" where
  "send_status v = (case v of V1_4 \<Rightarrow> send_status_pipe_msg | V1_5 \<Rightarrow> sendStatusPipeMessage)"

section \<open>CommandProtocol\<close>

subsection \<open>The \<open>status\<close> command\<close>

text \<open>
  Version 1.4, lines 446 to 479; the macro \<open>do_command_status(si)\<close> passes \<open>__func__\<close> and
  \<open>__LINE__\<close> of the caller.
\<close>

definition do_command_status :: "string \<Rightarrow> gint \<Rightarrow> stream_info \<Rightarrow> stream_info" where
  "do_command_status functionname line si =
     send_status_pipe_msg ''status''
       ([S ''source:'', S dq, S functionname, S '':'', I line, S dq, S '','', S nl,
         S ''num_cli:'', I (num_cli si), S '','', S nl,
         S ''connected:'', S (if connected si then ''true'' else ''false''), S '','', S nl,
         S ''config_interval:'', I (config_interval si), S '','', S nl,
         S ''idr:'', I (idr si), S '','', S nl]
        @ (if enable_variable_mode si
           then [S ''enable_variable_mode:true,'', S nl,
                 S ''steps:'', I (steps si), S '','', S nl,
                 S ''curr_quant_lvl:'', I (curr_quant_lvl si), S '','', S nl,
                 S ''min_quant_lvl:'', I (min_quant_lvl si), S '','', S nl,
                 S ''max_quant_lvl:'', I (max_quant_lvl si), S '','', S nl,
                 S ''curr_bitrate:'', I (curr_bitrate si), S '','', S nl,
                 S ''min_bitrate:'', I (min_bitrate si), S '','', S nl,
                 S ''max_bitrate:'', I (max_bitrate si), S '','', S nl]
           else [S ''enable_variable_mode:false,'', S nl])
        @ [S ''periodic_msg_rate:'', I (msg_rate si)]) si"

text \<open>
  Version 1.5, lines 1790 to 1823.  The text is built with \<open>snprintf\<close> into a buffer of
  500 bytes, which it does not fill for 32-bit numbers.
\<close>

definition doCommandSendStatus :: "string \<Rightarrow> gint \<Rightarrow> stream_info \<Rightarrow> stream_info" where
  "doCommandSendStatus functionname line si =
     sendStatusPipeMessage ''status''
       ([S ''source:'', S dq, S functionname, S '':'', I line, S dq, S '','', S nl,
         S ''numConnectedClients:'', I (num_cli si), S '','', S nl,
         S ''connected:'', S (if connected si then ''true'' else ''false''), S '','', S nl,
         S ''configInterval:'', I (config_interval si), S '','', S nl,
         S ''idr:'', I (idr si), S '','', S nl]
        @ (if enable_variable_mode si
           then [S ''enableVariableMode:true,'', S nl,
                 S ''steps:'', I (steps si), S '','', S nl,
                 S ''minQuantLevel:'', I (min_quant_lvl si), S '','', S nl,
                 S ''maxQuantLevel:'', I (max_quant_lvl si), S '','', S nl,
                 S ''minBitrate:'', I (min_bitrate si), S '','', S nl,
                 S ''maxBitrate:'', I (max_bitrate si), S '','', S nl]
           else [S ''enableVariableMode:false,'', S nl])
        @ [S ''currentBitrate:'', I (curr_bitrate si), S '','', S nl,
           S ''currentQuantLevel:'', I (curr_quant_lvl si), S '','', S nl,
           S ''periodic_msg_rate:'', I (msg_rate si)]) si"

text \<open>
  The line numbers the callers pass are those of the two original files (version 1.5
  starts at line 1252 of the source file).
\<close>

definition command_status :: "version \<Rightarrow> string \<Rightarrow> gint \<Rightarrow> stream_info \<Rightarrow> stream_info" where
  "command_status v = (case v of V1_4 \<Rightarrow> do_command_status | V1_5 \<Rightarrow> doCommandSendStatus)"

subsection \<open>The \<open>setparam\<close> command\<close>

text \<open>Version 1.4, lines 199 to 278.  The value is converted by \<open>atof\<close>.\<close>

definition do_command_setparam ::
    "string \<Rightarrow> string \<Rightarrow> string \<Rightarrow> string \<Rightarrow> string \<Rightarrow> stream_info \<Rightarrow> fault + stream_info" where
  "do_command_setparam action elementName padName paramName paramValue si0 =
     (let fn = ''do_command_setparam'';
          reply = [S elementName, S '':'', S padName, S '':'', S paramName, S '':'',
                   S paramValue, S '':not streaming''];
          si = dbg 0 fn [S ''action: ['', S action, S ''], element: ['', S elementName,
                         S ''], padName: ['', S padName, S ''], paramName: ['', S paramName,
                         S ''], paramValue: ['', S paramValue, S '']''] si0
      in
      if \<not> connected si then
        Inr (send_status_pipe_msg ''setparam'' reply
               (dbg 0 fn [S ''not connected, nothing to do.''] si))
      else
       (let si1 = dbg 0 fn [S ''getting pipeline'']
                    (dbg 0 fn [S ''Connected! Lets do this!''] si) in
        case stream si1 of
          None \<Rightarrow> Inl Stream_unallocated
        | Some arr \<Rightarrow>
           (case pipeline arr of
              None \<Rightarrow>
                Inr (dbg 0 fn [S ''ERROR: pipeline element not populated, is there a stream running?'']
                       (send_status_pipe_msg ''setparam'' reply si1))
            | Some bin \<Rightarrow>
               (let si2 = dbg 0 fn [S ''get element: ['', S elementName, S '']''] si1;
                    gstElement = gst_bin_get_by_name bin elementName;
                    si3 = (if gstElement = None
                           then dbg 0 fn [S ''ERROR: Failed getting the element name = '', S elementName]
                                  (send_status_pipe_msg ''setparam'' reply si2)
                           else si2);
                    si4 = dbg 0 fn [S ''get pad''] si3;
                    gstPad = (if padName = [] then None
                              else gst_element_get_static_pad gstElement padName)
                in
                if padName \<noteq> [] \<and> gstPad = None then
                  Inr (dbg 0 fn [S ''Failed to get static pad '', S padName]
                         (send_status_pipe_msg ''setparam'' reply (gst_object_unref gstElement si4)))
                else
                 (let si5 = (if padName = []
                             then dbg 1 fn [S ''No Pad provided, setting element property.''] si4
                             else si4);
                      si6 = dbg 0 fn [S ''parsing value''] si5;
                      val = env_atof si6 paramValue;
                      si7 = dbg 0 fn [S ''setting property''] si6;
                      si8 = (if gstPad \<noteq> None
                             then gst_object_unref gstPad
                                    (g_object_set_property gstPad paramName (G_double val) si7)
                             else g_object_set_property (map_option Element gstElement) paramName
                                    (G_double val) si7);
                      si9 = send_status_pipe_msg ''setparam'' reply si8
                  in Inr (gst_object_unref gstElement si9))))))"

text \<open>
  Version 1.5, lines 1519 to 1607.  No reply is sent; the value is converted by \<open>strtod\<close>
  and the property is set unless \<open>errno\<close> is nonzero after the call.
\<close>

definition doCommandSetParameter ::
    "string \<Rightarrow> string \<Rightarrow> string \<Rightarrow> string \<Rightarrow> string \<Rightarrow> stream_info \<Rightarrow> fault + stream_info" where
  "doCommandSetParameter action elementName padName paramName paramValue si0 =
     (let fn = ''doCommandSetParameter'';
          si = dbg 0 fn [S ''action: ['', S action, S ''], element: ['', S elementName,
                         S ''], padName: ['', S padName, S ''], paramName: ['', S paramName,
                         S ''], paramValue: ['', S paramValue, S '']''] si0
      in
      if \<not> connected si then
        Inr (dbg 0 fn [S ''not connected, nothing to do.''] si)
      else
       (let si1 = dbg 0 fn [S ''getting pipeline'']
                    (dbg 0 fn [S ''Connected! Lets do this!''] si) in
        case stream si1 of
          None \<Rightarrow> Inl Stream_unallocated
        | Some arr \<Rightarrow>
           (case pipeline arr of
              None \<Rightarrow>
                Inr (dbg 0 fn [S ''ERROR: pipeline element not populated, is there a stream running?'']
                       si1)
            | Some bin \<Rightarrow>
               (let si2 = dbg 0 fn [S ''get element: ['', S elementName, S '']''] si1;
                    gstElement = gst_bin_get_by_name bin elementName;
                    si3 = (if gstElement = None
                           then dbg 0 fn [S ''ERROR: Failed getting the element name = '', S elementName]
                                  si2
                           else si2);
                    si4 = dbg 0 fn [S ''get pad''] si3;
                    gstPad = (if padName = [] then None
                              else gst_element_get_static_pad gstElement padName)
                in
                if padName \<noteq> [] \<and> gstPad = None then
                  Inr (dbg 0 fn [S ''Failed to get static pad '', S padName]
                         (gst_object_unref gstElement si4))
                else
                 (let si5 = (if padName = []
                             then dbg 1 fn [S ''No Pad provided, setting element property.''] si4
                             else si4);
                      si6 = dbg 0 fn [S ''parsing value''] si5;
                      val = fst (env_strtod si6 paramValue);
                      errno = snd (env_strtod si6 paramValue);
                      si7 = (if errno \<noteq> 0
                             then dbg 0 fn [S ''invalid value sent for setparam. errno:['', I errno,
                                            S '']; value: ['', S paramValue, S ''] ''] si6
                             else
                              (let si6a = dbg 0 fn [S ''setting property''] si6 in
                               if gstPad \<noteq> None
                               then gst_object_unref gstPad
                                      (g_object_set_property gstPad paramName (G_double val) si6a)
                               else g_object_set_property (map_option Element gstElement) paramName
                                      (G_double val) si6a))
                  in Inr (gst_object_unref gstElement si7))))))"

definition command_setparam ::
    "version \<Rightarrow> string \<Rightarrow> string \<Rightarrow> string \<Rightarrow> string \<Rightarrow> string \<Rightarrow> stream_info
       \<Rightarrow> fault + stream_info" where
  "command_setparam v = (case v of V1_4 \<Rightarrow> do_command_setparam | V1_5 \<Rightarrow> doCommandSetParameter)"

subsection \<open>The \<open>printbin\<close> command\<close>

text \<open>
  \<open>print_object_properties_info\<close> (lines 282 to 444; \<open>printObjectPropertiesInfo\<close>, lines
  1615 to 1788) formats the readable properties of one element and sends the text as one
  status message.  The formatting reads GObject properties, which the element of this
  model carries as the finished text \<open>el_props\<close>.
\<close>

definition print_object_properties_info :: "version \<Rightarrow> gst_element \<Rightarrow> stream_info \<Rightarrow> stream_info" where
  "print_object_properties_info v element si =
     send_status v (case v of V1_4 \<Rightarrow> ''pipelineobjectprops'' | V1_5 \<Rightarrow> ''elementprops'')
       [S (el_props element)] si"

text \<open>
  Lines 480 to 523 and 1824 to 1875.  The iterator yields the elements of the bin in turn;
  \<open>GST_IS_BIN\<close> is false on \<open>NULL\<close>.
\<close>

definition do_command_print_bin :: "version \<Rightarrow> stream_info \<Rightarrow> fault + stream_info" where
  "do_command_print_bin v si =
     (let fn = (case v of V1_4 \<Rightarrow> ''do_command_print_bin'' | V1_5 \<Rightarrow> ''doCommandPrintBin'') in
      if \<not> connected si then Inr (dbg 0 fn [S ''not connected, nothing to do.''] si)
      else
       (let si1 = dbg 0 fn [S ''Connected! Lets do this!''] si in
        case stream si1 of
          None \<Rightarrow> Inl Stream_unallocated
        | Some arr \<Rightarrow>
           (case pipeline arr of
              None \<Rightarrow> Inr si1
            | Some bin \<Rightarrow>
                Inr (fold (\<lambda>element s. emit (Print [S nl]) (print_object_properties_info v element s))
                       bin si1))))"

subsection \<open>Parsing and dispatch\<close>

text \<open>
  Memory that holds text is a list of bytes.  \<open>c_string mem\<close> is the C string that starts
  at the first byte of \<open>mem\<close>: the bytes before the first 0.  This is what \<open>%s\<close> prints and
  what \<open>strcmp\<close> and \<open>strlen\<close> read (if \<open>mem\<close> holds no 0 it is all of \<open>mem\<close>; the C
  functions then read on past the memory of the model).
\<close>

definition c_string :: "string \<Rightarrow> string" where
  "c_string mem = takeWhile (\<lambda>c. c \<noteq> CHR 0x00) mem"

text \<open>
  \<open>catme\<close> is the two-byte array made of one character of the command and a terminating
  0: as a C string it is empty when the character is 0.
\<close>

definition catme :: "char \<Rightarrow> string" where
  "catme c = (if c = CHR 0x00 then [] else [c])"

text \<open>
  \<open>strcat(mem + dest, src)\<close>: the bytes of \<open>src\<close> and a terminating 0 are written where the
  C string at \<open>dest\<close> ends.  \<open>char params[5][256]\<close> is one block of 1280 bytes, so a field
  that outgrows its row runs on into the next row; a write past the end of the block is a
  fault.
\<close>

definition strcat :: "string \<Rightarrow> nat \<Rightarrow> string \<Rightarrow> fault + string" where
  "strcat mem dest src =
     (let e = dest + length (c_string (drop dest mem)) in
      if e + length src < length mem
      then Inr (take e mem @ src @ CHR 0x00 # drop (e + length src + 1) mem)
      else Inl Buffer_overrun)"

text \<open>
  The loop of \<open>process_command\<close> (lines 534 to 545, 1886 to 1901) over the bytes
  \<open>command[i]\<close>, \<open>i < len\<close>: \<open>delimeter\<close> counts the separators seen so far (at most \<open>len\<close>,
  so the \<open>int\<close> does not overflow), \<open>params\<close> is the block \<open>char params[5][256]\<close>, whose
  row \<open>k\<close> starts at byte \<open>k * 256\<close>.
\<close>

fun scan_command ::
    "string \<Rightarrow> string \<Rightarrow> nat \<Rightarrow> string \<Rightarrow> stream_info
       \<Rightarrow> fault + (nat \<times> string \<times> stream_info)" where
  "scan_command fn [] delimeter params si = Inr (delimeter, params, si)"
| "scan_command fn (c # cs) delimeter params si =
     (if catme c = '':'' \<or> catme c = nl then scan_command fn cs (delimeter + 1) params si
      else if delimeter \<le> 4 then
        (case strcat params (delimeter * 256) (catme c) of
           Inl f \<Rightarrow> Inl f
         | Inr params' \<Rightarrow> scan_command fn cs delimeter params' si)
      else scan_command fn cs delimeter params
             (dbg 0 fn [S ''extra character: '', S (catme c)] si))"

text \<open>
  The dispatch on the action, lines 547 to 566 and 1903 to 1928; the arguments are the
  count of separators and the five C strings \<open>params[0]\<close> to \<open>params[4]\<close>.
\<close>

definition run_command :: "version \<Rightarrow> nat \<Rightarrow> string list \<Rightarrow> stream_info \<Rightarrow> fault + stream_info" where
  "run_command v delimeter params si1 =
     (let fn = (case v of V1_4 \<Rightarrow> ''process_command'' | V1_5 \<Rightarrow> ''processCommand'') in
      if params ! 0 = ''setparam'' then
        (let si2 = dbg 4 fn [S (case v of V1_4 \<Rightarrow> ''calling do_command_setparam''
                                       | V1_5 \<Rightarrow> ''calling doCommandSetParameter'')] si1 in
         if delimeter < 4
         then Inr (dbg 0 fn [S ''not enough values: '', I (of_nat delimeter)] si2)
         else command_setparam v (params ! 0) (params ! 1) (params ! 2) (params ! 3)
                (params ! 4) si2)
      else if params ! 0 = ''printbin'' then
        do_command_print_bin v
          (dbg 4 fn [S (case v of V1_4 \<Rightarrow> ''calling do_command_print_bin''
                                | V1_5 \<Rightarrow> ''calling doCommandPrintBin'')] si1)
      else if params ! 0 = ''status'' then
        Inr (command_status v fn (case v of V1_4 \<Rightarrow> 563 | V1_5 \<Rightarrow> 672)
               (dbg 4 fn [S (case v of V1_4 \<Rightarrow> ''calling do_command_status''
                                     | V1_5 \<Rightarrow> ''calling doCommandSendStatus'')] si1))
      else Inr (dbg 0 fn [S ''Undefined action ['', S (params ! 0), S '']''] si1))"

text \<open>
  Lines 524 to 568 and 1876 to 1930.  \<open>command\<close> is the memory the pointer passed in
  points to, of which the loop reads the first \<open>len\<close> bytes; the first \<open>dbg\<close> prints it
  as a C string.  \<open>params\<close> starts as 1280 zero bytes.
\<close>

definition process_command :: "version \<Rightarrow> string \<Rightarrow> nat \<Rightarrow> stream_info \<Rightarrow> fault + stream_info" where
  "process_command v command len si0 =
     (let fn = (case v of V1_4 \<Rightarrow> ''process_command'' | V1_5 \<Rightarrow> ''processCommand'');
          si = dbg 0 fn [S '' Command: '', S (c_string command)] si0
      in
      case scan_command fn (take len command) 0 (replicate (5 * 256) (CHR 0x00)) si of
        Inl f \<Rightarrow> Inl f
      | Inr (delimeter, params, si1) \<Rightarrow>
          run_command v delimeter (map (\<lambda>k. c_string (drop (k * 256) params)) [0..<5]) si1)"

subsection \<open>The reader of the command pipe\<close>

text \<open>
  Lines 570 to 598 and 1932 to 1963.  \<open>avail\<close> is what the command pipe holds when the
  timer calls \<open>reader\<close>: \<open>read\<close> delivers these bytes one at a time and then returns a
  value \<open>\<le> 0\<close> (no data on the non-blocking descriptor, or end of file), which ends the
  loop.  \<open>mem\<close> is the memory from \<open>ch_buffer[0]\<close> on, that is the 256 bytes of the buffer
  and what follows them on the stack; \<open>pos\<close> is the local of that name (at most 256, so
  the \<open>int\<close> does not overflow).  Storing a byte at \<open>pos = 256\<close> writes past the buffer.
  \<open>strcpy(ch_buffer, "")\<close> writes one 0 at \<open>ch_buffer[0]\<close>.
\<close>

fun reader_loop :: "version \<Rightarrow> string \<Rightarrow> string \<Rightarrow> nat \<Rightarrow> stream_info \<Rightarrow> fault + stream_info" where
  "reader_loop v [] mem pos si =
     (if pos \<ge> 256
      then Inr (dbg 0 ''reader'' [S ''Invalid command! ['', S (c_string mem), S '']''] si)
      else if pos > 0
      then process_command v mem pos (dbg 0 ''reader'' [S ''command is '', S (c_string mem)] si)
      else Inr si)"
| "reader_loop v (ch # rest) mem pos si =
     (if ch \<noteq> CHR 0x0A then
        (if pos \<ge> 256 then Inl Buffer_overrun
         else reader_loop v rest (mem[pos := ch]) (pos + 1) si)
      else if pos \<ge> 256
      then reader_loop v rest (mem[0 := CHR 0x00]) 0
             (dbg 0 ''reader'' [S ''Invalid command! ['', S (c_string mem), S '']''] si)
      else if pos > 0
      then (case process_command v mem pos
                   (dbg 0 ''reader'' [S ''command is '', S (c_string mem)] si) of
              Inl f \<Rightarrow> Inl f
            | Inr si' \<Rightarrow> reader_loop v rest (mem[0 := CHR 0x00]) 0 si')
      else reader_loop v rest mem 0 si)"

text \<open>
  \<open>ch_buffer\<close> is not initialised: \<open>stack\<close> is what the memory at and after \<open>ch_buffer\<close>
  holds when \<open>reader\<close> is entered (a \<open>stack\<close> given shorter than the buffer is continued
  with zero bytes).
\<close>

definition reader :: "version \<Rightarrow> string \<Rightarrow> string \<Rightarrow> stream_info \<Rightarrow> fault + stream_info" where
  "reader v stack avail si =
     reader_loop v avail (stack @ replicate (256 - length stack) (CHR 0x00)) 0 si"

section \<open>SessionController: the callbacks\<close>

subsection \<open>\<open>media-configure\<close>\<close>

text \<open>
  The four blocks of the handler, which both versions have.  The source (lines 659 to
  667, 2037 to 2046):
\<close>

definition configure_source :: "stream_array \<Rightarrow> stream_info \<Rightarrow> stream_info" where
  "configure_source arr si =
     (case source arr of
        Some src \<Rightarrow>
          g_object_set_property (Some (Element src)) ''device'' (G_string (video_in si))
            (g_print [S ''Setting input device='', S (video_in si), S nl] si)
      | None \<Rightarrow>
          g_print [S (''Couldn'' @ sq @ ''t get source (source0) pipeline element''), S nl] si)"

text \<open>
  The encoder.  Version 1.4 (lines 668 to 687) sets its properties only in variable mode,
  version 1.5 (lines 2047 to 2060) always.
\<close>

definition set_encoder_properties :: "gst_element \<Rightarrow> stream_info \<Rightarrow> stream_info" where
  "set_encoder_properties enc si =
     g_object_set_property (Some (Element enc)) ''idr-interval'' (G_int (idr si))
       (g_object_set_property (Some (Element enc)) ''quant-param'' (G_int (curr_quant_lvl si))
          (g_print [S ''Setting encoder quant-param='', I (curr_quant_lvl si), S nl]
             (g_object_set_property (Some (Element enc)) ''bitrate'' (G_int (curr_bitrate si))
                (g_print [S ''Setting encoder bitrate='', I (curr_bitrate si), S nl] si))))"

definition configure_encoder :: "version \<Rightarrow> stream_array \<Rightarrow> stream_info \<Rightarrow> stream_info" where
  "configure_encoder v arr si =
     (case encoder arr of
        Some enc \<Rightarrow>
          (case v of
             V1_4 \<Rightarrow>
               if enable_variable_mode si then set_encoder_properties enc si
               else dbg 2 ''media_configure_handler'' [S ''Not setting any encoder properties''] si
           | V1_5 \<Rightarrow> set_encoder_properties enc si)
      | None \<Rightarrow>
          g_print [S (''Couldn'' @ sq @ ''t get encoder (enc0) pipeline element''), S nl] si)"

text \<open>The payloader (lines 689 to 698, 2062 to 2072).\<close>

definition configure_protocol :: "stream_array \<Rightarrow> stream_info \<Rightarrow> stream_info" where
  "configure_protocol arr si =
     (case protocol arr of
        Some pay \<Rightarrow>
          g_object_set_property (Some (Element pay)) ''config-interval'' (G_int (config_interval si))
            (g_print [S ''Setting rtp config-interval='', I (config_interval si), S nl] si)
      | None \<Rightarrow>
          g_print [S (''Couldn'' @ sq @ ''t get protocol (pay0) pipeline element''), S nl] si)"

text \<open>The timer of the periodic message, for the first client (lines 700 to 711, 2074 to 2088).\<close>

definition configure_timer :: "string \<Rightarrow> stream_info \<Rightarrow> stream_info" where
  "configure_timer fn si =
     (if num_cli si = 1
      then (if sint (msg_rate si) > 0
            then emit (Timeout_add (msg_rate si * 1000))
                   (dbg 4 fn [S (''Creating '' @ sq @ ''periodic message'' @ sq @ '' handler'')] si)
            else dbg 4 fn [S (sq @ ''periodic message'' @ sq @ '' handler disabled'')] si)
      else si)"

text \<open>
  Lines 642 to 712 and 2020 to 2089.  The argument \<open>media\<close> is the bin that
  \<open>gst_rtsp_media_get_element(media)\<close> returns; the four slots of the array are
  assigned, then the four blocks run.
\<close>

definition media_configure_handler :: "version \<Rightarrow> gst_bin \<Rightarrow> stream_info \<Rightarrow> fault + stream_info" where
  "media_configure_handler v media si0 =
     (let fn = (case v of V1_4 \<Rightarrow> ''media_configure_handler'' | V1_5 \<Rightarrow> ''mediaConfigureHandler'');
          si = g_print [S ''['', I (num_cli si0), S '']Configuring pipeline...'', S nl]
                 (dbg 4 fn [S ''called''] si0)
      in
      case stream si of
        None \<Rightarrow> Inl Stream_unallocated
      | Some arr \<Rightarrow>
         (let arr' = arr\<lparr>pipeline := Some media,
                         source := gst_bin_get_by_name media ''source0'',
                         encoder := gst_bin_get_by_name media ''enc0'',
                         protocol := gst_bin_get_by_name media ''pay0''\<rparr>
          in Inr (configure_timer fn
                    (configure_protocol arr'
                       (configure_encoder v arr'
                          (configure_source arr' (si\<lparr>stream := Some arr'\<rparr>)))))))"

subsection \<open>A client leaves\<close>

text \<open>
  What the close handlers do before they branch on the client count (lines 780 to 784,
  2161 to 2165) and on their way out (lines 828, 2216).
\<close>

definition close_enter :: "string \<Rightarrow> stream_info \<Rightarrow> stream_info" where
  "close_enter fn si0 =
     (let si = (dbg 4 fn [S ''called''] si0)\<lparr>num_cli := num_cli si0 - 1\<rparr>
      in g_print [S ''['', I (num_cli si), S '']Client is closing down'', S nl] si)"

definition close_leave :: "string \<Rightarrow> stream_info \<Rightarrow> stream_info" where
  "close_leave fn si = dbg 4 fn [S ''exiting''] si"

text \<open>
  The branch for the last client (lines 786 to 818, 2168 to 2200): the bound elements are
  released, the array is freed, a status message is sent.
\<close>

definition close_last :: "version \<Rightarrow> string \<Rightarrow> stream_info \<Rightarrow> fault + stream_info" where
  "close_last v fn si0 =
     (let si = (dbg 3 fn [S ''Connection terminated''] si0)\<lparr>connected := False\<rparr> in
      case stream si of
        None \<Rightarrow> Inl Stream_unallocated
      | Some arr \<Rightarrow>
         (let si1 = (case pipeline arr of
                       Some _ \<Rightarrow> emit Set_state_null (dbg 4 fn [S ''deleting pipeline''] si)
                     | None \<Rightarrow> si);
              si2 = (case source arr of
                       Some _ \<Rightarrow> dbg 4 fn [S ''deleting source''] si1 | None \<Rightarrow> si1);
              si3 = (case encoder arr of
                       Some _ \<Rightarrow> dbg 4 fn [S ''deleting encoder''] si2 | None \<Rightarrow> si2);
              si4 = (case protocol arr of
                       Some _ \<Rightarrow> dbg 4 fn [S ''deleting protocol''] si3 | None \<Rightarrow> si3);
              si5 = (dbg 4 fn [S ''freeing si->stream''] si4)\<lparr>stream := None\<rparr>
          in Inr (command_status v fn (case v of V1_4 \<Rightarrow> 818 | V1_5 \<Rightarrow> 949) si5)))"

text \<open>
  Version 1.4, lines 778 to 829: with clients remaining, the adaptation is chosen by the
  current bitrate.
\<close>

definition client_close_handler :: "stream_info \<Rightarrow> fault + stream_info" where
  "client_close_handler si0 =
     (let fn = ''client_close_handler'';
          si = close_enter fn si0
      in
      case (if num_cli si = 0 then close_last V1_4 fn si
            else if enable_variable_mode si
            then (if curr_bitrate si \<noteq> 0 then change_bitrate V1_4 si else change_quant si)
            else Inr si) of
        Inl f \<Rightarrow> Inl f
      | Inr si' \<Rightarrow> Inr (close_leave fn si'))"

text \<open>
  Version 1.5, lines 2159 to 2217: with clients remaining, the adaptation is chosen by the
  maximum bitrate.
\<close>

definition clientCloseHandler :: "stream_info \<Rightarrow> fault + stream_info" where
  "clientCloseHandler si0 =
     (let fn = ''clientCloseHandler'';
          si = close_enter fn si0
      in
      case (if num_cli si = 0 then close_last V1_5 fn si
            else if enable_variable_mode si
            then (if max_bitrate si \<noteq> 0 then change_bitrate V1_5 si else changeQuant si)
            else Inr si) of
        Inl f \<Rightarrow> Inl f
      | Inr si' \<Rightarrow> Inr (close_leave fn si'))"

subsection \<open>A client arrives\<close>

text \<open>
  What the new-client handlers do before they branch on the client count (lines 838 to
  846; lines 2228 to 2246, where the loop that sets the time-out of the client's RTSP
  sessions touches nothing of this model) and after it (lines 876 to 882, 2282 to 2288).
\<close>

definition new_client_enter :: "string \<Rightarrow> stream_info \<Rightarrow> stream_info" where
  "new_client_enter fn si0 =
     (let si = (dbg 4 fn [S ''called''] si0)\<lparr>num_cli := num_cli si0 + 1\<rparr>;
          si1 = g_print [S ''['', I (num_cli si), S '']A new client has connected'', S nl] si;
          si2 = dbg 0 fn [S ''*************Cliented connected! ['', I (num_cli si1), S '']''] si1
      in si2\<lparr>connected := True\<rparr>)"

definition new_client_leave :: "version \<Rightarrow> string \<Rightarrow> stream_info \<Rightarrow> stream_info" where
  "new_client_leave v fn si =
     (let si1 = emit (Signal_connect ''closed'')
                  (dbg 2 fn [S (''Creating '' @ sq @ ''closed'' @ sq @ '' signal handler'')] si);
          si2 = command_status v fn (case v of V1_4 \<Rightarrow> 880 | V1_5 \<Rightarrow> 1035) si1
      in (dbg 4 fn [S ''leaving''] si2)\<lparr>first_run := False\<rparr>)"

text \<open>
  The branch for the first client (lines 850 to 863, 2251 to 2265): the array is
  allocated; its contents are whatever the block holds.
\<close>

definition new_client_first :: "string \<Rightarrow> stream_info \<Rightarrow> stream_info" where
  "new_client_first fn si0 =
     (let si = si0\<lparr>stream := Some (env_malloc si0)\<rparr> in
      if first_run si
      then emit (Signal_connect ''media-configure'')
             (dbg 2 fn [S (''Creating '' @ sq @ ''media-configure'' @ sq @ '' signal handler'')] si)
      else si)"

text \<open>
  Version 1.4, lines 835 to 883: for a client beyond the first, the adaptation is chosen
  by the current bitrate.
\<close>

definition new_client_handler :: "stream_info \<Rightarrow> fault + stream_info" where
  "new_client_handler si0 =
     (let fn = ''new_client_handler'';
          si = new_client_enter fn si0
      in
      case (if num_cli si = 1 then Inr (new_client_first fn si)
            else if enable_variable_mode si
            then (if curr_bitrate si \<noteq> 0 then change_bitrate V1_4 si else change_quant si)
            else Inr si) of
        Inl f \<Rightarrow> Inl f
      | Inr si' \<Rightarrow> Inr (new_client_leave V1_4 fn si'))"

text \<open>
  Version 1.5, lines 2225 to 2289: for a client beyond the first, the adaptation is chosen
  by the maximum bitrate.
\<close>

definition newClientHandler :: "stream_info \<Rightarrow> fault + stream_info" where
  "newClientHandler si0 =
     (let fn = ''newClientHandler'';
          si = new_client_enter fn si0
      in
      case (if num_cli si = 1 then Inr (new_client_first fn si)
            else if enable_variable_mode si
            then (if max_bitrate si \<noteq> 0 then change_bitrate V1_5 si else changeQuant si)
            else Inr si) of
        Inl f \<Rightarrow> Inl f
      | Inr si' \<Rightarrow> Inr (new_client_leave V1_5 fn si'))"

section \<open>Start-up: \<open>main\<close> up to the registration of the callbacks\<close>

text \<open>
  The initial value of \<open>info\<close>.  The argument supplies the environment; every field of the
  struct is set, the members that the initialiser does not name being zero.
  Version 1.4, lines 888 to 910:
\<close>

definition main_info_v1_4 :: "stream_info \<Rightarrow> stream_info" where
  "main_info_v1_4 env =
     env\<lparr>num_cli := 0, stream := None, connected := False, enable_variable_mode := True,
         video_in := ''/dev/video0'', config_interval := 2, idr := 0, steps := 5 - 1,
         min_quant_lvl := 0, max_quant_lvl := 51, curr_quant_lvl := 0,
         min_bitrate := 1, max_bitrate := 10000, cap_bitrate := 0, curr_bitrate := 10000,
         msg_rate := 5, status_pipe := None, status_pipe_fd := 0, status_pipe_stream := None,
         rtsp_port_min := 0, rtsp_port_max := 0,
         g_dbg := 0, first_run := True, out := []\<rparr>"

text \<open>
  Version 1.5, lines 2300 to 2326: \<open>maxQuantLevel\<close> starts as \<open>atoi(MIN_QUANT_LVL)\<close>
  (``Default to min, to disable the adjustment''), \<open>maxBitrate\<close> as \<open>atoi(MIN_BR)\<close>, the
  descriptors as \<open>NO_FILE\<close>; \<open>capBitrate\<close> is not named and so is zero.
\<close>

definition main_info_v1_5 :: "stream_info \<Rightarrow> stream_info" where
  "main_info_v1_5 env =
     env\<lparr>num_cli := 0, stream := None, connected := False, enable_variable_mode := True,
         video_in := ''/dev/video0'', config_interval := 2, idr := 0, steps := 5 - 1,
         min_quant_lvl := 0, max_quant_lvl := 0, curr_quant_lvl := 0,
         min_bitrate := 1, max_bitrate := 0, cap_bitrate := 0, curr_bitrate := 10000,
         msg_rate := 5, status_pipe := None, status_pipe_fd := NO_FILE, status_pipe_stream := None,
         rtsp_port_min := 0, rtsp_port_max := 0,
         g_dbg := 0, first_run := True, out := []\<rparr>"

text \<open>
  One turn of the option loop.  An option is what \<open>getopt_long\<close> returned, with
  \<open>atoi(optarg)\<close> already taken where the program takes it.  \<open>Opt_help\<close> stands for \<open>-h\<close>,
  \<open>-?\<close> and every option \<open>getopt_long\<close> does not know; \<open>Opt_f\<close> for the letter \<open>f\<close>, which
  the option string accepts and the \<open>switch\<close> does not handle.  \<open>max_br\<close> is the value of
  \<open>atoi(MAX_BR)\<close>: \<open>MAX_BR\<close> is \<open>"4294967295"\<close>, which does not fit an \<open>int\<close>, so the value
  depends on the C library.
\<close>

datatype opt =
    Opt_help | Opt_version | Opt_f
  | Opt_debug gint | Opt_mount_point string | Opt_port string | Opt_user_pipeline string
  | Opt_src_element string | Opt_video_in string | Opt_enable_variable_mode gint
  | Opt_steps gint | Opt_min_bitrate gint | Opt_max_bitrate gint | Opt_cap_bitrate gint
  | Opt_max_quant_lvl gint | Opt_min_quant_lvl gint | Opt_config_interval gint | Opt_idr gint
  | Opt_msg_rate gint | Opt_command_pipe string | Opt_status_pipe string
  | Opt_enable_shared_pipeline | Opt_enable_no_suspend
  | Opt_client_port_min gint | Opt_client_port_max gint

datatype main_exit = ECODE_OKAY | ECODE_ARGS | ECODE_RTSP

definition opt_min_bitrate :: "gint \<Rightarrow> gint \<Rightarrow> stream_info \<Rightarrow> stream_info" where
  "opt_min_bitrate max_br n si =
     dbg 1 ''main'' [S ''set min bitrate to: '',
                     I (if sint n > sint max_br then max_br else if sint n \<le> 0 then 1 else n)]
       (if sint n > sint max_br
        then (g_print [S ''Maximum bitrate is 4294967295.'', S nl] si)\<lparr>min_bitrate := max_br\<rparr>
        else if sint n \<le> 0
        then (g_print [S ''Minimum bitrate is 1'', S nl] si)\<lparr>min_bitrate := 1\<rparr>
        else si\<lparr>min_bitrate := n\<rparr>)"

definition opt_max_quant_lvl :: "gint \<Rightarrow> stream_info \<Rightarrow> stream_info" where
  "opt_max_quant_lvl n si =
     dbg 1 ''main'' [S ''set max quant to: '',
                     I (if sint n > 51 then 51 else if sint n < 0 then 0 else n)]
       (if sint n > 51
        then (g_print [S ''Maximum quant-lvl is 51.'', S nl] si)\<lparr>max_quant_lvl := 51\<rparr>
        else if sint n < 0
        then (g_print [S ''Minimum quant-lvl is 0.'', S nl] si)\<lparr>max_quant_lvl := 0\<rparr>
        else si\<lparr>max_quant_lvl := n\<rparr>)"

text \<open>Option \<open>-l\<close> also makes the minimum the current quant level.\<close>

definition opt_min_quant_lvl :: "gint \<Rightarrow> stream_info \<Rightarrow> stream_info" where
  "opt_min_quant_lvl n si =
     (let si1 = (if sint n > 51
                 then (g_print [S ''Maximum quant-lvl is 51.'', S nl] si)\<lparr>min_quant_lvl := 51\<rparr>
                 else if sint n < 0
                 then (g_print [S ''Minimum quant-lvl is 0.'', S nl] si)\<lparr>min_quant_lvl := 0\<rparr>
                 else si\<lparr>min_quant_lvl := n\<rparr>);
          si2 = si1\<lparr>curr_quant_lvl := min_quant_lvl si1\<rparr>
      in dbg 1 ''main'' [S ''set min quant lvl to: '', I (min_quant_lvl si2)] si2)"

text \<open>Option \<open>-b\<close>; version 1.4 also makes the maximum the current bitrate (line 1109).\<close>

definition opt_max_bitrate :: "version \<Rightarrow> gint \<Rightarrow> gint \<Rightarrow> stream_info \<Rightarrow> stream_info" where
  "opt_max_bitrate v max_br n si =
     (let si1 = (if sint n > sint max_br
                 then (g_print [S ''Maximum bitrate is 4294967295.'', S nl] si)\<lparr>max_bitrate := max_br\<rparr>
                 else if sint n < 0
                 then (g_print [S ''Minimum bitrate is 0.'', S nl] si)\<lparr>max_bitrate := 0\<rparr>
                 else si\<lparr>max_bitrate := n\<rparr>);
          si2 = (case v of V1_4 \<Rightarrow> si1\<lparr>curr_bitrate := max_bitrate si1\<rparr> | V1_5 \<Rightarrow> si1)
      in dbg 1 ''main'' [S ''set max bitrate to: '', I (max_bitrate si2)] si2)"

text \<open>Option \<open>--cap-bitrate\<close> of version 1.5 (lines 2441 to 2459).\<close>

definition opt_cap_bitrate :: "gint \<Rightarrow> gint \<Rightarrow> stream_info \<Rightarrow> stream_info" where
  "opt_cap_bitrate max_br n si =
     dbg 1 ''main'' [S ''set cap bitrate to: '',
                     I (if sint n > sint max_br \<or> sint n \<le> 0 then max_br else n)]
       (if sint n > sint max_br
        then (g_print [S ''bitrate cap is 4294967295.'', S nl] si)\<lparr>cap_bitrate := max_br\<rparr>
        else if sint n \<le> 0
        then (g_print [S ''cap bitrate is 4294967295'', S nl] si)\<lparr>cap_bitrate := max_br\<rparr>
        else si\<lparr>cap_bitrate := n\<rparr>)"

text \<open>
  The \<open>switch\<close> of version 1.4 (lines 1004 to 1144) and of version 1.5 (lines 2432 to 2638).
  The options that only 1.5 has are unknown to the \<open>getopt_long\<close> of 1.4.
\<close>

definition main_opt :: "version \<Rightarrow> gint \<Rightarrow> opt \<Rightarrow> stream_info \<Rightarrow> main_exit + stream_info" where
  "main_opt v max_br ob si =
     (case ob of
        Opt_help \<Rightarrow> Inl ECODE_OKAY
      | Opt_version \<Rightarrow> Inl ECODE_OKAY
      | Opt_f \<Rightarrow> Inl ECODE_ARGS
      | Opt_debug n \<Rightarrow>
          Inr (dbg 1 ''main'' [S ''set debug level to: '', I n] (si\<lparr>g_dbg := unat n\<rparr>))
      | Opt_mount_point m \<Rightarrow> Inr (dbg 1 ''main'' [S ''set mount point to: '', S m] si)
      | Opt_port p \<Rightarrow> Inr (dbg 1 ''main'' [S ''set port to: '', S p] si)
      | Opt_user_pipeline u \<Rightarrow> Inr (dbg 1 ''main'' [S ''set user pipeline to: '', S u] si)
      | Opt_src_element e \<Rightarrow> Inr (dbg 1 ''main'' [S ''set source element to: '', S e] si)
      | Opt_video_in i \<Rightarrow>
          Inr (dbg 1 ''main'' [S ''set video in to: '', S i] (si\<lparr>video_in := i\<rparr>))
      | Opt_enable_variable_mode n \<Rightarrow>
          (let b = (case v of V1_4 \<Rightarrow> sint n > 0 | V1_5 \<Rightarrow> True) in
           Inr (dbg 1 ''main'' [S ''set enable-variable-mode to: '', I (if b then 1 else 0)]
                  (si\<lparr>enable_variable_mode := b\<rparr>)))
      | Opt_steps n \<Rightarrow>
          Inr (dbg 1 ''main'' [S ''set steps to: '', I (n - 1)] (si\<lparr>steps := n - 1\<rparr>))
      | Opt_min_bitrate n \<Rightarrow> Inr (opt_min_bitrate max_br n si)
      | Opt_max_bitrate n \<Rightarrow> Inr (opt_max_bitrate v max_br n si)
      | Opt_cap_bitrate n \<Rightarrow>
          (case v of V1_4 \<Rightarrow> Inl ECODE_OKAY | V1_5 \<Rightarrow> Inr (opt_cap_bitrate max_br n si))
      | Opt_max_quant_lvl n \<Rightarrow> Inr (opt_max_quant_lvl n si)
      | Opt_min_quant_lvl n \<Rightarrow> Inr (opt_min_quant_lvl n si)
      | Opt_config_interval n \<Rightarrow>
          Inr (dbg 1 ''main'' [S ''set rtsp config interval to: '', I n] (si\<lparr>config_interval := n\<rparr>))
      | Opt_idr n \<Rightarrow> Inr (dbg 1 ''main'' [S ''set idr interval to: '', I n] (si\<lparr>idr := n\<rparr>))
      | Opt_msg_rate n \<Rightarrow> Inr (dbg 1 ''main'' [S ''set msg rate to: '', I n] (si\<lparr>msg_rate := n\<rparr>))
      | Opt_command_pipe c \<Rightarrow> Inr (dbg 1 ''main'' [S ''set command pipe to: '', S c] si)
      | Opt_status_pipe p \<Rightarrow>
          Inr (dbg 1 ''main'' [S ''set status pipe to: '', S p] (si\<lparr>status_pipe := Some p\<rparr>))
      | Opt_enable_shared_pipeline \<Rightarrow>
          (case v of V1_4 \<Rightarrow> Inl ECODE_OKAY
           | V1_5 \<Rightarrow> Inr (dbg 1 ''main'' [S ''set enable-shared-pipeline to: '',
                                           I (if enable_variable_mode si then 1 else 0)] si))
      | Opt_enable_no_suspend \<Rightarrow>
          (case v of V1_4 \<Rightarrow> Inl ECODE_OKAY
           | V1_5 \<Rightarrow> Inr (dbg 1 ''main'' [S ''set enable-no-suspend to: '',
                                           I (if enable_variable_mode si then 1 else 0)] si))
      | Opt_client_port_min n \<Rightarrow>
          (case v of V1_4 \<Rightarrow> Inl ECODE_OKAY
           | V1_5 \<Rightarrow> Inr (dbg 1 ''main'' [S ''set client-port-min to: '', I n]
                          (si\<lparr>rtsp_port_min := n\<rparr>)))
      | Opt_client_port_max n \<Rightarrow>
          (case v of V1_4 \<Rightarrow> Inl ECODE_OKAY
           | V1_5 \<Rightarrow> Inr (dbg 1 ''main'' [S ''set client-port-max to: '', I n]
                          (si\<lparr>rtsp_port_max := n\<rparr>))))"

fun main_args :: "version \<Rightarrow> gint \<Rightarrow> opt list \<Rightarrow> stream_info \<Rightarrow> main_exit + stream_info" where
  "main_args v max_br [] si = Inr si"
| "main_args v max_br (ob # obs) si =
     (case main_opt v max_br ob si of
        Inl e \<Rightarrow> Inl e
      | Inr si' \<Rightarrow> main_args v max_br obs si')"

text \<open>The validation of version 1.4, lines 1147 to 1165.\<close>

definition main_validate_v1_4 :: "stream_info \<Rightarrow> main_exit + stream_info" where
  "main_validate_v1_4 si =
     (if sint (max_quant_lvl si) < sint (min_quant_lvl si) then Inl ECODE_ARGS
      else if sint (max_bitrate si + 1) < sint (min_bitrate si) then Inl ECODE_ARGS
      else if sint (steps si) < 1 then Inl ECODE_ARGS
      else Inr si)"

text \<open>
  Version 1.5, lines 2642 to 2688: the maximum bitrate is first capped, the current
  bitrate becomes the cap, then the values are validated.
\<close>

definition main_validate_v1_5 :: "stream_info \<Rightarrow> main_exit + stream_info" where
  "main_validate_v1_5 si0 =
     (let si1 = (if sint (max_bitrate si0) > sint (cap_bitrate si0)
                 then (g_print [S ''Max bitrate must be <= cap bitrate, setting max bit rate to '',
                                I (cap_bitrate si0), S ''.'', S nl] si0)
                        \<lparr>max_bitrate := cap_bitrate si0\<rparr>
                 else si0);
          si = si1\<lparr>curr_bitrate := cap_bitrate si1\<rparr>
      in
      if sint (max_quant_lvl si) < sint (min_quant_lvl si) then Inl ECODE_ARGS
      else if sint (max_bitrate si) > 0 \<and> sint (max_bitrate si) \<le> sint (min_bitrate si)
      then Inl ECODE_ARGS
      else if sint (steps si) < 1 then Inl ECODE_ARGS
      else if sint (rtsp_port_min si) > 0 \<or> sint (rtsp_port_max si) > 0 then
        (if sint (rtsp_port_min si) \<le> 0 then Inl ECODE_RTSP
         else if sint (rtsp_port_max si) \<le> 0 then Inl ECODE_RTSP
         else if sint (rtsp_port_max si) \<le> sint (rtsp_port_min si) then Inl ECODE_RTSP
         else Inr si)
      else Inr si)"

text \<open>
  \<open>main\<close> from the initialiser to the end of the validation.  What follows in \<open>main\<close>
  creates the RTSP server, opens the command pipe and registers the callbacks and the
  timer of \<open>reader\<close>; it changes no field of this model.
\<close>

definition main_config :: "version \<Rightarrow> gint \<Rightarrow> opt list \<Rightarrow> stream_info \<Rightarrow> main_exit + stream_info" where
  "main_config v max_br opts env =
     (case v of
        V1_4 \<Rightarrow> (case main_args V1_4 max_br opts (main_info_v1_4 env) of
                   Inl e \<Rightarrow> Inl e | Inr si \<Rightarrow> main_validate_v1_4 si)
      | V1_5 \<Rightarrow> (case main_args V1_5 max_br opts (main_info_v1_5 env) of
                   Inl e \<Rightarrow> Inl e | Inr si \<Rightarrow> main_validate_v1_5 si))"

section \<open>Runs of the program\<close>

text \<open>
  The single-threaded main loop runs one callback at a time: a new client, a client that
  closes, the configuration of the media, or the timer of \<open>reader\<close> with the bytes the
  command pipe and the stack hold.  \<open>runs v si0 si\<close> says that \<open>si\<close> is reached from \<open>si0\<close> by callbacks
  of version \<open>v\<close>; between callbacks the environment may change.  A callback that faults
  has no successor.
\<close>

definition new_client :: "version \<Rightarrow> stream_info \<Rightarrow> fault + stream_info" where
  "new_client v = (case v of V1_4 \<Rightarrow> new_client_handler | V1_5 \<Rightarrow> newClientHandler)"

definition client_close :: "version \<Rightarrow> stream_info \<Rightarrow> fault + stream_info" where
  "client_close v = (case v of V1_4 \<Rightarrow> client_close_handler | V1_5 \<Rightarrow> clientCloseHandler)"

inductive runs :: "version \<Rightarrow> stream_info \<Rightarrow> stream_info \<Rightarrow> bool" for v :: version and si0 :: stream_info where
  start: "runs v si0 si0"
| client_connected: "runs v si0 si \<Longrightarrow> new_client v si = Inr si' \<Longrightarrow> runs v si0 si'"
| closed: "runs v si0 si \<Longrightarrow> client_close v si = Inr si' \<Longrightarrow> runs v si0 si'"
| configure: "runs v si0 si \<Longrightarrow> media_configure_handler v media si = Inr si' \<Longrightarrow> runs v si0 si'"
| poll: "runs v si0 si \<Longrightarrow> reader v stack avail si = Inr si' \<Longrightarrow> runs v si0 si'"
| environment:
    "runs v si0 si \<Longrightarrow>
     runs v si0 (si\<lparr>env_open := opens, env_atof := atof, env_strtod := strtod, env_malloc := block\<rparr>)"

definition emits :: "event list \<Rightarrow> stream_info \<Rightarrow> stream_info" where
  "emits es si = si\<lparr>out := out si @ es\<rparr>"

definition quant_level :: "gint \<Rightarrow> gint \<Rightarrow> gint \<Rightarrow> gint \<Rightarrow> gint" where
  "quant_level lo hi step n =
     (let scaled = (n - 1) * step + lo in if sint scaled > sint hi then hi else scaled)"

definition bitrate_level :: "gint \<Rightarrow> gint \<Rightarrow> gint \<Rightarrow> gint \<Rightarrow> gint" where
  "bitrate_level lo hi step n =
     (let scaled = hi - (n - 1) * step in if sint scaled < sint lo then lo else scaled)"

definition change_bitrate_name :: "version \<Rightarrow> string" where
  "change_bitrate_name v = (case v of V1_4 \<Rightarrow> ''change_bitrate'' | V1_5 \<Rightarrow> ''changeBitrate'')"

fun is_dbg :: "event \<Rightarrow> bool" where
  "is_dbg (Dbg _ _ _) = True"
| "is_dbg _ = False"

definition effects :: "stream_info \<Rightarrow> event list" where
  "effects si = filter (\<lambda>e. \<not> is_dbg e) (out si)"

fun is_set_property :: "event \<Rightarrow> bool" where
  "is_set_property (Set_property _ _ _) = True"
| "is_set_property _ = False"

definition property_writes :: "stream_info \<Rightarrow> event list" where
  "property_writes si = filter is_set_property (out si)"

definition change_quant_of :: "version \<Rightarrow> stream_info \<Rightarrow> fault + stream_info" where
  "change_quant_of v = (case v of V1_4 \<Rightarrow> change_quant | V1_5 \<Rightarrow> changeQuant)"

definition quant_at :: "version \<Rightarrow> stream_info \<Rightarrow> gint \<Rightarrow> gint option" where
  "quant_at v si n =
     (case change_quant_of v (si\<lparr>num_cli := n\<rparr>) of
        Inl _ \<Rightarrow> None | Inr si' \<Rightarrow> Some (curr_quant_lvl si'))"

definition bitrate_at :: "version \<Rightarrow> stream_info \<Rightarrow> gint \<Rightarrow> gint option" where
  "bitrate_at v si n =
     (case change_bitrate v (si\<lparr>num_cli := n\<rparr>) of
        Inl _ \<Rightarrow> None | Inr si' \<Rightarrow> Some (curr_bitrate si'))"

definition encoder_bound :: "stream_info \<Rightarrow> bool" where
  "encoder_bound si = (case stream si of None \<Rightarrow> False | Some arr \<Rightarrow> encoder arr \<noteq> None)"

definition quant_fits :: "stream_info \<Rightarrow> gint \<Rightarrow> bool" where
  "quant_fits si n =
     (let d = sint (max_quant_lvl si) - sint (min_quant_lvl si);
          step = d sdiv sint (steps si)
      in d < 2 ^ 31 \<and> (sint n - 1) * step < 2 ^ 31
         \<and> (sint n - 1) * step + sint (min_quant_lvl si) < 2 ^ 31)"

definition bitrate_fits :: "stream_info \<Rightarrow> gint \<Rightarrow> bool" where
  "bitrate_fits si n =
     (let d = sint (max_bitrate si) - sint (min_bitrate si);
          step = d sdiv sint (steps si)
      in d < 2 ^ 31 \<and> (sint n - 1) * step < 2 ^ 31
         \<and> - (2 ^ 31) \<le> sint (max_bitrate si) - (sint n - 1) * step)"

definition quant_scenario :: "stream_info \<Rightarrow> stream_array \<Rightarrow> gst_element \<Rightarrow> stream_info" where
  "quant_scenario si arr enc =
     si\<lparr>stream := Some (arr\<lparr>encoder := Some enc\<rparr>),
        steps := 4, min_quant_lvl := 0, max_quant_lvl := 51\<rparr>"

text \<open>
  A concrete environment and a concrete pipeline, for examples.  The pipeline is the
  default launch line (\<open>source0\<close>, \<open>caps0\<close>, \<open>enc0\<close>, \<open>pay0\<close>).  \<open>demo_atof\<close> is \<open>atof\<close> on
  the texts the examples convert: the value of the leading decimal digits, and 0 for a
  text that does not start with a number.  \<open>demo_strtod\<close> is \<open>strtod\<close> likewise, with
  \<open>errno\<close> left at 0, except on \<open>1e-999\<close>, which underflows: the result is 0 and \<open>errno\<close>
  is \<open>ERANGE\<close> (34).
\<close>

fun digits_value :: "nat \<Rightarrow> string \<Rightarrow> nat" where
  "digits_value acc [] = acc"
| "digits_value acc (c # cs) =
     (if (48::nat) \<le> of_char c \<and> of_char c \<le> (57::nat)
      then digits_value (10 * acc + (of_char c - 48)) cs
      else acc)"

definition demo_atof :: "string \<Rightarrow> real" where
  "demo_atof s = real (digits_value 0 s)"

definition demo_strtod :: "string \<Rightarrow> real \<times> gint" where
  "demo_strtod s = (if s = ''1e-999'' then (0, 34) else (real (digits_value 0 s), 0))"

definition no_elements :: stream_array where
  "no_elements = \<lparr>pipeline = None, source = None, encoder = None, protocol = None\<rparr>"

definition env0 :: stream_info where
  "env0 =
     \<lparr>num_cli = 0, stream = None, connected = False, enable_variable_mode = False,
      video_in = [], config_interval = 0, idr = 0, steps = 0,
      min_quant_lvl = 0, max_quant_lvl = 0, curr_quant_lvl = 0,
      min_bitrate = 0, max_bitrate = 0, cap_bitrate = 0, curr_bitrate = 0,
      msg_rate = 0, status_pipe = None, status_pipe_fd = 0, status_pipe_stream = None,
      rtsp_port_min = 0, rtsp_port_max = 0,
      g_dbg = 0, first_run = True, env_open = [], env_atof = demo_atof,
      env_strtod = demo_strtod, env_malloc = no_elements, out = []\<rparr>"

definition demo_source :: gst_element where
  "demo_source = \<lparr>el_name = ''source0'', el_pads = [''src''], el_props = ''classname: GstV4l2Src''\<rparr>"

definition demo_caps :: gst_element where
  "demo_caps = \<lparr>el_name = ''caps0'', el_pads = [''sink'', ''src''],
                 el_props = ''classname: GstImxIpuVideoTransform''\<rparr>"

definition demo_enc :: gst_element where
  "demo_enc = \<lparr>el_name = ''enc0'', el_pads = [''sink'', ''src''],
                el_props = ''classname: GstImxVpuEncoderH264''\<rparr>"

definition demo_pay :: gst_element where
  "demo_pay = \<lparr>el_name = ''pay0'', el_pads = [''sink'', ''src''],
                el_props = ''classname: GstRtpH264Pay''\<rparr>"

definition demo_bin :: gst_bin where
  "demo_bin = [demo_source, demo_caps, demo_enc, demo_pay]"

definition demo_elements :: stream_array where
  "demo_elements =
     \<lparr>pipeline = Some demo_bin, source = Some demo_source, encoder = Some demo_enc,
      protocol = Some demo_pay\<rparr>"

text \<open>A state with the given number of clients whose pipeline is configured.\<close>

definition streaming :: "gint \<Rightarrow> stream_info \<Rightarrow> stream_info" where
  "streaming n si = si\<lparr>num_cli := n, stream := Some demo_elements, connected := True\<rparr>"

text \<open>The debug line of \<open>change_bitrate\<close> about snapping to the minimum, if it is printed.\<close>

definition snap_lines :: "version \<Rightarrow> stream_info \<Rightarrow> gint \<Rightarrow> event list" where
  "snap_lines v si step =
     (if sint (max_bitrate si - (num_cli si - 1) * step) < sint (min_bitrate si) \<and> 3 \<le> g_dbg si
      then [Dbg 3 (change_bitrate_name v) [S ''Snapping bitrate to '', I (min_bitrate si)]]
      else [])"

text \<open>
  The configuration \<open>main\<close> builds from the given options in the example environment,
  with \<open>atoi(MAX_BR) = INT_MAX\<close> (the example environment itself if \<open>main\<close> exits).
\<close>

definition demo_config :: "version \<Rightarrow> opt list \<Rightarrow> stream_info" where
  "demo_config v opts =
     (case main_config v 2147483647 opts env0 of Inr si \<Rightarrow> si | Inl _ \<Rightarrow> env0)"

text \<open>
  Everything of a state but the output and the state of the status pipe: what the
  command protocol and the status channel leave alone.
\<close>

definition core :: "stream_info \<Rightarrow> stream_info" where
  "core si = si\<lparr>status_pipe_fd := 0, status_pipe_stream := None, env_open := [], out := []\<rparr>"

text \<open>
  The configuration of a state: the state without the client count, the element array,
  the connection flag, the current quant level and bitrate, the state of the status pipe,
  \<open>first_run\<close>, the environment and the output.  It holds what \<open>main\<close> fixes.
\<close>

definition config :: "stream_info \<Rightarrow> stream_info" where
  "config si =
     si\<lparr>num_cli := 0, stream := None, connected := False, curr_quant_lvl := 0,
        curr_bitrate := 0, status_pipe_fd := 0, status_pipe_stream := None,
        first_run := False, env_open := [], env_atof := (\<lambda>_. 0),
        env_strtod := (\<lambda>_. (0, 0)), env_malloc := no_elements, out := []\<rparr>"

text \<open>A result keeps the projection \<open>p\<close> of the state if it is a fault or a state with the same projection.\<close>

definition keeps :: "(stream_info \<Rightarrow> 'a) \<Rightarrow> stream_info \<Rightarrow> fault + stream_info \<Rightarrow> bool" where
  "keeps p si r = (case r of Inl _ \<Rightarrow> True | Inr si' \<Rightarrow> p si' = p si)"

text \<open>The names the two versions give the client callbacks.\<close>

definition new_client_name :: "version \<Rightarrow> string" where
  "new_client_name v = (case v of V1_4 \<Rightarrow> ''new_client_handler'' | V1_5 \<Rightarrow> ''newClientHandler'')"

definition client_close_name :: "version \<Rightarrow> string" where
  "client_close_name v =
     (case v of V1_4 \<Rightarrow> ''client_close_handler'' | V1_5 \<Rightarrow> ''clientCloseHandler'')"

text \<open>The test by which a callback of the given version chooses the bitrate scaling.\<close>

definition selects_bitrate :: "version \<Rightarrow> stream_info \<Rightarrow> bool" where
  "selects_bitrate v si = (case v of V1_4 \<Rightarrow> curr_bitrate si \<noteq> 0 | V1_5 \<Rightarrow> max_bitrate si \<noteq> 0)"

text \<open>
  What holds of \<open>info\<close> while \<open>main\<close> reads its options: the quant levels lie between 0
  and 51, the minimum bitrate is positive, the maximum and the cap are not negative, the
  current quant level is the minimum, in version 1.4 the current bitrate is the maximum,
  and nothing of the session has started.
\<close>

definition args_inv :: "version \<Rightarrow> stream_info \<Rightarrow> bool" where
  "args_inv v si =
     (0 \<le> sint (min_quant_lvl si) \<and> sint (min_quant_lvl si) \<le> 51
      \<and> 0 \<le> sint (max_quant_lvl si) \<and> sint (max_quant_lvl si) \<le> 51
      \<and> 1 \<le> sint (min_bitrate si) \<and> 0 \<le> sint (max_bitrate si) \<and> 0 \<le> sint (cap_bitrate si)
      \<and> (v = V1_4 \<longrightarrow> curr_bitrate si = max_bitrate si)
      \<and> curr_quant_lvl si = min_quant_lvl si
      \<and> num_cli si = 0 \<and> stream si = None \<and> \<not> connected si
      \<and> status_pipe_fd si = (case v of V1_4 \<Rightarrow> 0 | V1_5 \<Rightarrow> NO_FILE)
      \<and> status_pipe_stream si = None \<and> first_run si)"

text \<open>
  An example session: the state a result holds (the example environment for a fault), and
  the state of the program after \<open>main\<close> with the given options in the example
  environment, a first client, the configuration of the example pipeline and a second
  client.
\<close>

definition after :: "fault + stream_info \<Rightarrow> stream_info" where
  "after r = (case r of Inr si \<Rightarrow> si | Inl _ \<Rightarrow> env0)"

definition demo_session :: "version \<Rightarrow> opt list \<Rightarrow> stream_info" where
  "demo_session v opts =
     after (new_client v
       (after (media_configure_handler v demo_bin
          (after (new_client v (demo_config v opts))))))"

lemma emits_fields [simp]:
  "num_cli (emits es si) = num_cli si"
  "stream (emits es si) = stream si"
  "connected (emits es si) = connected si"
  "enable_variable_mode (emits es si) = enable_variable_mode si"
  "video_in (emits es si) = video_in si"
  "config_interval (emits es si) = config_interval si"
  "idr (emits es si) = idr si"
  "steps (emits es si) = steps si"
  "min_quant_lvl (emits es si) = min_quant_lvl si"
  "max_quant_lvl (emits es si) = max_quant_lvl si"
  "curr_quant_lvl (emits es si) = curr_quant_lvl si"
  "min_bitrate (emits es si) = min_bitrate si"
  "max_bitrate (emits es si) = max_bitrate si"
  "cap_bitrate (emits es si) = cap_bitrate si"
  "curr_bitrate (emits es si) = curr_bitrate si"
  "msg_rate (emits es si) = msg_rate si"
  "status_pipe (emits es si) = status_pipe si"
  "status_pipe_fd (emits es si) = status_pipe_fd si"
  "status_pipe_stream (emits es si) = status_pipe_stream si"
  "rtsp_port_min (emits es si) = rtsp_port_min si"
  "rtsp_port_max (emits es si) = rtsp_port_max si"
  "g_dbg (emits es si) = g_dbg si"
  "first_run (emits es si) = first_run si"
  "env_open (emits es si) = env_open si"
  "env_atof (emits es si) = env_atof si"
  "env_strtod (emits es si) = env_strtod si"
  "env_malloc (emits es si) = env_malloc si"
  "out (emits es si) = out si @ es"
  by (simp_all add: emits_def)

lemma emits_emits [simp]: "emits es (emits es' si) = emits (es' @ es) si"
  by (simp add: emits_def)

lemma emits_Nil [simp]: "emits [] si = si"
  by (simp add: emits_def)

lemma emits_update [simp]:
  "(emits es si)\<lparr>num_cli := n\<rparr> = emits es (si\<lparr>num_cli := n\<rparr>)"
  "(emits es si)\<lparr>stream := st\<rparr> = emits es (si\<lparr>stream := st\<rparr>)"
  "(emits es si)\<lparr>connected := c\<rparr> = emits es (si\<lparr>connected := c\<rparr>)"
  "(emits es si)\<lparr>curr_quant_lvl := q\<rparr> = emits es (si\<lparr>curr_quant_lvl := q\<rparr>)"
  "(emits es si)\<lparr>curr_bitrate := b\<rparr> = emits es (si\<lparr>curr_bitrate := b\<rparr>)"
  "(emits es si)\<lparr>status_pipe_fd := fd\<rparr> = emits es (si\<lparr>status_pipe_fd := fd\<rparr>)"
  "(emits es si)\<lparr>status_pipe_stream := fs\<rparr> = emits es (si\<lparr>status_pipe_stream := fs\<rparr>)"
  "(emits es si)\<lparr>env_open := eo\<rparr> = emits es (si\<lparr>env_open := eo\<rparr>)"
  "(emits es si)\<lparr>first_run := fr\<rparr> = emits es (si\<lparr>first_run := fr\<rparr>)"
  by (simp_all add: emits_def)

lemma if_emits [simp]:
  "(if c then emits es si else emits es' si) = emits (if c then es else es') si"
  "(if c then emits es si else si) = emits (if c then es else []) si"
  "(if c then si else emits es si) = emits (if c then [] else es) si"
  by simp_all

lemma emit_emits: "emit e si = emits [e] si"
  by (simp add: emit_def emits_def)

lemma dbg_emits: "dbg lvl f m si = emits (if lvl \<le> g_dbg si then [Dbg lvl f m] else []) si"
  by (simp add: dbg_def emit_emits)

lemma g_print_emits: "g_print m si = emits [Print m] si"
  by (simp add: g_print_def emit_emits)

lemma g_object_set_property_emits:
  "g_object_set_property obj name v si =
     emits [case obj of None \<Rightarrow> Glib_critical ''g_object_set_property''
            | Some ob \<Rightarrow> Set_property ob name v] si"
  by (simp add: g_object_set_property_def emit_emits split: option.splits)

lemma gst_object_unref_emits:
  "gst_object_unref obj si =
     emits (case obj of None \<Rightarrow> [Glib_critical ''gst_object_unref''] | Some _ \<Rightarrow> []) si"
  by (simp add: gst_object_unref_def emit_emits split: option.splits)

lemmas prim_emits = emit_emits dbg_emits g_print_emits g_object_set_property_emits
  gst_object_unref_emits



lemma dbg_fields [simp]:
  "num_cli (dbg lvl f m si) = num_cli si"
  "stream (dbg lvl f m si) = stream si"
  "connected (dbg lvl f m si) = connected si"
  "enable_variable_mode (dbg lvl f m si) = enable_variable_mode si"
  "video_in (dbg lvl f m si) = video_in si"
  "config_interval (dbg lvl f m si) = config_interval si"
  "idr (dbg lvl f m si) = idr si"
  "steps (dbg lvl f m si) = steps si"
  "min_quant_lvl (dbg lvl f m si) = min_quant_lvl si"
  "max_quant_lvl (dbg lvl f m si) = max_quant_lvl si"
  "curr_quant_lvl (dbg lvl f m si) = curr_quant_lvl si"
  "min_bitrate (dbg lvl f m si) = min_bitrate si"
  "max_bitrate (dbg lvl f m si) = max_bitrate si"
  "cap_bitrate (dbg lvl f m si) = cap_bitrate si"
  "curr_bitrate (dbg lvl f m si) = curr_bitrate si"
  "msg_rate (dbg lvl f m si) = msg_rate si"
  "status_pipe (dbg lvl f m si) = status_pipe si"
  "status_pipe_fd (dbg lvl f m si) = status_pipe_fd si"
  "status_pipe_stream (dbg lvl f m si) = status_pipe_stream si"
  "rtsp_port_min (dbg lvl f m si) = rtsp_port_min si"
  "rtsp_port_max (dbg lvl f m si) = rtsp_port_max si"
  "g_dbg (dbg lvl f m si) = g_dbg si"
  "first_run (dbg lvl f m si) = first_run si"
  "env_open (dbg lvl f m si) = env_open si"
  "env_atof (dbg lvl f m si) = env_atof si"
  "env_strtod (dbg lvl f m si) = env_strtod si"
  "env_malloc (dbg lvl f m si) = env_malloc si"
  by (simp_all add: dbg_emits)

lemma emit_fields [simp]:
  "num_cli (emit e si) = num_cli si"
  "stream (emit e si) = stream si"
  "connected (emit e si) = connected si"
  "enable_variable_mode (emit e si) = enable_variable_mode si"
  "video_in (emit e si) = video_in si"
  "config_interval (emit e si) = config_interval si"
  "idr (emit e si) = idr si"
  "steps (emit e si) = steps si"
  "min_quant_lvl (emit e si) = min_quant_lvl si"
  "max_quant_lvl (emit e si) = max_quant_lvl si"
  "curr_quant_lvl (emit e si) = curr_quant_lvl si"
  "min_bitrate (emit e si) = min_bitrate si"
  "max_bitrate (emit e si) = max_bitrate si"
  "cap_bitrate (emit e si) = cap_bitrate si"
  "curr_bitrate (emit e si) = curr_bitrate si"
  "msg_rate (emit e si) = msg_rate si"
  "status_pipe (emit e si) = status_pipe si"
  "status_pipe_fd (emit e si) = status_pipe_fd si"
  "status_pipe_stream (emit e si) = status_pipe_stream si"
  "rtsp_port_min (emit e si) = rtsp_port_min si"
  "rtsp_port_max (emit e si) = rtsp_port_max si"
  "g_dbg (emit e si) = g_dbg si"
  "first_run (emit e si) = first_run si"
  "env_open (emit e si) = env_open si"
  "env_atof (emit e si) = env_atof si"
  "env_strtod (emit e si) = env_strtod si"
  "env_malloc (emit e si) = env_malloc si"
  by (simp_all add: emit_emits)

lemma g_print_fields [simp]:
  "num_cli (g_print m si) = num_cli si"
  "stream (g_print m si) = stream si"
  "connected (g_print m si) = connected si"
  "enable_variable_mode (g_print m si) = enable_variable_mode si"
  "video_in (g_print m si) = video_in si"
  "config_interval (g_print m si) = config_interval si"
  "idr (g_print m si) = idr si"
  "steps (g_print m si) = steps si"
  "min_quant_lvl (g_print m si) = min_quant_lvl si"
  "max_quant_lvl (g_print m si) = max_quant_lvl si"
  "curr_quant_lvl (g_print m si) = curr_quant_lvl si"
  "min_bitrate (g_print m si) = min_bitrate si"
  "max_bitrate (g_print m si) = max_bitrate si"
  "cap_bitrate (g_print m si) = cap_bitrate si"
  "curr_bitrate (g_print m si) = curr_bitrate si"
  "msg_rate (g_print m si) = msg_rate si"
  "status_pipe (g_print m si) = status_pipe si"
  "status_pipe_fd (g_print m si) = status_pipe_fd si"
  "status_pipe_stream (g_print m si) = status_pipe_stream si"
  "rtsp_port_min (g_print m si) = rtsp_port_min si"
  "rtsp_port_max (g_print m si) = rtsp_port_max si"
  "g_dbg (g_print m si) = g_dbg si"
  "first_run (g_print m si) = first_run si"
  "env_open (g_print m si) = env_open si"
  "env_atof (g_print m si) = env_atof si"
  "env_strtod (g_print m si) = env_strtod si"
  "env_malloc (g_print m si) = env_malloc si"
  by (simp_all add: g_print_emits)

lemma g_object_set_property_fields [simp]:
  "num_cli (g_object_set_property obj name v si) = num_cli si"
  "stream (g_object_set_property obj name v si) = stream si"
  "connected (g_object_set_property obj name v si) = connected si"
  "enable_variable_mode (g_object_set_property obj name v si) = enable_variable_mode si"
  "video_in (g_object_set_property obj name v si) = video_in si"
  "config_interval (g_object_set_property obj name v si) = config_interval si"
  "idr (g_object_set_property obj name v si) = idr si"
  "steps (g_object_set_property obj name v si) = steps si"
  "min_quant_lvl (g_object_set_property obj name v si) = min_quant_lvl si"
  "max_quant_lvl (g_object_set_property obj name v si) = max_quant_lvl si"
  "curr_quant_lvl (g_object_set_property obj name v si) = curr_quant_lvl si"
  "min_bitrate (g_object_set_property obj name v si) = min_bitrate si"
  "max_bitrate (g_object_set_property obj name v si) = max_bitrate si"
  "cap_bitrate (g_object_set_property obj name v si) = cap_bitrate si"
  "curr_bitrate (g_object_set_property obj name v si) = curr_bitrate si"
  "msg_rate (g_object_set_property obj name v si) = msg_rate si"
  "status_pipe (g_object_set_property obj name v si) = status_pipe si"
  "status_pipe_fd (g_object_set_property obj name v si) = status_pipe_fd si"
  "status_pipe_stream (g_object_set_property obj name v si) = status_pipe_stream si"
  "rtsp_port_min (g_object_set_property obj name v si) = rtsp_port_min si"
  "rtsp_port_max (g_object_set_property obj name v si) = rtsp_port_max si"
  "g_dbg (g_object_set_property obj name v si) = g_dbg si"
  "first_run (g_object_set_property obj name v si) = first_run si"
  "env_open (g_object_set_property obj name v si) = env_open si"
  "env_atof (g_object_set_property obj name v si) = env_atof si"
  "env_strtod (g_object_set_property obj name v si) = env_strtod si"
  "env_malloc (g_object_set_property obj name v si) = env_malloc si"
  by (simp_all add: g_object_set_property_emits)

lemma gst_object_unref_fields [simp]:
  "num_cli (gst_object_unref obj si) = num_cli si"
  "stream (gst_object_unref obj si) = stream si"
  "connected (gst_object_unref obj si) = connected si"
  "enable_variable_mode (gst_object_unref obj si) = enable_variable_mode si"
  "video_in (gst_object_unref obj si) = video_in si"
  "config_interval (gst_object_unref obj si) = config_interval si"
  "idr (gst_object_unref obj si) = idr si"
  "steps (gst_object_unref obj si) = steps si"
  "min_quant_lvl (gst_object_unref obj si) = min_quant_lvl si"
  "max_quant_lvl (gst_object_unref obj si) = max_quant_lvl si"
  "curr_quant_lvl (gst_object_unref obj si) = curr_quant_lvl si"
  "min_bitrate (gst_object_unref obj si) = min_bitrate si"
  "max_bitrate (gst_object_unref obj si) = max_bitrate si"
  "cap_bitrate (gst_object_unref obj si) = cap_bitrate si"
  "curr_bitrate (gst_object_unref obj si) = curr_bitrate si"
  "msg_rate (gst_object_unref obj si) = msg_rate si"
  "status_pipe (gst_object_unref obj si) = status_pipe si"
  "status_pipe_fd (gst_object_unref obj si) = status_pipe_fd si"
  "status_pipe_stream (gst_object_unref obj si) = status_pipe_stream si"
  "rtsp_port_min (gst_object_unref obj si) = rtsp_port_min si"
  "rtsp_port_max (gst_object_unref obj si) = rtsp_port_max si"
  "g_dbg (gst_object_unref obj si) = g_dbg si"
  "first_run (gst_object_unref obj si) = first_run si"
  "env_open (gst_object_unref obj si) = env_open si"
  "env_atof (gst_object_unref obj si) = env_atof si"
  "env_strtod (gst_object_unref obj si) = env_strtod si"
  "env_malloc (gst_object_unref obj si) = env_malloc si"
  by (simp_all add: gst_object_unref_emits)

lemma effects_emits [simp]: "effects (emits es si) = effects si @ filter (\<lambda>e. \<not> is_dbg e) es"
  by (simp add: effects_def)

lemma property_writes_emits [simp]:
  "property_writes (emits es si) = property_writes si @ filter is_set_property es"
  by (simp add: property_writes_def)

lemma effects_dbg [simp]: "effects (dbg lvl f m si) = effects si"
  by (simp add: dbg_emits)

lemma property_writes_dbg [simp]: "property_writes (dbg lvl f m si) = property_writes si"
  by (simp add: dbg_emits)

lemma effects_update [simp]:
  "effects (si\<lparr>curr_quant_lvl := q\<rparr>) = effects si"
  "effects (si\<lparr>curr_bitrate := b\<rparr>) = effects si"
  "effects (si\<lparr>num_cli := n\<rparr>) = effects si"
  by (simp_all add: effects_def)

lemma property_writes_update [simp]:
  "property_writes (si\<lparr>curr_quant_lvl := q\<rparr>) = property_writes si"
  "property_writes (si\<lparr>curr_bitrate := b\<rparr>) = property_writes si"
  "property_writes (si\<lparr>num_cli := n\<rparr>) = property_writes si"
  by (simp_all add: property_writes_def)

lemma filter_dbg_line [simp]:
  "filter (\<lambda>e. \<not> is_dbg e) (if c then [Dbg l f m] else []) = []"
  "filter is_set_property (if c then [Dbg l f m] else []) = []"
  by simp_all

lemma sint_of_int_32: "- (2 ^ 31) \<le> k \<Longrightarrow> k < 2 ^ 31 \<Longrightarrow> sint (word_of_int k :: 32 word) = k"
  by (simp add: sint_sbintrunc' signed_take_bit_int_eq_self)
lemma sint_diff_32:
  "- (2 ^ 31) \<le> sint a - sint b \<Longrightarrow> sint a - sint b < 2 ^ 31 \<Longrightarrow> sint (a - b :: 32 word) = sint a - sint b"
  by (simp add: sint_word_diff signed_take_bit_int_eq_self)
lemma sint_bounds_32: "- (2 ^ 31) \<le> sint (a :: 32 word)" "sint (a :: 32 word) < 2 ^ 31"
  using sint_ge [of a] sint_lt [of a] by simp_all
lemma sdiv_nonneg: "0 \<le> (a::int) \<Longrightarrow> 0 < b \<Longrightarrow> a sdiv b = a div b"
  by (simp add: signed_divide_int_def sgn_if)
lemma div_bounds: "0 \<le> (a::int) \<Longrightarrow> 0 < b \<Longrightarrow> 0 \<le> a div b \<and> a div b \<le> a"
proof (cases "a = 0")
  case True then show ?thesis by simp
next
  case False
  assume "0 \<le> a" "0 < b"
  with False have "0 < a" by simp
  then have "a div b \<le> a" by (rule int_div_le_self)
  moreover have "0 \<le> a div b" using \<open>0 \<le> a\<close> \<open>0 < b\<close> by (simp add: pos_imp_zdiv_nonneg_iff)
  ultimately show ?thesis by simp
qed
lemma c_div_pos:
  "0 < sint b \<Longrightarrow> c_div a b = Some (word_of_int (sint a sdiv sint b))"
proof -
  assume b: "0 < sint b"
  then have "b \<noteq> 0" by auto
  moreover have "sint b \<noteq> - 1" using b by simp
  ultimately show ?thesis by (simp add: c_div_def)
qed



text \<open>The step, read as an integer.\<close>

lemma step_sint:
  assumes "sint lo \<le> sint hi" and "0 < sint st" and "sint hi - sint lo < 2 ^ 31"
  shows "\<exists>step. c_div (hi - lo) st = Some step
           \<and> sint step = (sint hi - sint lo) div sint st
           \<and> 0 \<le> sint step \<and> sint step \<le> sint hi - sint lo"
proof -
  let ?d = "sint hi - sint lo"
  have d: "sint (hi - lo) = ?d"
    using assms by (intro sint_diff_32) simp_all
  have k: "0 \<le> ?d div sint st \<and> ?d div sint st \<le> ?d"
    using assms by (intro div_bounds) simp_all
  have "c_div (hi - lo) st = Some (word_of_int (?d div sint st))"
    using assms by (simp add: c_div_pos d sdiv_nonneg)
  moreover have "sint (word_of_int (?d div sint st) :: 32 word) = ?d div sint st"
    using k assms by (intro sint_of_int_32) simp_all
  ultimately show ?thesis using k by simp
qed


lemma quant_level_sint:
  assumes "0 \<le> sint step" and "1 \<le> sint n"
    and "(sint n - 1) * sint step + sint lo < 2 ^ 31"
  shows "sint (quant_level lo hi step n) = min (sint hi) ((sint n - 1) * sint step + sint lo)"
proof -
  have w: "(n - 1) * step + lo = (word_of_int ((sint n - 1) * sint step + sint lo) :: 32 word)"
    by simp
  have "0 \<le> (sint n - 1) * sint step"
    using assms by simp
  then have "- (2 ^ 31) \<le> (sint n - 1) * sint step + sint lo"
    using sint_bounds_32(1) [of lo] by linarith
  then have "sint ((n - 1) * step + lo) = (sint n - 1) * sint step + sint lo"
    unfolding w using assms by (intro sint_of_int_32) simp_all
  then show ?thesis
    by (simp add: quant_level_def Let_def min_def)
qed

lemma bitrate_level_sint:
  assumes "0 \<le> sint step" and "1 \<le> sint n"
    and "- (2 ^ 31) \<le> sint hi - (sint n - 1) * sint step"
  shows "sint (bitrate_level lo hi step n) = max (sint lo) (sint hi - (sint n - 1) * sint step)"
proof -
  have w: "hi - (n - 1) * step = (word_of_int (sint hi - (sint n - 1) * sint step) :: 32 word)"
    by simp
  have "0 \<le> (sint n - 1) * sint step"
    using assms by simp
  then have "sint hi - (sint n - 1) * sint step < 2 ^ 31"
    using sint_bounds_32(2) [of hi] by linarith
  then have "sint (hi - (n - 1) * step) = sint hi - (sint n - 1) * sint step"
    unfolding w using assms by (intro sint_of_int_32) simp_all
  then show ?thesis
    by (simp add: bitrate_level_def Let_def max_def)
qed

lemma change_quant_bound:
  assumes "stream si = Some arr" and "encoder arr = Some enc"
    and "c_div (max_quant_lvl si - min_quant_lvl si) (steps si) = Some step"
  shows "change_quant si =
     Inr (let q = quant_level (min_quant_lvl si) (max_quant_lvl si) step (num_cli si) in
          emits ((if 4 \<le> g_dbg si then [Dbg 4 ''change_quant'' [S ''called'']] else [])
                 @ (if q \<noteq> curr_quant_lvl si
                    then [Print [S ''['', I (num_cli si), S '']Changing quant-lvl from '',
                                 I (curr_quant_lvl si), S '' to '', I q, S nl],
                          Set_property (Element enc) ''quant-param'' (G_int q)]
                    else []))
            (si\<lparr>curr_quant_lvl := q\<rparr>))"
  using assms
  by (simp add: change_quant_def prim_emits quant_level_def Let_def cong: if_cong split del: if_split)


lemma changeQuant_bound:
  assumes "stream si = Some arr" and "encoder arr = Some enc" and "0 < sint (max_quant_lvl si)"
    and "c_div (max_quant_lvl si - min_quant_lvl si) (steps si) = Some step"
  shows "changeQuant si =
     Inr (let q = quant_level (min_quant_lvl si) (max_quant_lvl si) step (num_cli si) in
          emits ((if 4 \<le> g_dbg si then [Dbg 4 ''changeQuant'' [S ''called'']] else [])
                 @ (if q \<noteq> curr_quant_lvl si
                    then [Print [S ''['', I (num_cli si), S '']Changing quant-lvl from '',
                                 I (curr_quant_lvl si), S '' to '', I q, S nl],
                          Set_property (Element enc) ''quant-param'' (G_int q)]
                    else []))
            (si\<lparr>curr_quant_lvl := q\<rparr>))"
  using assms
  by (simp add: changeQuant_def prim_emits quant_level_def Let_def cong: if_cong split del: if_split)


lemma change_bitrate_bound:
  assumes "stream si = Some arr" and "encoder arr = Some enc"
    and "c_div (max_bitrate si - min_bitrate si) (steps si) = Some step"
  shows "change_bitrate v si =
     Inr (let b = bitrate_level (min_bitrate si) (max_bitrate si) step (num_cli si) in
          emits ((if 4 \<le> g_dbg si then [Dbg 4 (change_bitrate_name v) [S ''called'']] else [])
                 @ snap_lines v si step
                 @ (if b \<noteq> curr_bitrate si
                    then [Print [S ''['', I (num_cli si), S '']Changing bitrate from '',
                                 I (curr_bitrate si), S '' to '', I b, S nl],
                          Set_property (Element enc) ''bitrate'' (G_int b)]
                    else []))
            (si\<lparr>curr_bitrate := b\<rparr>))"
  using assms
  apply (simp add: change_bitrate_def change_bitrate_name_def [symmetric] prim_emits
           bitrate_level_def snap_lines_def Let_def cong: if_cong split del: if_split)
  apply simp
  done

lemma snap_lines_filter [simp]:
  "filter (\<lambda>e. \<not> is_dbg e) (snap_lines v si step) = []"
  "filter is_set_property (snap_lines v si step) = []"
  by (simp_all add: snap_lines_def)

lemma snap_lines_frame [simp]:
  "snap_lines v (emits es si) step = snap_lines v si step"
  "snap_lines v (si\<lparr>curr_bitrate := b\<rparr>) step = snap_lines v si step"
  by (simp_all add: snap_lines_def)

lemma change_quant_unbound:
  "stream si = Some arr \<Longrightarrow> encoder arr = None \<Longrightarrow>
   change_quant si = Inr (dbg 4 ''change_quant'' [S ''called''] si)"
  by (simp add: change_quant_def prim_emits)

lemma changeQuant_unbound:
  "stream si = Some arr \<Longrightarrow> encoder arr = None \<or> \<not> 0 < sint (max_quant_lvl si) \<Longrightarrow>
   changeQuant si = Inr (dbg 4 ''changeQuant'' [S ''called''] si)"
  by (auto simp add: changeQuant_def prim_emits split: option.splits)

lemma change_bitrate_unbound:
  "stream si = Some arr \<Longrightarrow> encoder arr = None \<Longrightarrow>
   change_bitrate v si = Inr (dbg 4 (change_bitrate_name v) [S ''called''] si)"
  by (simp add: change_bitrate_def change_bitrate_name_def prim_emits)


text \<open>
  Claim C7.  With \<open>minQuant = 0\<close>, \<open>maxQuant = 51\<close> and \<open>steps = 4\<close> the step is
  \<open>51 / 4 = 12\<close>, and the quant level stored by the quant scaling (of version 1.4 and of
  version 1.5, with the encoder bound) is 0 at one client, 48 at five clients, and is
  capped to 51 at ten clients.
\<close>

theorem C7_quant_scenario:
  "c_div (51 - 0) 4 = Some 12
   \<and> quant_at V1_4 (quant_scenario si arr enc) 1 = Some 0
   \<and> quant_at V1_4 (quant_scenario si arr enc) 5 = Some 48
   \<and> quant_at V1_4 (quant_scenario si arr enc) 10 = Some 51
   \<and> quant_at V1_5 (quant_scenario si arr enc) 1 = Some 0
   \<and> quant_at V1_5 (quant_scenario si arr enc) 5 = Some 48
   \<and> quant_at V1_5 (quant_scenario si arr enc) 10 = Some 51"
proof -
  have d: "c_div (51 - 0) 4 = Some 12"
    by (simp add: c_div_def)
  have q14: "quant_at V1_4 (quant_scenario si arr enc) n = Some (quant_level 0 51 12 n)" for n
    using d
    by (simp add: quant_at_def change_quant_of_def quant_scenario_def Let_def
          change_quant_bound [where arr = "arr\<lparr>encoder := Some enc\<rparr>" and enc = enc and step = 12])
  have q15: "quant_at V1_5 (quant_scenario si arr enc) n = Some (quant_level 0 51 12 n)" for n
    using d
    by (simp add: quant_at_def change_quant_of_def quant_scenario_def Let_def
          changeQuant_bound [where arr = "arr\<lparr>encoder := Some enc\<rparr>" and enc = enc and step = 12])
  have l: "quant_level 0 51 12 1 = 0" "quant_level 0 51 12 5 = 48" "quant_level 0 51 12 10 = 51"
    by (simp_all add: quant_level_def)
  show ?thesis
    using d by (simp add: q14 q15 l)
qed

lemma change_quant_twice:
  assumes arr: "stream si = Some arr" and steps: "0 < sint (steps si)"
  shows "\<exists>s1 s2. change_quant si = Inr s1 \<and> change_quant s1 = Inr s2
            \<and> curr_quant_lvl s2 = curr_quant_lvl s1 \<and> effects s2 = effects s1
            \<and> ((property_writes s1 = property_writes si) = (curr_quant_lvl s1 = curr_quant_lvl si))"
proof (cases "encoder arr")
  case None
  let ?d = "dbg 4 ''change_quant'' [S ''called'']"
  have 1: "change_quant si = Inr (?d si)"
    using arr None by (rule change_quant_unbound)
  have 2: "change_quant (?d si) = Inr (?d (?d si))"
    using arr None by (intro change_quant_unbound) simp_all
  show ?thesis
    by (simp add: 1 2)
next
  case (Some enc)
  obtain step where step: "c_div (max_quant_lvl si - min_quant_lvl si) (steps si) = Some step"
    using steps by (simp add: c_div_pos)
  define q where "q = quant_level (min_quant_lvl si) (max_quant_lvl si) step (num_cli si)"
  define es where "es = (if 4 \<le> g_dbg si then [Dbg 4 ''change_quant'' [S ''called'']] else [])
                 @ (if q \<noteq> curr_quant_lvl si
                    then [Print [S ''['', I (num_cli si), S '']Changing quant-lvl from '',
                                 I (curr_quant_lvl si), S '' to '', I q, S nl],
                          Set_property (Element enc) ''quant-param'' (G_int q)]
                    else [])"
  define s1 where "s1 = emits es (si\<lparr>curr_quant_lvl := q\<rparr>)"
  have 1: "change_quant si = Inr s1"
    using change_quant_bound [OF arr Some step] by (simp add: s1_def es_def q_def Let_def)
  have f: "stream s1 = Some arr" "c_div (max_quant_lvl s1 - min_quant_lvl s1) (steps s1) = Some step"
      "quant_level (min_quant_lvl s1) (max_quant_lvl s1) step (num_cli s1) = q"
      "curr_quant_lvl s1 = q" "g_dbg s1 = g_dbg si"
    using arr step by (simp_all add: s1_def q_def)
  have 2: "change_quant s1
      = Inr (emits (if 4 \<le> g_dbg si then [Dbg 4 ''change_quant'' [S ''called'']] else []) s1)"
    using change_quant_bound [OF f(1) Some f(2)] by (simp add: f Let_def)
  have 3: "(property_writes s1 = property_writes si) = (curr_quant_lvl s1 = curr_quant_lvl si)"
    by (simp add: s1_def es_def)
  show ?thesis
    using 3 by (simp add: 1 2)
qed


lemma changeQuant_twice:
  assumes arr: "stream si = Some arr" and steps: "0 < sint (steps si)"
  shows "\<exists>s1 s2. changeQuant si = Inr s1 \<and> changeQuant s1 = Inr s2
            \<and> curr_quant_lvl s2 = curr_quant_lvl s1 \<and> effects s2 = effects s1
            \<and> ((property_writes s1 = property_writes si) = (curr_quant_lvl s1 = curr_quant_lvl si))"
proof (cases "encoder arr = None \<or> \<not> 0 < sint (max_quant_lvl si)")
  case True
  let ?d = "dbg 4 ''changeQuant'' [S ''called'']"
  have 1: "changeQuant si = Inr (?d si)"
    using arr True by (rule changeQuant_unbound)
  have 2: "changeQuant (?d si) = Inr (?d (?d si))"
    using arr True by (intro changeQuant_unbound) simp_all
  show ?thesis
    by (simp add: 1 2)
next
  case False
  then obtain enc where enc: "encoder arr = Some enc" and hi: "0 < sint (max_quant_lvl si)"
    by auto
  obtain step where step: "c_div (max_quant_lvl si - min_quant_lvl si) (steps si) = Some step"
    using steps by (simp add: c_div_pos)
  define q where "q = quant_level (min_quant_lvl si) (max_quant_lvl si) step (num_cli si)"
  define es where "es = (if 4 \<le> g_dbg si then [Dbg 4 ''changeQuant'' [S ''called'']] else [])
                 @ (if q \<noteq> curr_quant_lvl si
                    then [Print [S ''['', I (num_cli si), S '']Changing quant-lvl from '',
                                 I (curr_quant_lvl si), S '' to '', I q, S nl],
                          Set_property (Element enc) ''quant-param'' (G_int q)]
                    else [])"
  define s1 where "s1 = emits es (si\<lparr>curr_quant_lvl := q\<rparr>)"
  have 1: "changeQuant si = Inr s1"
    using changeQuant_bound [OF arr enc hi step] by (simp add: s1_def es_def q_def Let_def)
  have f: "stream s1 = Some arr" "0 < sint (max_quant_lvl s1)"
      "c_div (max_quant_lvl s1 - min_quant_lvl s1) (steps s1) = Some step"
      "quant_level (min_quant_lvl s1) (max_quant_lvl s1) step (num_cli s1) = q"
      "curr_quant_lvl s1 = q" "g_dbg s1 = g_dbg si"
    using arr step hi by (simp_all add: s1_def q_def)
  have 2: "changeQuant s1
      = Inr (emits (if 4 \<le> g_dbg si then [Dbg 4 ''changeQuant'' [S ''called'']] else []) s1)"
    using changeQuant_bound [OF f(1) enc f(2) f(3)] by (simp add: f Let_def)
  have 3: "(property_writes s1 = property_writes si) = (curr_quant_lvl s1 = curr_quant_lvl si)"
    by (simp add: s1_def es_def)
  show ?thesis
    using 3 by (simp add: 1 2)
qed

lemma change_bitrate_twice:
  assumes arr: "stream si = Some arr" and steps: "0 < sint (steps si)"
  shows "\<exists>s1 s2. change_bitrate v si = Inr s1 \<and> change_bitrate v s1 = Inr s2
            \<and> curr_bitrate s2 = curr_bitrate s1 \<and> effects s2 = effects s1
            \<and> ((property_writes s1 = property_writes si) = (curr_bitrate s1 = curr_bitrate si))"
proof (cases "encoder arr")
  case None
  let ?d = "dbg 4 (change_bitrate_name v) [S ''called'']"
  have 1: "change_bitrate v si = Inr (?d si)"
    using arr None by (rule change_bitrate_unbound)
  have 2: "change_bitrate v (?d si) = Inr (?d (?d si))"
    using arr None by (intro change_bitrate_unbound) simp_all
  show ?thesis
    by (simp add: 1 2)
next
  case (Some enc)
  obtain step where step: "c_div (max_bitrate si - min_bitrate si) (steps si) = Some step"
    using steps by (simp add: c_div_pos)
  define b where "b = bitrate_level (min_bitrate si) (max_bitrate si) step (num_cli si)"
  define ds where "ds = (if 4 \<le> g_dbg si then [Dbg 4 (change_bitrate_name v) [S ''called'']] else [])
                 @ snap_lines v si step"
  define es where "es = ds @ (if b \<noteq> curr_bitrate si
                    then [Print [S ''['', I (num_cli si), S '']Changing bitrate from '',
                                 I (curr_bitrate si), S '' to '', I b, S nl],
                          Set_property (Element enc) ''bitrate'' (G_int b)]
                    else [])"
  define s1 where "s1 = emits es (si\<lparr>curr_bitrate := b\<rparr>)"
  have 1: "change_bitrate v si = Inr s1"
    using change_bitrate_bound [OF arr Some step, of v]
    by (simp add: s1_def es_def ds_def b_def Let_def)
  have f: "stream s1 = Some arr" "c_div (max_bitrate s1 - min_bitrate s1) (steps s1) = Some step"
      "bitrate_level (min_bitrate s1) (max_bitrate s1) step (num_cli s1) = b"
      "curr_bitrate s1 = b" "g_dbg s1 = g_dbg si" "snap_lines v s1 step = snap_lines v si step"
    using arr step by (simp_all add: s1_def b_def)
  have 2: "change_bitrate v s1 = Inr (emits ds s1)"
    using change_bitrate_bound [OF f(1) Some f(2), of v] by (simp add: f Let_def ds_def)
  have 3: "(property_writes s1 = property_writes si) = (curr_bitrate s1 = curr_bitrate si)"
    by (simp add: s1_def es_def ds_def)
  have 4: "effects (emits ds s1) = effects s1"
    by (simp add: ds_def)
  show ?thesis
    using 3 4 by (simp add: 1 2)
qed

text \<open>
  Claim C8.  Recomputing the quality value a second time for the same client count stores
  the same value and applies nothing: for the quant scaling of both versions and for the
  bitrate scaling, on a state whose element array exists and whose step count is
  positive, the first call returns a state \<open>s1\<close>, the second call on \<open>s1\<close> returns a state
  with the same stored value and the same output apart from debug lines, and the first
  call writes the encoder property exactly when the stored value changes.
\<close>

theorem C8_recompute_idempotent:
  assumes "stream si \<noteq> None" and "0 < sint (steps si)"
  shows "(\<exists>s1 s2. change_quant si = Inr s1 \<and> change_quant s1 = Inr s2
            \<and> curr_quant_lvl s2 = curr_quant_lvl s1 \<and> effects s2 = effects s1
            \<and> ((property_writes s1 = property_writes si) = (curr_quant_lvl s1 = curr_quant_lvl si)))
       \<and> (\<exists>s1 s2. changeQuant si = Inr s1 \<and> changeQuant s1 = Inr s2
            \<and> curr_quant_lvl s2 = curr_quant_lvl s1 \<and> effects s2 = effects s1
            \<and> ((property_writes s1 = property_writes si) = (curr_quant_lvl s1 = curr_quant_lvl si)))
       \<and> (\<exists>s1 s2. change_bitrate v si = Inr s1 \<and> change_bitrate v s1 = Inr s2
            \<and> curr_bitrate s2 = curr_bitrate s1 \<and> effects s2 = effects s1
            \<and> ((property_writes s1 = property_writes si) = (curr_bitrate s1 = curr_bitrate si)))"
proof -
  from assms(1) obtain arr where arr: "stream si = Some arr" by auto
  show ?thesis
    using change_quant_twice [OF arr assms(2)] changeQuant_twice [OF arr assms(2)]
      change_bitrate_twice [OF arr assms(2), of v]
    by (intro conjI)
qed

theorem C8_recompute_idempotent_witness:
  "stream (streaming 3 (main_info_v1_4 env0)) \<noteq> None
   \<and> 0 < sint (steps (streaming 3 (main_info_v1_4 env0)))
   \<and> (\<exists>s1 s2. change_quant (streaming 3 (main_info_v1_4 env0)) = Inr s1
          \<and> change_quant s1 = Inr s2
          \<and> curr_quant_lvl s2 = curr_quant_lvl s1 \<and> effects s2 = effects s1
          \<and> ((property_writes s1 = property_writes (streaming 3 (main_info_v1_4 env0)))
               = (curr_quant_lvl s1 = curr_quant_lvl (streaming 3 (main_info_v1_4 env0)))))"
proof -
  let ?si = "streaming 3 (main_info_v1_4 env0)"
  have h1: "stream ?si \<noteq> None"
    by (simp add: streaming_def)
  have h2: "0 < sint (steps ?si)"
    by (simp add: streaming_def main_info_v1_4_def)
  from C8_recompute_idempotent [OF h1 h2, of V1_4]
  have "\<exists>s1 s2. change_quant ?si = Inr s1 \<and> change_quant s1 = Inr s2
          \<and> curr_quant_lvl s2 = curr_quant_lvl s1 \<and> effects s2 = effects s1
          \<and> ((property_writes s1 = property_writes ?si)
               = (curr_quant_lvl s1 = curr_quant_lvl ?si))"
    by (rule conjunct1)
  with h1 h2 show ?thesis
    by (intro conjI)
qed

lemma change_quant_curr:
  assumes "stream si = Some arr" and "encoder arr = Some enc"
    and "c_div (max_quant_lvl si - min_quant_lvl si) (steps si) = Some step"
  shows "\<exists>s'. change_quant si = Inr s'
           \<and> curr_quant_lvl s' = quant_level (min_quant_lvl si) (max_quant_lvl si) step (num_cli si)"
  using change_quant_bound [OF assms] by (simp add: Let_def)

lemma changeQuant_curr:
  assumes "stream si = Some arr" and "encoder arr = Some enc" and "0 < sint (max_quant_lvl si)"
    and "c_div (max_quant_lvl si - min_quant_lvl si) (steps si) = Some step"
  shows "\<exists>s'. changeQuant si = Inr s'
           \<and> curr_quant_lvl s' = quant_level (min_quant_lvl si) (max_quant_lvl si) step (num_cli si)"
  using changeQuant_bound [OF assms] by (simp add: Let_def)

lemma change_bitrate_curr:
  assumes "stream si = Some arr" and "encoder arr = Some enc"
    and "c_div (max_bitrate si - min_bitrate si) (steps si) = Some step"
  shows "\<exists>s'. change_bitrate v si = Inr s'
           \<and> curr_bitrate s' = bitrate_level (min_bitrate si) (max_bitrate si) step (num_cli si)"
  using change_bitrate_bound [OF assms, of v] by (simp add: Let_def)

lemma quant_at_bound:
  assumes "stream si = Some arr" and "encoder arr = Some enc"
    and "c_div (max_quant_lvl si - min_quant_lvl si) (steps si) = Some step"
    and "v = V1_5 \<longrightarrow> 0 < sint (max_quant_lvl si)"
  shows "quant_at v si n = Some (quant_level (min_quant_lvl si) (max_quant_lvl si) step n)"
proof (cases v)
  case V1_4
  show ?thesis
    using change_quant_curr [of "si\<lparr>num_cli := n\<rparr>" arr enc step] assms V1_4
    by (auto simp add: quant_at_def change_quant_of_def)
next
  case V1_5
  show ?thesis
    using changeQuant_curr [of "si\<lparr>num_cli := n\<rparr>" arr enc step] assms V1_5
    by (auto simp add: quant_at_def change_quant_of_def)
qed

lemma bitrate_at_bound:
  assumes "stream si = Some arr" and "encoder arr = Some enc"
    and "c_div (max_bitrate si - min_bitrate si) (steps si) = Some step"
  shows "bitrate_at v si n = Some (bitrate_level (min_bitrate si) (max_bitrate si) step n)"
  using change_bitrate_curr [of "si\<lparr>num_cli := n\<rparr>" arr enc step v] assms
  by (auto simp add: bitrate_at_def)

lemma level_arith:
  fixes lo hi k a b :: int
  assumes "lo \<le> hi" and "0 \<le> k" and "1 \<le> a" and "a \<le> b"
  shows "lo \<le> min hi ((a - 1) * k + lo)" and "min hi ((a - 1) * k + lo) \<le> hi"
    and "min hi ((a - 1) * k + lo) \<le> min hi ((b - 1) * k + lo)"
    and "lo \<le> max lo (hi - (a - 1) * k)" and "max lo (hi - (a - 1) * k) \<le> hi"
    and "max lo (hi - (b - 1) * k) \<le> max lo (hi - (a - 1) * k)"
    and "(a - 1) * k \<le> (b - 1) * k" and "0 \<le> (a - 1) * k"
proof -
  have m: "(a - 1) * k \<le> (b - 1) * k"
    using assms by (intro mult_right_mono) simp_all
  have z: "0 \<le> (a - 1) * k"
    using assms by simp
  show "lo \<le> min hi ((a - 1) * k + lo)" using assms z by simp
  show "min hi ((a - 1) * k + lo) \<le> hi" by simp
  show "min hi ((a - 1) * k + lo) \<le> min hi ((b - 1) * k + lo)" using m by (simp add: min_def)
  show "lo \<le> max lo (hi - (a - 1) * k)" by simp
  show "max lo (hi - (a - 1) * k) \<le> hi" using assms z by simp
  show "max lo (hi - (b - 1) * k) \<le> max lo (hi - (a - 1) * k)" using m by (simp add: max_def)
  show "(a - 1) * k \<le> (b - 1) * k" by (rule m)
  show "0 \<le> (a - 1) * k" by (rule z)
qed

text \<open>
  The quant scaling in closed form, as long as the computation stays inside the 32-bit
  \<open>int\<close> (\<open>quant_fits\<close>).
\<close>

lemma quant_scaling_fits:
  assumes bound: "encoder_bound si"
    and cfg: "sint (min_quant_lvl si) \<le> sint (max_quant_lvl si)" "1 \<le> sint (steps si)"
    and v15: "v = V1_5 \<longrightarrow> 0 < sint (max_quant_lvl si)"
    and n: "1 \<le> sint n" "sint n \<le> sint m"
    and fits: "quant_fits si m"
  shows "\<exists>q1 q2. quant_at v si n = Some q1 \<and> quant_at v si m = Some q2
           \<and> sint (min_quant_lvl si) \<le> sint q1 \<and> sint q1 \<le> sint (max_quant_lvl si)
           \<and> sint q1 \<le> sint q2
           \<and> sint q1 = min (sint (max_quant_lvl si))
                 ((sint n - 1) * ((sint (max_quant_lvl si) - sint (min_quant_lvl si)) sdiv sint (steps si))
                  + sint (min_quant_lvl si))"
proof -
  let ?lo = "sint (min_quant_lvl si)" and ?hi = "sint (max_quant_lvl si)"
  let ?k = "(?hi - ?lo) sdiv sint (steps si)"
  from bound obtain arr enc where arr: "stream si = Some arr" and enc: "encoder arr = Some enc"
    by (auto simp add: encoder_bound_def split: option.splits)
  have st: "0 < sint (steps si)" using cfg by simp
  have d: "?hi - ?lo < 2 ^ 31" and fm: "(sint m - 1) * ?k + ?lo < 2 ^ 31"
    using fits by (simp_all add: quant_fits_def Let_def)
  have kd: "?k = (?hi - ?lo) div sint (steps si)"
    using cfg st by (intro sdiv_nonneg) simp_all
  from step_sint [OF cfg(1) st d] obtain step where
    step: "c_div (max_quant_lvl si - min_quant_lvl si) (steps si) = Some step"
    and sk: "sint step = ?k" and k0: "0 \<le> ?k"
    by (auto simp add: kd)
  have m1: "1 \<le> sint m" using n by simp
  note ar = level_arith [OF cfg(1) k0 n]
  have fn: "(sint n - 1) * ?k + ?lo < 2 ^ 31"
    using ar(7) fm by linarith
  have q1: "quant_at v si n = Some (quant_level (min_quant_lvl si) (max_quant_lvl si) step n)"
    and q2: "quant_at v si m = Some (quant_level (min_quant_lvl si) (max_quant_lvl si) step m)"
    using arr enc step v15 by (rule quant_at_bound)+
  have s1: "sint (quant_level (min_quant_lvl si) (max_quant_lvl si) step n)
      = min ?hi ((sint n - 1) * ?k + ?lo)"
    using quant_level_sint [of step n "min_quant_lvl si" "max_quant_lvl si"] k0 n fn
    by (simp add: sk)
  have s2: "sint (quant_level (min_quant_lvl si) (max_quant_lvl si) step m)
      = min ?hi ((sint m - 1) * ?k + ?lo)"
    using quant_level_sint [of step m "min_quant_lvl si" "max_quant_lvl si"] k0 m1 fm
    by (simp add: sk)
  show ?thesis
    unfolding q1 q2 using ar(1,2,3) by (simp only: s1 s2 option.inject simp_thms ex_simps)
qed

text \<open>
  The quant levels that \<open>main\<close> admits lie between 0 and 51, so the step is at most 51,
  and up to 42107523 clients the computation stays inside the 32-bit \<open>int\<close>: the largest
  product is \<open>42107522 * 51 = 2147483622\<close>.
\<close>

lemma quant_fits_range:
  assumes cfg: "sint (min_quant_lvl si) \<le> sint (max_quant_lvl si)" "1 \<le> sint (steps si)"
    and range: "0 \<le> sint (min_quant_lvl si)" "sint (max_quant_lvl si) \<le> 51"
    and m: "1 \<le> sint m" "sint m \<le> 42107523"
  shows "quant_fits si m"
proof -
  let ?lo = "sint (min_quant_lvl si)" and ?hi = "sint (max_quant_lvl si)"
  let ?k = "(?hi - ?lo) sdiv sint (steps si)"
  have st: "0 < sint (steps si)" using cfg by simp
  have d0: "0 \<le> ?hi - ?lo" using cfg by simp
  have kd: "?k = (?hi - ?lo) div sint (steps si)"
    using d0 st by (intro sdiv_nonneg) simp_all
  have db: "0 \<le> (?hi - ?lo) div sint (steps si)
      \<and> (?hi - ?lo) div sint (steps si) \<le> ?hi - ?lo"
    using d0 st by (rule div_bounds)
  have k0: "0 \<le> ?k" using db kd by simp
  have k1: "?k + ?lo \<le> 51" using db range kd by simp
  have "(sint m - 1) * ?k \<le> 42107522 * ?k"
    using m k0 by (intro mult_right_mono) simp_all
  hence p: "(sint m - 1) * ?k + ?lo \<le> 2147483622" and p': "(sint m - 1) * ?k \<le> 2147483622"
    using k1 k0 range by simp_all
  have "?hi - ?lo < 2 ^ 31" using range by simp
  moreover have "(sint m - 1) * ?k < 2 ^ 31" using p' by simp
  moreover have "(sint m - 1) * ?k + ?lo < 2 ^ 31" using p by simp
  ultimately show ?thesis by (simp add: quant_fits_def Let_def)
qed

text \<open>
  Claim C1.  \<open>main\<close> admits quant levels between 0 and 51 only (both options are clamped,
  lines 1026 to 1040 and 1113 to 1122, 2482 to 2499 and 2604 to 2617) and rejects \<open>maxQuant < minQuant\<close> and
  \<open>steps < 1\<close>.  For every such configuration with the encoder bound (and, for version
  1.5, \<open>maxQuant > 0\<close>, without which \<open>changeQuant\<close> computes nothing), and for all client
  counts \<open>1 \<le> n \<le> m \<le> 42107523\<close>, the quant scaling at \<open>n\<close> and at \<open>m\<close> returns, the level
  stored at \<open>n\<close> is \<open>min maxQuant (minQuant + (n - 1) * step)\<close> with
  \<open>step = (maxQuant - minQuant) / steps\<close>, it lies between \<open>minQuant\<close> and \<open>maxQuant\<close>,
  and it is at most the level stored at \<open>m\<close>.  (The client count is a 32-bit \<open>int\<close>; from
  42107524 clients on, with step 51, the product \<open>(n - 1) * step\<close> no longer fits it.)
\<close>

theorem C1_quant_in_range_monotone:
  assumes bound: "encoder_bound si"
    and cfg: "sint (min_quant_lvl si) \<le> sint (max_quant_lvl si)" "1 \<le> sint (steps si)"
    and range: "0 \<le> sint (min_quant_lvl si)" "sint (max_quant_lvl si) \<le> 51"
    and v15: "v = V1_5 \<longrightarrow> 0 < sint (max_quant_lvl si)"
    and n: "1 \<le> sint n" "sint n \<le> sint m" "sint m \<le> 42107523"
  shows "\<exists>q1 q2. quant_at v si n = Some q1 \<and> quant_at v si m = Some q2
           \<and> sint (min_quant_lvl si) \<le> sint q1 \<and> sint q1 \<le> sint (max_quant_lvl si)
           \<and> sint q1 \<le> sint q2
           \<and> sint q1 = min (sint (max_quant_lvl si))
                 ((sint n - 1) * ((sint (max_quant_lvl si) - sint (min_quant_lvl si)) sdiv sint (steps si))
                  + sint (min_quant_lvl si))"
proof -
  have m1: "1 \<le> sint m" using n by simp
  have "quant_fits si m"
    using cfg range m1 n(3) by (rule quant_fits_range)
  with bound cfg v15 n(1,2) show ?thesis
    by (rule quant_scaling_fits)
qed

text \<open>
  Claim C2, as amended.  Let the encoder be bound, \<open>minBitrate \<le> maxBitrate\<close> and
  \<open>steps \<ge> 1\<close>.  For client counts \<open>1 \<le> n \<le> m\<close> such that the computation at \<open>m\<close> stays
  inside the 32-bit \<open>int\<close> (\<open>bitrate_fits\<close>), the bitrate scaling at \<open>n\<close> and at \<open>m\<close>
  returns, the bitrate stored at \<open>n\<close> is \<open>max minBitrate (maxBitrate - (n - 1) * step)\<close>
  with \<open>step = (maxBitrate - minBitrate) / steps\<close>, it lies between \<open>minBitrate\<close> and
  \<open>maxBitrate\<close>, and it is at least the bitrate stored at \<open>m\<close>.
\<close>

theorem C2_bitrate_in_range_monotone:
  assumes bound: "encoder_bound si"
    and cfg: "sint (min_bitrate si) \<le> sint (max_bitrate si)" "1 \<le> sint (steps si)"
    and n: "1 \<le> sint n" "sint n \<le> sint m"
    and fits: "bitrate_fits si m"
  shows "\<exists>b1 b2. bitrate_at v si n = Some b1 \<and> bitrate_at v si m = Some b2
           \<and> sint (min_bitrate si) \<le> sint b1 \<and> sint b1 \<le> sint (max_bitrate si)
           \<and> sint b2 \<le> sint b1
           \<and> sint b1 = max (sint (min_bitrate si))
                 (sint (max_bitrate si)
                  - (sint n - 1) * ((sint (max_bitrate si) - sint (min_bitrate si)) sdiv sint (steps si)))"
proof -
  let ?lo = "sint (min_bitrate si)" and ?hi = "sint (max_bitrate si)"
  let ?k = "(?hi - ?lo) sdiv sint (steps si)"
  from bound obtain arr enc where arr: "stream si = Some arr" and enc: "encoder arr = Some enc"
    by (auto simp add: encoder_bound_def split: option.splits)
  have st: "0 < sint (steps si)" using cfg by simp
  have d: "?hi - ?lo < 2 ^ 31" and fm: "- (2 ^ 31) \<le> ?hi - (sint m - 1) * ?k"
    using fits by (simp_all add: bitrate_fits_def Let_def)
  have kd: "?k = (?hi - ?lo) div sint (steps si)"
    using cfg st by (intro sdiv_nonneg) simp_all
  from step_sint [OF cfg(1) st d] obtain step where
    step: "c_div (max_bitrate si - min_bitrate si) (steps si) = Some step"
    and sk: "sint step = ?k" and k0: "0 \<le> ?k"
    by (auto simp add: kd)
  have m1: "1 \<le> sint m" using n by simp
  note ar = level_arith [OF cfg(1) k0 n]
  have fn: "- (2 ^ 31) \<le> ?hi - (sint n - 1) * ?k"
    using ar(7) fm by linarith
  have b1: "bitrate_at v si n = Some (bitrate_level (min_bitrate si) (max_bitrate si) step n)"
    and b2: "bitrate_at v si m = Some (bitrate_level (min_bitrate si) (max_bitrate si) step m)"
    using arr enc step by (rule bitrate_at_bound)+
  have s1: "sint (bitrate_level (min_bitrate si) (max_bitrate si) step n)
      = max ?lo (?hi - (sint n - 1) * ?k)"
    using bitrate_level_sint [of step n "max_bitrate si" "min_bitrate si"] k0 n fn
    by (simp add: sk)
  have s2: "sint (bitrate_level (min_bitrate si) (max_bitrate si) step m)
      = max ?lo (?hi - (sint m - 1) * ?k)"
    using bitrate_level_sint [of step m "max_bitrate si" "min_bitrate si"] k0 m1 fm
    by (simp add: sk)
  show ?thesis
    unfolding b1 b2 using ar(4,5,6) by (simp only: s1 s2 option.inject simp_thms ex_simps)
qed

lemma demo_config_default_v1_4: "demo_config V1_4 [] = main_info_v1_4 env0"
  by (simp add: demo_config_def main_config_def main_validate_v1_4_def main_info_v1_4_def env0_def)

lemma streaming_bound: "encoder_bound (streaming n si)"
  by (simp add: encoder_bound_def streaming_def demo_elements_def)

lemma demo_config_quant_mode:
  "main_config V1_4 2147483647 [Opt_max_bitrate 0] env0
     = Inr ((main_info_v1_4 env0)\<lparr>max_bitrate := 0, curr_bitrate := 0\<rparr>)"
  by (simp add: main_config_def main_opt_def opt_max_bitrate_def main_validate_v1_4_def
        main_info_v1_4_def env0_def dbg_def Let_def)

theorem C1_quant_in_range_monotone_witness:
  "main_config V1_4 2147483647 [Opt_max_bitrate 0] env0 = Inr (demo_config V1_4 [Opt_max_bitrate 0])
   \<and> encoder_bound (streaming 1 (demo_config V1_4 [Opt_max_bitrate 0]))
   \<and> sint (min_quant_lvl (streaming 1 (demo_config V1_4 [Opt_max_bitrate 0])))
       \<le> sint (max_quant_lvl (streaming 1 (demo_config V1_4 [Opt_max_bitrate 0])))
   \<and> 1 \<le> sint (steps (streaming 1 (demo_config V1_4 [Opt_max_bitrate 0])))
   \<and> 0 \<le> sint (min_quant_lvl (streaming 1 (demo_config V1_4 [Opt_max_bitrate 0])))
   \<and> sint (max_quant_lvl (streaming 1 (demo_config V1_4 [Opt_max_bitrate 0]))) \<le> 51
   \<and> 1 \<le> sint (2 :: gint) \<and> sint (2 :: gint) \<le> sint (5 :: gint)
   \<and> sint (5 :: gint) \<le> 42107523
   \<and> (\<exists>q1 q2. quant_at V1_4 (streaming 1 (demo_config V1_4 [Opt_max_bitrate 0])) 2 = Some q1
         \<and> quant_at V1_4 (streaming 1 (demo_config V1_4 [Opt_max_bitrate 0])) 5 = Some q2
         \<and> sint q1 = 12 \<and> sint q1 \<le> sint q2)"
proof -
  have c: "demo_config V1_4 [Opt_max_bitrate 0]
      = (main_info_v1_4 env0)\<lparr>max_bitrate := 0, curr_bitrate := 0\<rparr>"
    by (simp add: demo_config_def demo_config_quant_mode)
  let ?si = "streaming 1 ((main_info_v1_4 env0)\<lparr>max_bitrate := 0, curr_bitrate := 0\<rparr>)"
  have h1: "encoder_bound ?si" by (rule streaming_bound)
  have f: "min_quant_lvl ?si = 0" "max_quant_lvl ?si = 51" "steps ?si = 4"
    by (simp_all add: streaming_def main_info_v1_4_def)
  have h2: "sint (min_quant_lvl ?si) \<le> sint (max_quant_lvl ?si)" by (simp add: f)
  have h3: "1 \<le> sint (steps ?si)" by (simp add: f)
  have r: "0 \<le> sint (min_quant_lvl ?si)" "sint (max_quant_lvl ?si) \<le> 51" by (simp_all add: f)
  have h4: "V1_4 = V1_5 \<longrightarrow> 0 < sint (max_quant_lvl ?si)" by simp
  have h5: "1 \<le> sint (2 :: gint)" "sint (2 :: gint) \<le> sint (5 :: gint)"
    "sint (5 :: gint) \<le> 42107523" by simp_all
  from C1_quant_in_range_monotone [OF h1 h2 h3 r h4 h5]
  have "\<exists>q1 q2. quant_at V1_4 ?si 2 = Some q1 \<and> quant_at V1_4 ?si 5 = Some q2
         \<and> sint q1 = 12 \<and> sint q1 \<le> sint q2"
    by (auto simp add: f signed_divide_int_def)
  with h1 h2 h3 r h5 show ?thesis
    unfolding c by (simp only: demo_config_quant_mode simp_thms)
qed

theorem C2_bitrate_in_range_monotone_witness:
  "encoder_bound (streaming 1 (main_info_v1_4 env0))
   \<and> sint (min_bitrate (streaming 1 (main_info_v1_4 env0)))
       \<le> sint (max_bitrate (streaming 1 (main_info_v1_4 env0)))
   \<and> 1 \<le> sint (steps (streaming 1 (main_info_v1_4 env0)))
   \<and> 1 \<le> sint (2 :: gint) \<and> sint (2 :: gint) \<le> sint (6 :: gint)
   \<and> bitrate_fits (streaming 1 (main_info_v1_4 env0)) 6
   \<and> (\<exists>b1 b2. bitrate_at V1_5 (streaming 1 (main_info_v1_4 env0)) 2 = Some b1
         \<and> bitrate_at V1_5 (streaming 1 (main_info_v1_4 env0)) 6 = Some b2
         \<and> sint b1 = 7501 \<and> sint b2 \<le> sint b1)"
proof -
  let ?si = "streaming 1 (main_info_v1_4 env0)"
  have h1: "encoder_bound ?si" by (rule streaming_bound)
  have f: "min_bitrate ?si = 1" "max_bitrate ?si = 10000" "steps ?si = 4"
    by (simp_all add: streaming_def main_info_v1_4_def)
  have h2: "sint (min_bitrate ?si) \<le> sint (max_bitrate ?si)" by (simp add: f)
  have h3: "1 \<le> sint (steps ?si)" by (simp add: f)
  have h5: "1 \<le> sint (2 :: gint)" "sint (2 :: gint) \<le> sint (6 :: gint)" by simp_all
  have h6: "bitrate_fits ?si 6" by (simp add: bitrate_fits_def f signed_divide_int_def)
  from C2_bitrate_in_range_monotone [OF h1 h2 h3 h5 h6, of V1_5]
  have "\<exists>b1 b2. bitrate_at V1_5 ?si 2 = Some b1 \<and> bitrate_at V1_5 ?si 6 = Some b2
         \<and> sint b1 = 7501 \<and> sint b2 \<le> sint b1"
    by (auto simp add: f signed_divide_int_def)
  with h1 h2 h3 h5 h6 show ?thesis by (intro conjI)
qed

lemma demo_config_big_bitrate:
  "main_config V1_4 2147483647 [Opt_max_bitrate 1073741825, Opt_steps 2] env0
     = Inr ((main_info_v1_4 env0)\<lparr>max_bitrate := 1073741825, curr_bitrate := 1073741825, steps := 1\<rparr>)"
  by (simp add: main_config_def main_opt_def opt_max_bitrate_def main_validate_v1_4_def
        main_info_v1_4_def env0_def dbg_def Let_def)

theorem C2_counterexample:
  "main_config V1_4 2147483647 [Opt_max_bitrate 1073741825, Opt_steps 2] env0
     = Inr (demo_config V1_4 [Opt_max_bitrate 1073741825, Opt_steps 2])
   \<and> encoder_bound (streaming 1 (demo_config V1_4 [Opt_max_bitrate 1073741825, Opt_steps 2]))
   \<and> sint (min_bitrate (streaming 1 (demo_config V1_4 [Opt_max_bitrate 1073741825, Opt_steps 2])))
       \<le> sint (max_bitrate (streaming 1 (demo_config V1_4 [Opt_max_bitrate 1073741825, Opt_steps 2])))
   \<and> 1 \<le> sint (steps (streaming 1 (demo_config V1_4 [Opt_max_bitrate 1073741825, Opt_steps 2])))
   \<and> 1 \<le> sint (2 :: gint) \<and> sint (2 :: gint) \<le> sint (5 :: gint)
   \<and> bitrate_at V1_4 (streaming 1 (demo_config V1_4 [Opt_max_bitrate 1073741825, Opt_steps 2])) 2
       = Some 1
   \<and> bitrate_at V1_4 (streaming 1 (demo_config V1_4 [Opt_max_bitrate 1073741825, Opt_steps 2])) 5
       = Some 1073741825
   \<and> sint (1 :: gint) < sint (1073741825 :: gint)"
proof -
  have c: "demo_config V1_4 [Opt_max_bitrate 1073741825, Opt_steps 2]
      = (main_info_v1_4 env0)\<lparr>max_bitrate := 1073741825, curr_bitrate := 1073741825, steps := 1\<rparr>"
    by (simp add: demo_config_def demo_config_big_bitrate)
  let ?si = "streaming 1
      ((main_info_v1_4 env0)\<lparr>max_bitrate := 1073741825, curr_bitrate := 1073741825, steps := 1\<rparr>)"
  have f: "min_bitrate ?si = 1" "max_bitrate ?si = 1073741825" "steps ?si = 1"
      "stream ?si = Some demo_elements" "encoder demo_elements = Some demo_enc"
    by (simp_all add: streaming_def main_info_v1_4_def demo_elements_def)
  have d: "c_div (max_bitrate ?si - min_bitrate ?si) (steps ?si) = Some 1073741824"
    by (simp add: f c_div_def)
  have b2: "bitrate_at V1_4 ?si 2 = Some 1"
    using bitrate_at_bound [OF f(4) f(5) d, of V1_4 2]
    by (simp add: f bitrate_level_def)
  have b5: "bitrate_at V1_4 ?si 5 = Some 1073741825"
    using bitrate_at_bound [OF f(4) f(5) d, of V1_4 5]
    by (simp add: f bitrate_level_def)
  show ?thesis
    unfolding c using b2 b5 by (simp add: demo_config_big_bitrate streaming_bound f)
qed

section \<open>What the command protocol and the status channel leave alone\<close>

lemma next_open_frame [simp]:
  "next_open (emits es si) = next_open si"
  "next_open (dbg l f m si) = next_open si"
  by (simp_all add: next_open_def)

lemma core_emits [simp]: "core (emits es si) = core si"
  by (simp add: core_def emits_def)

lemma core_prims [simp]:
  "core (emit e si) = core si"
  "core (dbg l f m si) = core si"
  "core (g_print m si) = core si"
  "core (g_object_set_property obj n x si) = core si"
  "core (gst_object_unref ob si) = core si"
  by (simp_all add: prim_emits)

lemma core_update [simp]:
  "core (si\<lparr>status_pipe_fd := fd\<rparr>) = core si"
  "core (si\<lparr>status_pipe_stream := fs\<rparr>) = core si"
  "core (si\<lparr>env_open := eo\<rparr>) = core si"
  "core (si\<lparr>out := ou\<rparr>) = core si"
  by (simp_all add: core_def)

lemma core_If: "core (if c then a else b) = (if c then core a else core b)"
  by simp

lemma case_option_same [simp]: "(case x of None \<Rightarrow> a | Some y \<Rightarrow> a) = a"
  by (cases x) simp_all

lemma case_version_same [simp]: "(case v of V1_4 \<Rightarrow> a | V1_5 \<Rightarrow> a) = a"
  by (cases v) simp_all

lemmas core_rules = prim_emits core_If option.case_distrib [of core] version.case_distrib [of core]

lemma core_setup_status_pipe_if_needed [simp]: "core (setup_status_pipe_if_needed si) = core si"
  by (simp add: setup_status_pipe_if_needed_def Let_def core_rules
       cong: if_cong option.case_cong split del: if_split)

lemma core_setupStatusPipeIfNeeded [simp]: "core (setupStatusPipeIfNeeded si) = core si"
  by (simp add: setupStatusPipeIfNeeded_def Let_def core_rules
       cong: if_cong option.case_cong split del: if_split)

lemma core_send_status_pipe_msg [simp]:
  "core (send_status_pipe_msg t b si) = core si"
  "core (sendStatusPipeMessage t b si) = core si"
  by (simp_all add: send_status_pipe_msg_def sendStatusPipeMessage_def Let_def
        core_rules cong: if_cong option.case_cong split del: if_split)

lemma core_send_status [simp]: "core (send_status v t b si) = core si"
  by (cases v) (simp_all add: send_status_def)

lemma core_do_command_status [simp]:
  "core (do_command_status f l si) = core si"
  "core (doCommandSendStatus f l si) = core si"
  by (simp_all add: do_command_status_def doCommandSendStatus_def
        core_rules cong: if_cong split del: if_split)

lemma core_command_status [simp]: "core (command_status v f l si) = core si"
  by (cases v) (simp_all add: command_status_def)

lemma core_print_object_properties_info [simp]:
  "core (print_object_properties_info v el si) = core si"
  by (simp add: print_object_properties_info_def)

lemma core_fold: "(\<And>e s. core (f e s) = core s) \<Longrightarrow> core (fold f xs si) = core si"
  by (induction xs arbitrary: si) simp_all

lemma keeps_simps [simp]:
  "keeps p si (Inl f) = True"
  "keeps p si (Inr si') = (p si' = p si)"
  by (simp_all add: keeps_def)

lemma keeps_If: "keeps p si (if c then a else b) = (if c then keeps p si a else keeps p si b)"
  by simp

lemma keepsD: "keeps p si r \<Longrightarrow> r = Inr si' \<Longrightarrow> p si' = p si"
  by (simp add: keeps_def)

lemmas keeps_rules = prim_emits keeps_If option.case_distrib [of "keeps p si" for p si]
  version.case_distrib [of "keeps p si" for p si]

lemma kept_do_command_print_bin: "keeps core si (do_command_print_bin v si)"
  by (simp add: do_command_print_bin_def Let_def keeps_rules core_fold
       cong: if_cong option.case_cong version.case_cong split del: if_split)

lemma kept_do_command_setparam: "keeps core si (do_command_setparam a e p n x si)"
  by (simp add: do_command_setparam_def Let_def keeps_rules core_If
       cong: if_cong option.case_cong split del: if_split)

lemma kept_doCommandSetParameter: "keeps core si (doCommandSetParameter a e p n x si)"
  by (simp add: doCommandSetParameter_def Let_def keeps_rules core_If
       cong: if_cong option.case_cong split del: if_split)

lemma core_do_command_print_bin: "do_command_print_bin v si = Inr si' \<Longrightarrow> core si' = core si"
  using kept_do_command_print_bin [of si v] by (simp add: keeps_def)

lemma core_command_setparam: "command_setparam v a e p n x si = Inr si' \<Longrightarrow> core si' = core si"
  using kept_do_command_setparam [of si a e p n x] kept_doCommandSetParameter [of si a e p n x]
  by (cases v) (simp_all add: command_setparam_def keeps_def)

lemma core_scan_command:
  "scan_command fn cs d ps si = Inr (d', ps', si') \<Longrightarrow> core si' = core si"
  by (induction fn cs d ps si rule: scan_command.induct)
     (auto split: if_splits sum.splits)

lemma core_run_command: "run_command v d ps si = Inr si' \<Longrightarrow> core si' = core si"
  by (auto simp add: run_command_def Let_def split: if_splits
        dest!: core_command_setparam core_do_command_print_bin)

lemma core_process_command: "process_command v command len si = Inr si' \<Longrightarrow> core si' = core si"
  by (auto simp add: process_command_def Let_def split: sum.splits
        dest!: core_scan_command core_run_command)

lemma core_reader_loop: "reader_loop v avail mem pos si = Inr si' \<Longrightarrow> core si' = core si"
  by (induction v avail mem pos si rule: reader_loop.induct)
     (auto split: if_splits sum.splits dest!: core_process_command)

lemma core_reader: "reader v stack avail si = Inr si' \<Longrightarrow> core si' = core si"
  unfolding reader_def by (rule core_reader_loop)

lemma config_of_core: "config (core si) = config si"
  by (simp add: config_def core_def)

lemma config_core: "core a = core b \<Longrightarrow> config a = config b"
  using config_of_core [of a] config_of_core [of b] by simp

lemma config_emits [simp]: "config (emits es si) = config si"
  by (simp add: config_def emits_def)

lemma config_prims [simp]:
  "config (emit e si) = config si"
  "config (dbg l f m si) = config si"
  "config (g_print m si) = config si"
  "config (g_object_set_property obj n x si) = config si"
  "config (gst_object_unref ob si) = config si"
  by (simp_all add: prim_emits)

lemma config_update [simp]:
  "config (si\<lparr>num_cli := n\<rparr>) = config si"
  "config (si\<lparr>stream := st\<rparr>) = config si"
  "config (si\<lparr>connected := c\<rparr>) = config si"
  "config (si\<lparr>curr_quant_lvl := q\<rparr>) = config si"
  "config (si\<lparr>curr_bitrate := b\<rparr>) = config si"
  "config (si\<lparr>status_pipe_fd := fd\<rparr>) = config si"
  "config (si\<lparr>status_pipe_stream := fs\<rparr>) = config si"
  "config (si\<lparr>first_run := fr\<rparr>) = config si"
  "config (si\<lparr>env_open := eo\<rparr>) = config si"
  "config (si\<lparr>env_atof := ea\<rparr>) = config si"
  "config (si\<lparr>env_strtod := es\<rparr>) = config si"
  "config (si\<lparr>env_malloc := em\<rparr>) = config si"
  "config (si\<lparr>out := ou\<rparr>) = config si"
  by (simp_all add: config_def)

lemma config_command_status [simp]: "config (command_status v f l si) = config si"
  by (rule config_core) simp

lemma change_unallocated:
  "stream si = None \<Longrightarrow> change_quant si = Inl Stream_unallocated"
  "stream si = None \<Longrightarrow> changeQuant si = Inl Stream_unallocated"
  "stream si = None \<Longrightarrow> change_bitrate v si = Inl Stream_unallocated"
  by (simp_all add: change_quant_def changeQuant_def change_bitrate_def)

lemma change_trap:
  "stream si = Some arr \<Longrightarrow> encoder arr = Some enc \<Longrightarrow>
   c_div (max_quant_lvl si - min_quant_lvl si) (steps si) = None \<Longrightarrow>
   change_quant si = Inl Division_trap"
  "stream si = Some arr \<Longrightarrow> encoder arr = Some enc \<Longrightarrow> 0 < sint (max_quant_lvl si) \<Longrightarrow>
   c_div (max_quant_lvl si - min_quant_lvl si) (steps si) = None \<Longrightarrow>
   changeQuant si = Inl Division_trap"
  "stream si = Some arr \<Longrightarrow> encoder arr = Some enc \<Longrightarrow>
   c_div (max_bitrate si - min_bitrate si) (steps si) = None \<Longrightarrow>
   change_bitrate v si = Inl Division_trap"
  by (simp_all add: change_quant_def changeQuant_def change_bitrate_def)

lemma bitrate_level_min: "sint lo \<le> sint (bitrate_level lo hi step n)"
  by (simp add: bitrate_level_def Let_def)

lemma update_same [simp]:
  "si\<lparr>curr_bitrate := curr_bitrate si\<rparr> = si"
  "si\<lparr>curr_quant_lvl := curr_quant_lvl si\<rparr> = si"
  by simp_all

lemma change_bitrate_shape:
  assumes r: "change_bitrate v si = Inr si'"
  shows "\<exists>es b. si' = emits es (si\<lparr>curr_bitrate := b\<rparr>)
           \<and> (b = curr_bitrate si \<or> sint (min_bitrate si) \<le> sint b)"
proof (cases "stream si")
  case None
  with r show ?thesis by (simp add: change_unallocated)
next
  case (Some arr)
  show ?thesis
  proof (cases "encoder arr")
    case None
    have "si' = emits (if 4 \<le> g_dbg si then [Dbg 4 (change_bitrate_name v) [S ''called'']] else [])
                  (si\<lparr>curr_bitrate := curr_bitrate si\<rparr>)"
      using r change_bitrate_unbound [OF Some None, of v] by (simp add: dbg_emits)
    then show ?thesis by blast
  next
    case enc: (Some enc)
    show ?thesis
    proof (cases "c_div (max_bitrate si - min_bitrate si) (steps si)")
      case None
      with r Some enc show ?thesis by (simp add: change_trap)
    next
      case step: (Some step)
      let ?b = "bitrate_level (min_bitrate si) (max_bitrate si) step (num_cli si)"
      have "\<exists>es. si' = emits es (si\<lparr>curr_bitrate := ?b\<rparr>)"
        using r change_bitrate_bound [OF Some enc step, of v] by (auto simp add: Let_def)
      moreover have "sint (min_bitrate si) \<le> sint ?b" by (rule bitrate_level_min)
      ultimately show ?thesis by blast
    qed
  qed
qed

lemma change_quant_shape:
  assumes r: "change_quant si = Inr si'"
  shows "\<exists>es q. si' = emits es (si\<lparr>curr_quant_lvl := q\<rparr>)"
proof (cases "stream si")
  case None
  with r show ?thesis by (simp add: change_unallocated)
next
  case (Some arr)
  show ?thesis
  proof (cases "encoder arr")
    case None
    have "si' = emits (if 4 \<le> g_dbg si then [Dbg 4 ''change_quant'' [S ''called'']] else [])
                  (si\<lparr>curr_quant_lvl := curr_quant_lvl si\<rparr>)"
      using r change_quant_unbound [OF Some None] by (simp add: dbg_emits)
    then show ?thesis by blast
  next
    case enc: (Some enc)
    show ?thesis
    proof (cases "c_div (max_quant_lvl si - min_quant_lvl si) (steps si)")
      case None
      with r Some enc show ?thesis by (simp add: change_trap)
    next
      case step: (Some step)
      show ?thesis
        using r change_quant_bound [OF Some enc step] by (auto simp add: Let_def)
    qed
  qed
qed

lemma changeQuant_shape:
  assumes r: "changeQuant si = Inr si'"
  shows "\<exists>es q. si' = emits es (si\<lparr>curr_quant_lvl := q\<rparr>)
           \<and> (q = curr_quant_lvl si \<or> 0 < sint (max_quant_lvl si))"
proof (cases "stream si")
  case None
  with r show ?thesis by (simp add: change_unallocated)
next
  case (Some arr)
  show ?thesis
  proof (cases "encoder arr = None \<or> \<not> 0 < sint (max_quant_lvl si)")
    case True
    have "si' = emits (if 4 \<le> g_dbg si then [Dbg 4 ''changeQuant'' [S ''called'']] else [])
                  (si\<lparr>curr_quant_lvl := curr_quant_lvl si\<rparr>)"
      using r changeQuant_unbound [OF Some True] by (simp add: dbg_emits)
    then show ?thesis by blast
  next
    case False
    then obtain enc where enc: "encoder arr = Some enc" and pos: "0 < sint (max_quant_lvl si)"
      by auto
    show ?thesis
    proof (cases "c_div (max_quant_lvl si - min_quant_lvl si) (steps si)")
      case None
      with r Some enc pos show ?thesis by (simp add: change_trap)
    next
      case step: (Some step)
      show ?thesis
        using r changeQuant_bound [OF Some enc pos step] pos by (auto simp add: Let_def)
    qed
  qed
qed

section \<open>What main hands to the callbacks\<close>

lemma args_inv_info:
  "args_inv V1_4 (main_info_v1_4 env)" "args_inv V1_5 (main_info_v1_5 env)"
  by (simp_all add: args_inv_def main_info_v1_4_def main_info_v1_5_def NO_FILE_def)

lemma args_inv_opt:
  assumes "0 < sint max_br" and "args_inv v si"
  shows "args_inv v (opt_min_bitrate max_br n si)"
    and "args_inv v (opt_max_quant_lvl n si)"
    and "args_inv v (opt_min_quant_lvl n si)"
    and "args_inv v (opt_max_bitrate v max_br n si)"
    and "args_inv v (opt_cap_bitrate max_br n si)"
  using assms
  by (cases v; simp add: args_inv_def opt_min_bitrate_def opt_max_quant_lvl_def opt_min_quant_lvl_def
       opt_max_bitrate_def opt_cap_bitrate_def Let_def)+

lemma args_inv_frame [simp]:
  "args_inv v (dbg l f m si) = args_inv v si"
  "args_inv v (si\<lparr>g_dbg := d\<rparr>) = args_inv v si"
  "args_inv v (si\<lparr>video_in := vi\<rparr>) = args_inv v si"
  "args_inv v (si\<lparr>enable_variable_mode := e\<rparr>) = args_inv v si"
  "args_inv v (si\<lparr>steps := st\<rparr>) = args_inv v si"
  "args_inv v (si\<lparr>config_interval := ci\<rparr>) = args_inv v si"
  "args_inv v (si\<lparr>idr := i\<rparr>) = args_inv v si"
  "args_inv v (si\<lparr>msg_rate := r\<rparr>) = args_inv v si"
  "args_inv v (si\<lparr>status_pipe := sp\<rparr>) = args_inv v si"
  "args_inv v (si\<lparr>rtsp_port_min := p1\<rparr>) = args_inv v si"
  "args_inv v (si\<lparr>rtsp_port_max := p2\<rparr>) = args_inv v si"
  by (simp_all add: args_inv_def)

lemma args_inv_main_opt:
  assumes "0 < sint max_br" and "args_inv v si" and "main_opt v max_br ob si = Inr si'"
  shows "args_inv v si'"
  using assms
  by (cases ob; cases v) (auto simp add: main_opt_def args_inv_opt Let_def)

lemma args_inv_main_args:
  assumes "0 < sint max_br"
  shows "args_inv v si \<Longrightarrow> main_args v max_br opts si = Inr si' \<Longrightarrow> args_inv v si'"
proof (induction opts arbitrary: si)
  case Nil
  then show ?case by simp
next
  case (Cons ob obs)
  from Cons.prems(2) obtain mid where m: "main_opt v max_br ob si = Inr mid"
    and r: "main_args v max_br obs mid = Inr si'"
    by (auto split: sum.splits)
  from assms Cons.prems(1) m have "args_inv v mid" by (rule args_inv_main_opt)
  from this r show ?case by (rule Cons.IH)
qed

text \<open>What \<open>main\<close> hands to the callbacks.\<close>

lemma main_config_range:
  assumes br: "0 < sint max_br" and cfg: "main_config v max_br opts env = Inr si"
  shows "0 \<le> sint (min_quant_lvl si)" "sint (min_quant_lvl si) \<le> sint (max_quant_lvl si)"
    "sint (max_quant_lvl si) \<le> 51" "1 \<le> sint (steps si)"
    "1 \<le> sint (min_bitrate si)" "0 \<le> sint (max_bitrate si)"
    "v = V1_4 \<Longrightarrow> curr_bitrate si = max_bitrate si"
    "curr_quant_lvl si = min_quant_lvl si"
    "num_cli si = 0" "stream si = None" "\<not> connected si"
    "status_pipe_fd si = (case v of V1_4 \<Rightarrow> 0 | V1_5 \<Rightarrow> NO_FILE)"
    "status_pipe_stream si = None" "first_run si"
proof -
  have "args_inv v si \<and> sint (min_quant_lvl si) \<le> sint (max_quant_lvl si) \<and> 1 \<le> sint (steps si)"
  proof (cases v)
    case V1_4
    from cfg V1_4 obtain mid where a: "main_args V1_4 max_br opts (main_info_v1_4 env) = Inr mid"
      and b: "main_validate_v1_4 mid = Inr si"
      by (auto simp add: main_config_def split: sum.splits)
    have "args_inv V1_4 mid"
      using br args_inv_info(1) a by (rule args_inv_main_args)
    with b V1_4 show ?thesis
      by (auto simp add: main_validate_v1_4_def split: if_splits)
  next
    case V1_5
    from cfg V1_5 obtain mid where a: "main_args V1_5 max_br opts (main_info_v1_5 env) = Inr mid"
      and b: "main_validate_v1_5 mid = Inr si"
      by (auto simp add: main_config_def split: sum.splits)
    let ?m = "(if sint (max_bitrate mid) > sint (cap_bitrate mid)
               then (g_print [S ''Max bitrate must be <= cap bitrate, setting max bit rate to '',
                              I (cap_bitrate mid), S ''.'', S nl] mid)
                      \<lparr>max_bitrate := cap_bitrate mid\<rparr>
               else mid)"
    let ?n = "?m\<lparr>curr_bitrate := cap_bitrate ?m\<rparr>"
    have e: "main_validate_v1_5 mid =
        (if sint (max_quant_lvl ?n) < sint (min_quant_lvl ?n) then Inl ECODE_ARGS
         else if sint (max_bitrate ?n) > 0 \<and> sint (max_bitrate ?n) \<le> sint (min_bitrate ?n)
         then Inl ECODE_ARGS
         else if sint (steps ?n) < 1 then Inl ECODE_ARGS
         else if sint (rtsp_port_min ?n) > 0 \<or> sint (rtsp_port_max ?n) > 0 then
           (if sint (rtsp_port_min ?n) \<le> 0 then Inl ECODE_RTSP
            else if sint (rtsp_port_max ?n) \<le> 0 then Inl ECODE_RTSP
            else if sint (rtsp_port_max ?n) \<le> sint (rtsp_port_min ?n) then Inl ECODE_RTSP
            else Inr ?n)
         else Inr ?n)"
      by (simp only: main_validate_v1_5_def Let_def)
    have s: "si = ?n \<and> sint (min_quant_lvl ?n) \<le> sint (max_quant_lvl ?n) \<and> 1 \<le> sint (steps ?n)"
      using b unfolding e by (simp split: if_splits)
    have "args_inv V1_5 mid"
      using br args_inv_info(2) a by (rule args_inv_main_args)
    then have "args_inv V1_5 ?n"
      by (simp add: args_inv_def)
    with s V1_5 show ?thesis by simp
  qed
  then show "0 \<le> sint (min_quant_lvl si)" "sint (min_quant_lvl si) \<le> sint (max_quant_lvl si)"
    "sint (max_quant_lvl si) \<le> 51" "1 \<le> sint (steps si)"
    "1 \<le> sint (min_bitrate si)" "0 \<le> sint (max_bitrate si)"
    "v = V1_4 \<Longrightarrow> curr_bitrate si = max_bitrate si"
    "curr_quant_lvl si = min_quant_lvl si"
    "num_cli si = 0" "stream si = None" "\<not> connected si"
    "status_pipe_fd si = (case v of V1_4 \<Rightarrow> 0 | V1_5 \<Rightarrow> NO_FILE)"
    "status_pipe_stream si = None" "first_run si"
    by (simp_all add: args_inv_def)
qed

section \<open>The callbacks keep the configuration\<close>

lemma new_client_unfold:
  "new_client v si0 =
     (case (if num_cli (new_client_enter (new_client_name v) si0) = 1
            then Inr (new_client_first (new_client_name v) (new_client_enter (new_client_name v) si0))
            else if enable_variable_mode (new_client_enter (new_client_name v) si0)
            then (if selects_bitrate v (new_client_enter (new_client_name v) si0)
                  then change_bitrate v (new_client_enter (new_client_name v) si0)
                  else change_quant_of v (new_client_enter (new_client_name v) si0))
            else Inr (new_client_enter (new_client_name v) si0)) of
        Inl f \<Rightarrow> Inl f
      | Inr si' \<Rightarrow> Inr (new_client_leave v (new_client_name v) si'))"
  by (cases v)
     (simp_all only: new_client_def new_client_handler_def newClientHandler_def new_client_name_def
        selects_bitrate_def change_quant_of_def Let_def version.case)

lemma client_close_unfold:
  "client_close v si0 =
     (case (if num_cli (close_enter (client_close_name v) si0) = 0
            then close_last v (client_close_name v) (close_enter (client_close_name v) si0)
            else if enable_variable_mode (close_enter (client_close_name v) si0)
            then (if selects_bitrate v (close_enter (client_close_name v) si0)
                  then change_bitrate v (close_enter (client_close_name v) si0)
                  else change_quant_of v (close_enter (client_close_name v) si0))
            else Inr (close_enter (client_close_name v) si0)) of
        Inl f \<Rightarrow> Inl f
      | Inr si' \<Rightarrow> Inr (close_leave (client_close_name v) si'))"
  by (cases v)
     (simp_all only: client_close_def client_close_handler_def clientCloseHandler_def
        client_close_name_def selects_bitrate_def change_quant_of_def Let_def version.case)

lemma new_client_enter_shape:
  "new_client_enter fn si =
     emits ((if 4 \<le> g_dbg si then [Dbg 4 fn [S ''called'']] else [])
            @ [Print [S ''['', I (num_cli si + 1), S '']A new client has connected'', S nl]]
            @ (if 0 \<le> g_dbg si
               then [Dbg 0 fn [S ''*************Cliented connected! ['', I (num_cli si + 1), S '']'']]
               else []))
       (si\<lparr>num_cli := num_cli si + 1, connected := True\<rparr>)"
  by (simp add: new_client_enter_def Let_def prim_emits)

lemma close_enter_shape:
  "close_enter fn si =
     emits ((if 4 \<le> g_dbg si then [Dbg 4 fn [S ''called'']] else [])
            @ [Print [S ''['', I (num_cli si - 1), S '']Client is closing down'', S nl]])
       (si\<lparr>num_cli := num_cli si - 1\<rparr>)"
  by (simp add: close_enter_def Let_def prim_emits)

lemma new_client_first_shape:
  "new_client_first fn si =
     emits (if first_run si
            then (if 2 \<le> g_dbg si
                  then [Dbg 2 fn [S (''Creating '' @ sq @ ''media-configure'' @ sq @ '' signal handler'')]]
                  else []) @ [Signal_connect ''media-configure'']
            else [])
       (si\<lparr>stream := Some (env_malloc si)\<rparr>)"
  by (simp add: new_client_first_def Let_def prim_emits)

lemma core_commute [simp]:
  "core (si\<lparr>num_cli := n\<rparr>) = (core si)\<lparr>num_cli := n\<rparr>"
  "core (si\<lparr>stream := st\<rparr>) = (core si)\<lparr>stream := st\<rparr>"
  "core (si\<lparr>connected := c\<rparr>) = (core si)\<lparr>connected := c\<rparr>"
  "core (si\<lparr>curr_quant_lvl := q\<rparr>) = (core si)\<lparr>curr_quant_lvl := q\<rparr>"
  "core (si\<lparr>curr_bitrate := b\<rparr>) = (core si)\<lparr>curr_bitrate := b\<rparr>"
  "core (si\<lparr>first_run := fr\<rparr>) = (core si)\<lparr>first_run := fr\<rparr>"
  by (simp_all add: core_def)

lemma core_new_client_leave [simp]:
  "core (new_client_leave v fn si) = (core si)\<lparr>first_run := False\<rparr>"
  by (simp add: new_client_leave_def Let_def)

lemma core_close_leave [simp]: "core (close_leave fn si) = core si"
  by (simp add: close_leave_def)

lemma core_new_client_enter [simp]:
  "core (new_client_enter fn si) = (core si)\<lparr>num_cli := num_cli si + 1, connected := True\<rparr>"
  by (simp add: new_client_enter_shape)

lemma core_close_enter [simp]:
  "core (close_enter fn si) = (core si)\<lparr>num_cli := num_cli si - 1\<rparr>"
  by (simp add: close_enter_shape)

lemma core_new_client_first [simp]:
  "core (new_client_first fn si) = (core si)\<lparr>stream := Some (env_malloc si)\<rparr>"
  by (simp add: new_client_first_shape)

lemma close_last_core:
  "close_last v fn si = Inr si' \<Longrightarrow> core si' = (core si)\<lparr>connected := False, stream := None\<rparr>"
  by (auto simp add: close_last_def Let_def split: option.splits)

declare config_of_core [simp]

lemma config_handlers [simp]:
  "config (new_client_enter fn si) = config si"
  "config (close_enter fn si) = config si"
  "config (new_client_first fn si) = config si"
  "config (new_client_leave v fn si) = config si"
  "config (close_leave fn si) = config si"
  by (simp_all add: new_client_enter_shape close_enter_shape new_client_first_shape
        new_client_leave_def close_leave_def Let_def)

lemma config_close_last: "close_last v fn si = Inr si' \<Longrightarrow> config si' = config si"
proof -
  assume "close_last v fn si = Inr si'"
  then have "core si' = (core si)\<lparr>connected := False, stream := None\<rparr>"
    by (rule close_last_core)
  then have "config (core si') = config ((core si)\<lparr>connected := False, stream := None\<rparr>)"
    by simp
  then show ?thesis by simp
qed

lemma config_change:
  "change_bitrate v si = Inr si' \<Longrightarrow> config si' = config si"
  "change_quant_of v si = Inr si' \<Longrightarrow> config si' = config si"
proof -
  show "change_bitrate v si = Inr si' \<Longrightarrow> config si' = config si"
    by (drule change_bitrate_shape) auto
  show "change_quant_of v si = Inr si' \<Longrightarrow> config si' = config si"
    by (cases v) (auto simp add: change_quant_of_def dest!: change_quant_shape changeQuant_shape)
qed

lemma config_new_client: "new_client v si = Inr si' \<Longrightarrow> config si' = config si"
  unfolding new_client_unfold
  by (auto split: if_splits sum.splits dest!: config_change)

lemma config_client_close: "client_close v si = Inr si' \<Longrightarrow> config si' = config si"
  unfolding client_close_unfold
  by (auto split: if_splits sum.splits dest!: config_change config_close_last)

lemma config_configure [simp]:
  "config (configure_source arr si) = config si"
  "config (configure_encoder v arr si) = config si"
  "config (configure_protocol arr si) = config si"
  "config (configure_timer fn si) = config si"
  by (simp_all add: configure_source_def configure_encoder_def set_encoder_properties_def
        configure_protocol_def configure_timer_def split: option.splits version.splits)

lemma config_media_configure:
  "media_configure_handler v media si = Inr si' \<Longrightarrow> config si' = config si"
  by (auto simp add: media_configure_handler_def Let_def split: option.splits)

lemma config_reader: "reader v stack avail si = Inr si' \<Longrightarrow> config si' = config si"
  by (drule core_reader) (rule config_core)

lemma runs_config: "runs v si0 si \<Longrightarrow> config si = config si0"
proof (induction rule: runs.induct)
  case start
  show ?case by simp
next
  case (client_connected si si')
  then show ?case by (simp add: config_new_client)
next
  case (closed si si')
  then show ?case by (simp add: config_client_close)
next
  case (configure si media si')
  then show ?case by (simp add: config_media_configure)
next
  case (poll si stack avail si')
  then show ?case by (simp add: config_reader)
next
  case (environment si opens atof strtod block)
  then show ?case by simp
qed

lemma core_fields [simp]:
  "num_cli (core si) = num_cli si"
  "stream (core si) = stream si"
  "connected (core si) = connected si"
  "enable_variable_mode (core si) = enable_variable_mode si"
  "steps (core si) = steps si"
  "min_quant_lvl (core si) = min_quant_lvl si"
  "max_quant_lvl (core si) = max_quant_lvl si"
  "curr_quant_lvl (core si) = curr_quant_lvl si"
  "min_bitrate (core si) = min_bitrate si"
  "max_bitrate (core si) = max_bitrate si"
  "curr_bitrate (core si) = curr_bitrate si"
  "status_pipe (core si) = status_pipe si"
  "g_dbg (core si) = g_dbg si"
  "first_run (core si) = first_run si"
  "env_atof (core si) = env_atof si"
  "env_strtod (core si) = env_strtod si"
  "env_malloc (core si) = env_malloc si"
  by (simp_all add: core_def)

lemma config_fields [simp]:
  "enable_variable_mode (config si) = enable_variable_mode si"
  "steps (config si) = steps si"
  "min_quant_lvl (config si) = min_quant_lvl si"
  "max_quant_lvl (config si) = max_quant_lvl si"
  "min_bitrate (config si) = min_bitrate si"
  "max_bitrate (config si) = max_bitrate si"
  "status_pipe (config si) = status_pipe si"
  "g_dbg (config si) = g_dbg si"
  by (simp_all add: config_def)

lemma core_eqD:
  assumes "core a = core b"
  shows "num_cli a = num_cli b" "stream a = stream b" "connected a = connected b"
    "curr_quant_lvl a = curr_quant_lvl b" "curr_bitrate a = curr_bitrate b"
    "first_run a = first_run b" "config a = config b"
proof -
  have "num_cli (core a) = num_cli (core b)" "stream (core a) = stream (core b)"
    "connected (core a) = connected (core b)"
    "curr_quant_lvl (core a) = curr_quant_lvl (core b)"
    "curr_bitrate (core a) = curr_bitrate (core b)"
    "first_run (core a) = first_run (core b)" "config (core a) = config (core b)"
    using assms by simp_all
  then show "num_cli a = num_cli b" "stream a = stream b" "connected a = connected b"
    "curr_quant_lvl a = curr_quant_lvl b" "curr_bitrate a = curr_bitrate b"
    "first_run a = first_run b" "config a = config b"
    by simp_all
qed

lemma config_eqD:
  assumes "config a = config b"
  shows "enable_variable_mode a = enable_variable_mode b" "steps a = steps b"
    "min_quant_lvl a = min_quant_lvl b" "max_quant_lvl a = max_quant_lvl b"
    "min_bitrate a = min_bitrate b" "max_bitrate a = max_bitrate b"
    "status_pipe a = status_pipe b" "g_dbg a = g_dbg b"
proof -
  have "enable_variable_mode (config a) = enable_variable_mode (config b)"
    "steps (config a) = steps (config b)"
    "min_quant_lvl (config a) = min_quant_lvl (config b)"
    "max_quant_lvl (config a) = max_quant_lvl (config b)"
    "min_bitrate (config a) = min_bitrate (config b)"
    "max_bitrate (config a) = max_bitrate (config b)"
    "status_pipe (config a) = status_pipe (config b)"
    "g_dbg (config a) = g_dbg (config b)"
    using assms by simp_all
  then show "enable_variable_mode a = enable_variable_mode b" "steps a = steps b"
    "min_quant_lvl a = min_quant_lvl b" "max_quant_lvl a = max_quant_lvl b"
    "min_bitrate a = min_bitrate b" "max_bitrate a = max_bitrate b"
    "status_pipe a = status_pipe b" "g_dbg a = g_dbg b"
    by simp_all
qed

text \<open>The current values across the parts of the callbacks.\<close>

lemma handler_curr [simp]:
  "curr_bitrate (new_client_enter fn si) = curr_bitrate si"
  "curr_quant_lvl (new_client_enter fn si) = curr_quant_lvl si"
  "curr_bitrate (close_enter fn si) = curr_bitrate si"
  "curr_quant_lvl (close_enter fn si) = curr_quant_lvl si"
  "curr_bitrate (new_client_first fn si) = curr_bitrate si"
  "curr_quant_lvl (new_client_first fn si) = curr_quant_lvl si"
  "curr_bitrate (close_leave fn si) = curr_bitrate si"
  "curr_quant_lvl (close_leave fn si) = curr_quant_lvl si"
  by (simp_all add: new_client_enter_shape close_enter_shape new_client_first_shape close_leave_def)

lemma leave_curr [simp]:
  "curr_bitrate (new_client_leave v fn si) = curr_bitrate si"
  "curr_quant_lvl (new_client_leave v fn si) = curr_quant_lvl si"
proof -
  have "curr_bitrate (core (new_client_leave v fn si)) = curr_bitrate si"
    "curr_quant_lvl (core (new_client_leave v fn si)) = curr_quant_lvl si"
    by simp_all
  then show "curr_bitrate (new_client_leave v fn si) = curr_bitrate si"
    "curr_quant_lvl (new_client_leave v fn si) = curr_quant_lvl si"
    by (simp_all only: core_fields)
qed

lemma close_last_curr:
  assumes "close_last v fn si = Inr si'"
  shows "curr_bitrate si' = curr_bitrate si" "curr_quant_lvl si' = curr_quant_lvl si"
proof -
  from assms have c: "core si' = (core si)\<lparr>connected := False, stream := None\<rparr>"
    by (rule close_last_core)
  have "curr_bitrate (core si') = curr_bitrate si" "curr_quant_lvl (core si') = curr_quant_lvl si"
    unfolding c by simp_all
  then show "curr_bitrate si' = curr_bitrate si" "curr_quant_lvl si' = curr_quant_lvl si"
    by (simp_all only: core_fields)
qed

lemma selects_bitrate_frame [simp]:
  "selects_bitrate v (new_client_enter fn si) = selects_bitrate v si"
  "selects_bitrate v (close_enter fn si) = selects_bitrate v si"
  by (cases v; simp add: selects_bitrate_def new_client_enter_shape close_enter_shape)+

lemma enter_config_fields [simp]:
  "min_bitrate (new_client_enter fn si) = min_bitrate si"
  "max_quant_lvl (new_client_enter fn si) = max_quant_lvl si"
  "min_bitrate (close_enter fn si) = min_bitrate si"
  "max_quant_lvl (close_enter fn si) = max_quant_lvl si"
  "enable_variable_mode (new_client_enter fn si) = enable_variable_mode si"
  "enable_variable_mode (close_enter fn si) = enable_variable_mode si"
  "num_cli (new_client_enter fn si) = num_cli si + 1"
  "num_cli (close_enter fn si) = num_cli si - 1"
  by (simp_all add: new_client_enter_shape close_enter_shape)

text \<open>
  What one callback does to the current bitrate and quant level: each is left as it was,
  or it is set by the scaling that the callback selects.
\<close>

lemma change_bitrate_curr_quant:
  "change_bitrate v si = Inr si' \<Longrightarrow> curr_quant_lvl si' = curr_quant_lvl si"
  by (drule change_bitrate_shape) auto

lemma change_bitrate_curr_bitrate:
  "change_bitrate v si = Inr si' \<Longrightarrow>
   curr_bitrate si' = curr_bitrate si \<or> sint (min_bitrate si) \<le> sint (curr_bitrate si')"
  by (drule change_bitrate_shape) auto

lemma change_quant_of_curr_bitrate:
  "change_quant_of v si = Inr si' \<Longrightarrow> curr_bitrate si' = curr_bitrate si"
  by (cases v) (auto simp add: change_quant_of_def dest!: change_quant_shape changeQuant_shape)

lemma change_quant_of_curr_quant:
  "change_quant_of v si = Inr si' \<Longrightarrow>
   curr_quant_lvl si' = curr_quant_lvl si \<or> v = V1_4 \<or> 0 < sint (max_quant_lvl si)"
  by (cases v) (auto simp add: change_quant_of_def dest!: changeQuant_shape)

lemma new_client_curr:
  assumes "new_client v si = Inr si'"
  shows "curr_bitrate si' = curr_bitrate si
           \<or> selects_bitrate v si \<and> sint (min_bitrate si) \<le> sint (curr_bitrate si')"
    and "curr_quant_lvl si' = curr_quant_lvl si
           \<or> \<not> selects_bitrate v si \<and> (v = V1_4 \<or> 0 < sint (max_quant_lvl si))"
  using assms unfolding new_client_unfold
  by (auto split: if_splits sum.splits
        dest: change_bitrate_curr_quant change_bitrate_curr_bitrate
          change_quant_of_curr_bitrate change_quant_of_curr_quant)

lemma client_close_curr:
  assumes "client_close v si = Inr si'"
  shows "curr_bitrate si' = curr_bitrate si
           \<or> selects_bitrate v si \<and> sint (min_bitrate si) \<le> sint (curr_bitrate si')"
    and "curr_quant_lvl si' = curr_quant_lvl si
           \<or> \<not> selects_bitrate v si \<and> (v = V1_4 \<or> 0 < sint (max_quant_lvl si))"
  using assms unfolding client_close_unfold
  by (auto split: if_splits sum.splits
        dest: change_bitrate_curr_quant change_bitrate_curr_bitrate
          change_quant_of_curr_bitrate change_quant_of_curr_quant close_last_curr)

lemma configure_curr [simp]:
  "curr_bitrate (configure_source arr si) = curr_bitrate si"
  "curr_quant_lvl (configure_source arr si) = curr_quant_lvl si"
  "curr_bitrate (configure_encoder v arr si) = curr_bitrate si"
  "curr_quant_lvl (configure_encoder v arr si) = curr_quant_lvl si"
  "curr_bitrate (configure_protocol arr si) = curr_bitrate si"
  "curr_quant_lvl (configure_protocol arr si) = curr_quant_lvl si"
  "curr_bitrate (configure_timer fn si) = curr_bitrate si"
  "curr_quant_lvl (configure_timer fn si) = curr_quant_lvl si"
  by (simp_all add: configure_source_def configure_encoder_def set_encoder_properties_def
        configure_protocol_def configure_timer_def prim_emits
        split: option.splits version.splits)

lemma media_configure_curr:
  assumes "media_configure_handler v media si = Inr si'"
  shows "curr_bitrate si' = curr_bitrate si" "curr_quant_lvl si' = curr_quant_lvl si"
  using assms
  by (auto simp add: media_configure_handler_def Let_def prim_emits split: option.splits)

lemma reader_curr:
  assumes "reader v stack avail si = Inr si'"
  shows "curr_bitrate si' = curr_bitrate si" "curr_quant_lvl si' = curr_quant_lvl si"
  using core_eqD(4,5) [OF core_reader [OF assms]] by simp_all

lemma sint_zero_iff [simp]: "(sint (x :: 32 word) = 0) = (x = 0)"
  by (rule signed_eq_0_iff)

lemma sint_pos_iff: "0 \<le> sint (x :: 32 word) \<Longrightarrow> (0 < sint x) = (x \<noteq> 0)"
  by (auto simp add: order_less_le)

text \<open>
  Along a run of version 1.4 the current bitrate is nonzero exactly if the configured
  maximum is positive: it starts as the maximum, and the bitrate scaling never stores a
  value below the minimum, which is at least 1.
\<close>

lemma runs_bitrate_mode:
  assumes br: "0 < sint max_br" and cfg: "main_config V1_4 max_br opts env = Inr si0"
    and run: "runs V1_4 si0 si"
  shows "(curr_bitrate si \<noteq> 0) = (0 < sint (max_bitrate si0))"
  using run
proof (induction rule: runs.induct)
  case start
  have "curr_bitrate si0 = max_bitrate si0" "0 \<le> sint (max_bitrate si0)"
    using main_config_range(7,6) [OF br cfg] by simp_all
  then show ?case by (auto simp add: order_less_le)
next
  case (client_connected si si')
  have m: "1 \<le> sint (min_bitrate si)"
    using config_eqD(5) [OF runs_config [OF client_connected.hyps(1)]] main_config_range(5) [OF br cfg]
    by simp
  from new_client_curr(1) [OF client_connected.hyps(2)] m client_connected.IH
  show ?case by (auto simp add: selects_bitrate_def)
next
  case (closed si si')
  have m: "1 \<le> sint (min_bitrate si)"
    using config_eqD(5) [OF runs_config [OF closed.hyps(1)]] main_config_range(5) [OF br cfg]
    by simp
  from client_close_curr(1) [OF closed.hyps(2)] m closed.IH
  show ?case by (auto simp add: selects_bitrate_def)
next
  case (configure si media si')
  then show ?case by (simp add: media_configure_curr)
next
  case (poll si stack avail si')
  then show ?case by (simp add: reader_curr)
next
  case (environment si opens atof strtod block)
  then show ?case by simp
qed

text \<open>The same for both versions, in terms of the test the callbacks make.\<close>

lemma runs_selects_bitrate:
  assumes br: "0 < sint max_br" and cfg: "main_config v max_br opts env = Inr si0"
    and run: "runs v si0 si"
  shows "selects_bitrate v si = (0 < sint (max_bitrate si0))"
proof (cases v)
  case V1_4
  with runs_bitrate_mode [OF br] cfg run show ?thesis
    by (simp add: selects_bitrate_def)
next
  case V1_5
  have "max_bitrate si = max_bitrate si0"
    using config_eqD(6) [OF runs_config [OF run]] .
  moreover have "0 \<le> sint (max_bitrate si0)"
    using main_config_range(6) [OF br cfg] .
  ultimately show ?thesis
    using V1_5 by (auto simp add: selects_bitrate_def order_less_le)
qed

section \<open>Claim C3: which scaling a callback invokes\<close>

text \<open>With the array allocated and positive steps, the scalings return.\<close>

lemma change_returns:
  assumes "stream si = Some arr" and "0 < sint (steps si)"
  shows "\<exists>si'. change_bitrate v si = Inr si'" and "\<exists>si'. change_quant_of v si = Inr si'"
proof -
  obtain s1 where s1: "c_div (max_bitrate si - min_bitrate si) (steps si) = Some s1"
    using c_div_pos [OF assms(2)] by blast
  obtain s2 where s2: "c_div (max_quant_lvl si - min_quant_lvl si) (steps si) = Some s2"
    using c_div_pos [OF assms(2)] by blast
  show "\<exists>si'. change_bitrate v si = Inr si'"
  proof (cases "encoder arr")
    case None
    then show ?thesis using change_bitrate_unbound [OF assms(1)] by blast
  next
    case (Some enc)
    then show ?thesis using change_bitrate_bound [OF assms(1) Some s1] by blast
  qed
  show "\<exists>si'. change_quant_of v si = Inr si'"
  proof (cases "encoder arr")
    case None
    then show ?thesis
      using change_quant_unbound [OF assms(1)] changeQuant_unbound [OF assms(1)]
      by (cases v) (auto simp add: change_quant_of_def)
  next
    case (Some enc)
    show ?thesis
    proof (cases v)
      case V1_4
      then show ?thesis
        using change_quant_bound [OF assms(1) Some s2] by (simp add: change_quant_of_def)
    next
      case V1_5
      show ?thesis
      proof (cases "0 < sint (max_quant_lvl si)")
        case True
        then show ?thesis
          using changeQuant_bound [OF assms(1) Some True s2] V1_5 by (simp add: change_quant_of_def)
      next
        case False
        then show ?thesis
          using changeQuant_unbound [OF assms(1), of ] V1_5 by (simp add: change_quant_of_def)
      qed
    qed
  qed
qed

lemma change_session:
  "change_bitrate v si = Inr si' \<Longrightarrow>
   num_cli si' = num_cli si \<and> connected si' = connected si \<and> stream si' = stream si"
  "change_quant_of v si = Inr si' \<Longrightarrow>
   num_cli si' = num_cli si \<and> connected si' = connected si \<and> stream si' = stream si"
proof -
  show "change_bitrate v si = Inr si' \<Longrightarrow>
      num_cli si' = num_cli si \<and> connected si' = connected si \<and> stream si' = stream si"
    by (drule change_bitrate_shape) auto
  show "change_quant_of v si = Inr si' \<Longrightarrow>
      num_cli si' = num_cli si \<and> connected si' = connected si \<and> stream si' = stream si"
    by (cases v) (auto simp add: change_quant_of_def dest!: change_quant_shape changeQuant_shape)
qed

lemma enter_session_fields [simp]:
  "stream (new_client_enter fn si) = stream si"
  "connected (new_client_enter fn si)"
  "steps (new_client_enter fn si) = steps si"
  "env_malloc (new_client_enter fn si) = env_malloc si"
  "stream (close_enter fn si) = stream si"
  "connected (close_enter fn si) = connected si"
  "steps (close_enter fn si) = steps si"
  by (simp_all add: new_client_enter_shape close_enter_shape)

lemma leave_session_fields [simp]:
  "num_cli (new_client_leave v fn si) = num_cli si"
  "stream (new_client_leave v fn si) = stream si"
  "connected (new_client_leave v fn si) = connected si"
  "num_cli (close_leave fn si) = num_cli si"
  "stream (close_leave fn si) = stream si"
  "connected (close_leave fn si) = connected si"
proof -
  have "num_cli (core (new_client_leave v fn si)) = num_cli si"
    "stream (core (new_client_leave v fn si)) = stream si"
    "connected (core (new_client_leave v fn si)) = connected si"
    by simp_all
  then show "num_cli (new_client_leave v fn si) = num_cli si"
    "stream (new_client_leave v fn si) = stream si"
    "connected (new_client_leave v fn si) = connected si"
    by (simp_all only: core_fields)
  show "num_cli (close_leave fn si) = num_cli si"
    "stream (close_leave fn si) = stream si"
    "connected (close_leave fn si) = connected si"
    by (simp_all add: close_leave_def)
qed

lemma core_configure [simp]:
  "core (configure_source arr si) = core si"
  "core (configure_encoder v arr si) = core si"
  "core (configure_protocol arr si) = core si"
  "core (configure_timer fn si) = core si"
  by (simp_all add: configure_source_def configure_encoder_def set_encoder_properties_def
        configure_protocol_def configure_timer_def split: option.splits version.splits)

text \<open>The callbacks return, and what they do to the client count and the array.\<close>

lemma new_client_first_returns:
  assumes "num_cli si = 0"
  shows "\<exists>si'. new_client v si = Inr si' \<and> num_cli si' = 1 \<and> connected si'
           \<and> stream si' = Some (env_malloc si) \<and> config si' = config si"
proof -
  let ?fn = "new_client_name v"
  let ?r = "new_client_leave v ?fn (new_client_first ?fn (new_client_enter ?fn si))"
  have r: "new_client v si = Inr ?r"
    unfolding new_client_unfold using assms by simp
  have c: "core ?r = (core si)\<lparr>num_cli := 1, connected := True,
      stream := Some (env_malloc (new_client_enter ?fn si)), first_run := False\<rparr>"
    using assms by simp
  have "num_cli (core ?r) = 1" "connected (core ?r)"
    "stream (core ?r) = Some (env_malloc (new_client_enter ?fn si))"
    unfolding c by simp_all
  then have "num_cli ?r = 1" "connected ?r"
    "stream ?r = Some (env_malloc (new_client_enter ?fn si))"
    by (simp_all only: core_fields)
  moreover have "config ?r = config si"
    by simp
  ultimately show ?thesis using r by simp
qed

lemma new_client_next_returns:
  assumes "stream si = Some arr" and "0 < sint (steps si)" and "num_cli si + 1 \<noteq> 1"
  shows "\<exists>si'. new_client v si = Inr si' \<and> num_cli si' = num_cli si + 1 \<and> connected si'
           \<and> stream si' = Some arr \<and> config si' = config si"
proof -
  let ?fn = "new_client_name v"
  let ?e = "new_client_enter ?fn si"
  have e: "stream ?e = Some arr" "0 < sint (steps ?e)"
    using assms by simp_all
  have "\<exists>mid. (if enable_variable_mode ?e
            then (if selects_bitrate v ?e then change_bitrate v ?e else change_quant_of v ?e)
            else Inr ?e) = Inr mid
          \<and> num_cli mid = num_cli si + 1 \<and> connected mid \<and> stream mid = Some arr"
  proof (cases "enable_variable_mode ?e")
    case False
    then show ?thesis using assms(1) by simp
  next
    case True
    show ?thesis
    proof (cases "selects_bitrate v ?e")
      case b: True
      from change_returns(1) [OF e] obtain mid where m: "change_bitrate v ?e = Inr mid" by blast
      from change_session(1) [OF m] True b m assms(1) show ?thesis by simp
    next
      case b: False
      from change_returns(2) [OF e] obtain mid where m: "change_quant_of v ?e = Inr mid" by blast
      from change_session(2) [OF m] True b m assms(1) show ?thesis by simp
    qed
  qed
  then obtain mid where m: "(if enable_variable_mode ?e
            then (if selects_bitrate v ?e then change_bitrate v ?e else change_quant_of v ?e)
            else Inr ?e) = Inr mid"
    and f: "num_cli mid = num_cli si + 1" "connected mid" "stream mid = Some arr"
    by blast
  have r: "new_client v si = Inr (new_client_leave v ?fn mid)"
    unfolding new_client_unfold using assms(3) m by simp
  have "config (new_client_leave v ?fn mid) = config si"
    using config_new_client [OF r] .
  with f r show ?thesis by simp
qed

lemma media_configure_returns:
  assumes "stream si = Some arr"
  shows "\<exists>si'. media_configure_handler v media si = Inr si' \<and> num_cli si' = num_cli si
           \<and> connected si' = connected si \<and> config si' = config si
           \<and> stream si' = Some \<lparr>pipeline = Some media,
                  source = gst_bin_get_by_name media ''source0'',
                  encoder = gst_bin_get_by_name media ''enc0'',
                  protocol = gst_bin_get_by_name media ''pay0''\<rparr>"
proof -
  obtain si' where r: "media_configure_handler v media si = Inr si'"
    and c: "core si' = (core si)\<lparr>stream := Some (arr\<lparr>pipeline := Some media,
                  source := gst_bin_get_by_name media ''source0'',
                  encoder := gst_bin_get_by_name media ''enc0'',
                  protocol := gst_bin_get_by_name media ''pay0''\<rparr>)\<rparr>"
    using assms by (simp add: media_configure_handler_def Let_def prim_emits)
  have "num_cli (core si') = num_cli si" "connected (core si') = connected si"
    "stream (core si') = Some \<lparr>pipeline = Some media,
                  source = gst_bin_get_by_name media ''source0'',
                  encoder = gst_bin_get_by_name media ''enc0'',
                  protocol = gst_bin_get_by_name media ''pay0''\<rparr>"
    unfolding c by simp_all
  then have "num_cli si' = num_cli si" "connected si' = connected si"
    "stream si' = Some \<lparr>pipeline = Some media,
                  source = gst_bin_get_by_name media ''source0'',
                  encoder = gst_bin_get_by_name media ''enc0'',
                  protocol = gst_bin_get_by_name media ''pay0''\<rparr>"
    by (simp_all only: core_fields)
  with r config_media_configure [OF r] show ?thesis by simp
qed

lemma after_Inr [simp]: "after (Inr si) = si"
  by (simp add: after_def)

lemma demo_bin_elements:
  "\<lparr>pipeline = Some demo_bin, source = gst_bin_get_by_name demo_bin ''source0'',
    encoder = gst_bin_get_by_name demo_bin ''enc0'',
    protocol = gst_bin_get_by_name demo_bin ''pay0''\<rparr> = demo_elements"
  by (simp add: demo_elements_def demo_bin_def gst_bin_get_by_name_def demo_source_def
        demo_caps_def demo_enc_def demo_pay_def)

lemma int_max_pos: "0 < sint (2147483647 :: gint)"
  by simp

text \<open>The example session is a run of the program, with two clients and the example pipeline configured.\<close>

lemma demo_session_runs:
  assumes cfg: "main_config v 2147483647 opts env0 = Inr s0"
  shows "runs v s0 (demo_session v opts)" "num_cli (demo_session v opts) = 2"
    "stream (demo_session v opts) = Some demo_elements" "connected (demo_session v opts)"
    "config (demo_session v opts) = config s0"
proof -
  have d: "demo_config v opts = s0"
    using cfg by (simp add: demo_config_def)
  note mr = main_config_range [OF int_max_pos cfg]
  from new_client_first_returns [OF mr(9), of v] obtain a1 where
    r1: "new_client v s0 = Inr a1" and f1: "num_cli a1 = 1" "connected a1"
      "stream a1 = Some (env_malloc s0)" "config a1 = config s0"
    by blast
  from media_configure_returns [OF f1(3), of v demo_bin] obtain a2 where
    r2: "media_configure_handler v demo_bin a1 = Inr a2" and f2: "num_cli a2 = 1" "connected a2"
      "stream a2 = Some demo_elements" "config a2 = config s0"
    using f1 by (auto simp add: demo_bin_elements)
  have st: "0 < sint (steps a2)"
    using config_eqD(2) [OF f2(4)] mr(4) by simp
  have n: "num_cli a2 + 1 \<noteq> 1" using f2(1) by simp
  from new_client_next_returns [OF f2(3) st n, of v] obtain a3 where
    r3: "new_client v a2 = Inr a3" and f3: "num_cli a3 = 2" "connected a3"
      "stream a3 = Some demo_elements" "config a3 = config s0"
    using f2 by auto
  have s: "demo_session v opts = a3"
    by (simp add: demo_session_def d r1 r2 r3)
  have "runs v s0 a1" using runs.start r1 by (rule runs.client_connected)
  then have "runs v s0 a2" using r2 by (rule runs.configure)
  then have "runs v s0 a3" using r3 by (rule runs.client_connected)
  then show "runs v s0 (demo_session v opts)" by (simp add: s)
  show "num_cli (demo_session v opts) = 2" "stream (demo_session v opts) = Some demo_elements"
    "connected (demo_session v opts)" "config (demo_session v opts) = config s0"
    using f3 by (simp_all add: s)
qed

text \<open>
  Claim C3.  Take any configuration that \<open>main\<close> accepts, with variable mode enabled, and
  any state of a run of the program from it.  (\<open>max_br\<close> is \<open>atoi(MAX_BR)\<close>, positive on
  the target.)  When a client beyond the first attaches, \<open>new_client_handler\<close>
  (\<open>newClientHandler\<close>) is its entry part, then exactly one scaling, then its exit part;
  when a client detaches and clients remain, the same holds of \<open>client_close_handler\<close>
  (\<open>clientCloseHandler\<close>).  The scaling is the bitrate scaling if the configured maximum
  bitrate is positive and the quant scaling otherwise.  The entry and exit parts call no
  scaling, so whatever either callback returns, the quant level is untouched when the
  bitrate scaling is selected and the bitrate is untouched otherwise.
\<close>

theorem C3_one_scaling_by_configuration:
  assumes br: "0 < sint max_br"
    and cfg: "main_config v max_br opts env = Inr si0"
    and run: "runs v si0 si"
    and vm: "enable_variable_mode si0"
  shows "(num_cli si + 1 \<noteq> 1 \<longrightarrow>
            new_client v si =
              (case (if 0 < sint (max_bitrate si0) then change_bitrate v else change_quant_of v)
                      (new_client_enter (new_client_name v) si) of
                 Inl f \<Rightarrow> Inl f
               | Inr si' \<Rightarrow> Inr (new_client_leave v (new_client_name v) si')))
       \<and> (num_cli si - 1 \<noteq> 0 \<longrightarrow>
            client_close v si =
              (case (if 0 < sint (max_bitrate si0) then change_bitrate v else change_quant_of v)
                      (close_enter (client_close_name v) si) of
                 Inl f \<Rightarrow> Inl f
               | Inr si' \<Rightarrow> Inr (close_leave (client_close_name v) si')))
       \<and> (\<forall>si'. new_client v si = Inr si' \<or> client_close v si = Inr si' \<longrightarrow>
            (if 0 < sint (max_bitrate si0) then curr_quant_lvl si' = curr_quant_lvl si
             else curr_bitrate si' = curr_bitrate si))"
proof -
  have sel: "selects_bitrate v si = (0 < sint (max_bitrate si0))"
    using br cfg run by (rule runs_selects_bitrate)
  have e: "enable_variable_mode si"
    using config_eqD(1) [OF runs_config [OF run]] vm by simp
  have a: "num_cli si + 1 \<noteq> 1 \<longrightarrow>
            new_client v si =
              (case (if 0 < sint (max_bitrate si0) then change_bitrate v else change_quant_of v)
                      (new_client_enter (new_client_name v) si) of
                 Inl f \<Rightarrow> Inl f
               | Inr si' \<Rightarrow> Inr (new_client_leave v (new_client_name v) si'))"
    unfolding new_client_unfold using sel e by simp
  have b: "num_cli si - 1 \<noteq> 0 \<longrightarrow>
            client_close v si =
              (case (if 0 < sint (max_bitrate si0) then change_bitrate v else change_quant_of v)
                      (close_enter (client_close_name v) si) of
                 Inl f \<Rightarrow> Inl f
               | Inr si' \<Rightarrow> Inr (close_leave (client_close_name v) si'))"
    unfolding client_close_unfold using sel e by simp
  have c: "\<forall>si'. new_client v si = Inr si' \<or> client_close v si = Inr si' \<longrightarrow>
            (if 0 < sint (max_bitrate si0) then curr_quant_lvl si' = curr_quant_lvl si
             else curr_bitrate si' = curr_bitrate si)"
    using new_client_curr [of v si] client_close_curr [of v si] sel by auto
  from a b c show ?thesis by (intro conjI)
qed

lemma main_config_default_v1_4:
  "main_config V1_4 2147483647 [] env0 = Inr (demo_config V1_4 [])"
  by (simp add: demo_config_default_v1_4)
     (simp add: main_config_def main_validate_v1_4_def main_info_v1_4_def)

theorem C3_one_scaling_by_configuration_witness:
  "0 < sint (2147483647 :: gint)
   \<and> main_config V1_4 2147483647 [] env0 = Inr (demo_config V1_4 [])
   \<and> runs V1_4 (demo_config V1_4 []) (demo_session V1_4 [])
   \<and> enable_variable_mode (demo_config V1_4 [])
   \<and> num_cli (demo_session V1_4 []) + 1 \<noteq> 1
   \<and> num_cli (demo_session V1_4 []) - 1 \<noteq> 0
   \<and> 0 < sint (max_bitrate (demo_config V1_4 []))
   \<and> new_client V1_4 (demo_session V1_4 []) =
       (case change_bitrate V1_4 (new_client_enter ''new_client_handler'' (demo_session V1_4 [])) of
          Inl f \<Rightarrow> Inl f
        | Inr si' \<Rightarrow> Inr (new_client_leave V1_4 ''new_client_handler'' si'))
   \<and> client_close V1_4 (demo_session V1_4 []) =
       (case change_bitrate V1_4 (close_enter ''client_close_handler'' (demo_session V1_4 [])) of
          Inl f \<Rightarrow> Inl f
        | Inr si' \<Rightarrow> Inr (close_leave ''client_close_handler'' si'))"
proof -
  note cfg = main_config_default_v1_4
  note run = demo_session_runs [OF cfg]
  have vm: "enable_variable_mode (demo_config V1_4 [])"
    and mb: "0 < sint (max_bitrate (demo_config V1_4 []))"
    by (simp_all add: demo_config_default_v1_4 main_info_v1_4_def)
  have n: "num_cli (demo_session V1_4 []) + 1 \<noteq> 1" "num_cli (demo_session V1_4 []) - 1 \<noteq> 0"
    by (simp_all add: run(2))
  from C3_one_scaling_by_configuration [OF int_max_pos cfg run(1) vm] n mb
  have "new_client V1_4 (demo_session V1_4 []) =
       (case change_bitrate V1_4 (new_client_enter ''new_client_handler'' (demo_session V1_4 [])) of
          Inl f \<Rightarrow> Inl f
        | Inr si' \<Rightarrow> Inr (new_client_leave V1_4 ''new_client_handler'' si'))"
    and "client_close V1_4 (demo_session V1_4 []) =
       (case change_bitrate V1_4 (close_enter ''client_close_handler'' (demo_session V1_4 [])) of
          Inl f \<Rightarrow> Inl f
        | Inr si' \<Rightarrow> Inr (close_leave ''client_close_handler'' si'))"
    by (simp_all add: new_client_name_def client_close_name_def cong: sum.case_cong)
  with int_max_pos cfg run(1) vm n mb show ?thesis by (intro conjI)
qed

lemma main_config_default_v1_5:
  assumes "main_config V1_5 max_br [] env = Inr si0"
  shows "max_quant_lvl si0 = 0" "max_bitrate si0 = 0" "enable_variable_mode si0"
    "curr_quant_lvl si0 = 0"
  using assms
  by (auto simp add: main_config_def main_validate_v1_5_def main_info_v1_5_def Let_def
        split: if_splits)

text \<open>
  Along a run of version 1.5 whose maximum quant level is 0 the current quant level never
  changes.
\<close>

lemma runs_quant_disabled:
  assumes mq: "\<not> 0 < sint (max_quant_lvl si0)" and run: "runs V1_5 si0 si"
  shows "curr_quant_lvl si = curr_quant_lvl si0"
  using run
proof (induction rule: runs.induct)
  case start
  show ?case by simp
next
  case (client_connected si si')
  have "max_quant_lvl si = max_quant_lvl si0"
    using config_eqD(4) [OF runs_config [OF client_connected.hyps(1)]] .
  with new_client_curr(2) [OF client_connected.hyps(2)] mq client_connected.IH
  show ?case by simp
next
  case (closed si si')
  have "max_quant_lvl si = max_quant_lvl si0"
    using config_eqD(4) [OF runs_config [OF closed.hyps(1)]] .
  with client_close_curr(2) [OF closed.hyps(2)] mq closed.IH
  show ?case by simp
next
  case (configure si media si')
  then show ?case by (simp add: media_configure_curr)
next
  case (poll si stack avail si')
  then show ?case by (simp add: reader_curr)
next
  case (environment si opens atof strtod block)
  then show ?case by simp
qed

text \<open>
  Claim C10.  If the maximum quant level is not greater than 0 and the element array is
  allocated, \<open>changeQuant\<close> prints its debug line and does nothing else: the current quant
  level is as before and no property is written.  Under the default configuration of
  version 1.5 (no options) the maximum quant level and the maximum bitrate are 0 and
  variable mode is on, in every state of a run; so the callbacks select the quant scaling,
  it does nothing, and the current quant level stays 0: a client that attaches beyond the
  first, and a client that detaches while clients remain, only print and send the status.
\<close>

theorem C10_quant_scaling_disabled_by_default:
  "(stream s = Some arr \<and> \<not> 0 < sint (max_quant_lvl s) \<longrightarrow>
      changeQuant s = Inr (dbg 4 ''changeQuant'' [S ''called''] s)
      \<and> curr_quant_lvl (dbg 4 ''changeQuant'' [S ''called''] s) = curr_quant_lvl s
      \<and> property_writes (dbg 4 ''changeQuant'' [S ''called''] s) = property_writes s)
   \<and> (main_config V1_5 max_br [] env = Inr si0 \<and> runs V1_5 si0 si \<longrightarrow>
        max_quant_lvl si = 0 \<and> max_bitrate si = 0 \<and> enable_variable_mode si
        \<and> curr_quant_lvl si = 0
        \<and> (num_cli si + 1 \<noteq> 1 \<and> stream si \<noteq> None \<longrightarrow>
             new_client V1_5 si =
               Inr (new_client_leave V1_5 ''newClientHandler''
                      (dbg 4 ''changeQuant'' [S ''called''] (new_client_enter ''newClientHandler'' si))))
        \<and> (num_cli si - 1 \<noteq> 0 \<and> stream si \<noteq> None \<longrightarrow>
             client_close V1_5 si =
               Inr (close_leave ''clientCloseHandler''
                      (dbg 4 ''changeQuant'' [S ''called''] (close_enter ''clientCloseHandler'' si)))))"
proof -
  have a: "stream s = Some arr \<and> \<not> 0 < sint (max_quant_lvl s) \<longrightarrow>
      changeQuant s = Inr (dbg 4 ''changeQuant'' [S ''called''] s)
      \<and> curr_quant_lvl (dbg 4 ''changeQuant'' [S ''called''] s) = curr_quant_lvl s
      \<and> property_writes (dbg 4 ''changeQuant'' [S ''called''] s) = property_writes s"
    using changeQuant_unbound [of s arr] by simp
  have b: "max_quant_lvl si = 0 \<and> max_bitrate si = 0 \<and> enable_variable_mode si
        \<and> curr_quant_lvl si = 0
        \<and> (num_cli si + 1 \<noteq> 1 \<and> stream si \<noteq> None \<longrightarrow>
             new_client V1_5 si =
               Inr (new_client_leave V1_5 ''newClientHandler''
                      (dbg 4 ''changeQuant'' [S ''called''] (new_client_enter ''newClientHandler'' si))))
        \<and> (num_cli si - 1 \<noteq> 0 \<and> stream si \<noteq> None \<longrightarrow>
             client_close V1_5 si =
               Inr (close_leave ''clientCloseHandler''
                      (dbg 4 ''changeQuant'' [S ''called''] (close_enter ''clientCloseHandler'' si))))"
    if cfg: "main_config V1_5 max_br [] env = Inr si0" and run: "runs V1_5 si0 si"
  proof -
    note d = main_config_default_v1_5 [OF cfg]
    note c = config_eqD [OF runs_config [OF run]]
    have f: "max_quant_lvl si = 0" "max_bitrate si = 0" "enable_variable_mode si"
      using c(4) c(6) c(1) d by simp_all
    have q: "curr_quant_lvl si = 0"
      using runs_quant_disabled [OF _ run] d by simp
    have ns: "\<not> selects_bitrate V1_5 si"
      by (simp add: selects_bitrate_def f)
    have n: "new_client V1_5 si =
               Inr (new_client_leave V1_5 ''newClientHandler''
                      (dbg 4 ''changeQuant'' [S ''called''] (new_client_enter ''newClientHandler'' si)))"
      if "num_cli si + 1 \<noteq> 1" and "stream si = Some arr'" for arr'
      unfolding new_client_unfold
      using that f ns changeQuant_unbound [of "new_client_enter ''newClientHandler'' si" arr']
      by (simp add: change_quant_of_def new_client_name_def)
    have e: "client_close V1_5 si =
               Inr (close_leave ''clientCloseHandler''
                      (dbg 4 ''changeQuant'' [S ''called''] (close_enter ''clientCloseHandler'' si)))"
      if "num_cli si - 1 \<noteq> 0" and "stream si = Some arr'" for arr'
      unfolding client_close_unfold
      using that f ns changeQuant_unbound [of "close_enter ''clientCloseHandler'' si" arr']
      by (simp add: change_quant_of_def client_close_name_def)
    from f q n e show ?thesis by auto
  qed
  from a b show ?thesis by blast
qed

lemma main_config_v1_5_default:
  "main_config V1_5 2147483647 [] env0 = Inr (demo_config V1_5 [])"
  by (simp add: demo_config_def main_config_def main_validate_v1_5_def main_info_v1_5_def Let_def)

theorem C10_quant_scaling_disabled_by_default_witness:
  "stream (demo_session V1_5 []) = Some demo_elements
   \<and> \<not> 0 < sint (max_quant_lvl (demo_session V1_5 []))
   \<and> changeQuant (demo_session V1_5 [])
       = Inr (dbg 4 ''changeQuant'' [S ''called''] (demo_session V1_5 []))
   \<and> main_config V1_5 2147483647 [] env0 = Inr (demo_config V1_5 [])
   \<and> runs V1_5 (demo_config V1_5 []) (demo_session V1_5 [])
   \<and> curr_quant_lvl (demo_session V1_5 []) = 0
   \<and> num_cli (demo_session V1_5 []) + 1 \<noteq> 1
   \<and> num_cli (demo_session V1_5 []) - 1 \<noteq> 0
   \<and> stream (demo_session V1_5 []) \<noteq> None
   \<and> new_client V1_5 (demo_session V1_5 []) =
       Inr (new_client_leave V1_5 ''newClientHandler''
              (dbg 4 ''changeQuant'' [S ''called'']
                 (new_client_enter ''newClientHandler'' (demo_session V1_5 []))))
   \<and> client_close V1_5 (demo_session V1_5 []) =
       Inr (close_leave ''clientCloseHandler''
              (dbg 4 ''changeQuant'' [S ''called'']
                 (close_enter ''clientCloseHandler'' (demo_session V1_5 []))))"
proof -
  note cfg = main_config_v1_5_default
  note run = demo_session_runs [OF cfg]
  note t = C10_quant_scaling_disabled_by_default
    [of "demo_session V1_5 []" demo_elements 2147483647 env0 "demo_config V1_5 []"
        "demo_session V1_5 []"]
  have n: "num_cli (demo_session V1_5 []) + 1 \<noteq> 1" "num_cli (demo_session V1_5 []) - 1 \<noteq> 0"
    "stream (demo_session V1_5 []) \<noteq> None"
    by (simp_all add: run(2,3))
  from t cfg run(1) have m: "max_quant_lvl (demo_session V1_5 []) = 0"
    and q: "curr_quant_lvl (demo_session V1_5 []) = 0" by simp_all
  have z: "\<not> 0 < sint (max_quant_lvl (demo_session V1_5 []))" by (simp add: m)
  from t run(3) z have c: "changeQuant (demo_session V1_5 [])
       = Inr (dbg 4 ''changeQuant'' [S ''called''] (demo_session V1_5 []))" by simp
  from t cfg run(1) n have h: "new_client V1_5 (demo_session V1_5 []) =
       Inr (new_client_leave V1_5 ''newClientHandler''
              (dbg 4 ''changeQuant'' [S ''called'']
                 (new_client_enter ''newClientHandler'' (demo_session V1_5 []))))"
    "client_close V1_5 (demo_session V1_5 []) =
       Inr (close_leave ''clientCloseHandler''
              (dbg 4 ''changeQuant'' [S ''called'']
                 (close_enter ''clientCloseHandler'' (demo_session V1_5 []))))"
    by simp_all
  from run(3) z c cfg run(1) q n h show ?thesis by (intro conjI)
qed

end
